theory Spec2Isabelle
  imports Main "HOL-Library.AList" "HOL-Library.Sublist"
begin

section \<open>The 3MF workspace reader: data model\<close>

text \<open>
  The development follows \<^verbatim>\<open>plugins/3MFReader/ThreeMFWorkspaceReader.py\<close>: the inspection
  of a project file by \<^verbatim>\<open>preRead\<close>, the write pass of \<^verbatim>\<open>read\<close> up to the loaded extruder stacks
  (lines 435-778), and the helpers for slot identities and child materials.
  Identities, names and file contents are Python strings, modelled as \<^typ>\<open>string\<close>.
  Python exceptions are values of the type \<open>error\<close>; a function of the source that can
  raise returns \<open>error + 'a\<close>, with \<open>Inl\<close> for the exception.
\<close>

datatype error = KeyError | IndexError | AttributeError | RuntimeError | ValueError
  | NoSectionError | NoOptionError
  | InterpolationSyntaxError | InterpolationMissingOptionError | InterpolationDepthError

text \<open>
  A stack file is an INI document. The source reads it with \<^verbatim>\<open>ConfigParser\<close>; the model
  starts from the parsed document: the sections in file order, each with its options in
  file order, the option names in lower case as the parser stores them and the values as
  written in the file. The model covers documents without a \<^verbatim>\<open>[DEFAULT]\<close> section, so the
  options of a section are its own.
\<close>

type_synonym config = "(string \<times> (string \<times> string) list) list"

definition has_section :: "config \<Rightarrow> string \<Rightarrow> bool" where
  "has_section parser s = (map_of parser s \<noteq> None)"

definition items :: "config \<Rightarrow> string \<Rightarrow> (string \<times> string) list" where
  "items parser s = (case map_of parser s of None \<Rightarrow> [] | Some kvs \<Rightarrow> kvs)"

definition get_option :: "config \<Rightarrow> string \<Rightarrow> string \<Rightarrow> string option" where
  "get_option parser s k = (case map_of parser s of None \<Rightarrow> None | Some kvs \<Rightarrow> map_of kvs k)"

definition has_option :: "config \<Rightarrow> string \<Rightarrow> string \<Rightarrow> bool" where
  "has_option parser s k = (get_option parser s k \<noteq> None)"

text \<open>
  The parsers of lines 1085 and 1106 are made with \<^verbatim>\<open>interpolation=None\<close> and return the values
  as written: \<open>get_option\<close> above. The parsers of lines 276, 381, 535 and 733 are made by
  \<^verbatim>\<open>ConfigParser()\<close>, whose \<^verbatim>\<open>get\<close> and \<^verbatim>\<open>set\<close> go through \<^verbatim>\<open>BasicInterpolation\<close> of the Python
  standard library. The following definitions follow that class.
\<close>

text \<open>\<^verbatim>\<open>optionxform\<close>: an option name in lower case.\<close>

definition lower_char :: "char \<Rightarrow> char" where
  "lower_char c =
     (if 65 \<le> (of_char c :: nat) \<and> (of_char c :: nat) \<le> 90
      then char_of ((of_char c :: nat) + 32) else c)"

definition optionxform :: "string \<Rightarrow> string" where
  "optionxform optionstr = map lower_char optionstr"

text \<open>
  The pattern \<^verbatim>\<open>_KEYCRE\<close>, \<^verbatim>\<open>%\(([^)]+)\)s\<close>, matched against a text that begins with \<^verbatim>\<open>%(\<close>.
  The argument is the text after these two characters; the result is the name between the
  parentheses and the text after the match.
\<close>

definition key_reference :: "string \<Rightarrow> (string \<times> string) option" where
  "key_reference cs =
     (let var = takeWhile (\<lambda>c. c \<noteq> CHR '')'') cs;
          closing = dropWhile (\<lambda>c. c \<noteq> CHR '')'') cs
      in if var \<noteq> [] \<and> take 2 closing = '')s'' then Some (var, drop 2 closing) else None)"

definition MAX_INTERPOLATION_DEPTH :: nat where
  "MAX_INTERPOLATION_DEPTH = 10"

text \<open>
  \<^verbatim>\<open>_interpolate_some\<close>: the text up to the next \<^verbatim>\<open>%\<close> is copied; \<^verbatim>\<open>%%\<close> gives \<^verbatim>\<open>%\<close>; a reference
  \<^verbatim>\<open>%(name)s\<close> gives the value of the option \<^verbatim>\<open>name\<close> of the same section, itself interpolated
  one level deeper when it contains \<^verbatim>\<open>%\<close>; any other use of \<^verbatim>\<open>%\<close> is a syntax error.
\<close>

function interpolate_some :: "(string \<times> string) list \<Rightarrow> nat \<Rightarrow> string \<Rightarrow> error + string" where
  "interpolate_some options depth rest =
     (if depth > MAX_INTERPOLATION_DEPTH then Inl InterpolationDepthError
      else case rest of
        [] \<Rightarrow> Inr []
      | c # cs \<Rightarrow>
          if c \<noteq> CHR ''%'' then
            (case interpolate_some options depth cs of
               Inl e \<Rightarrow> Inl e
             | Inr accum \<Rightarrow> Inr (c # accum))
          else
            (case cs of
               [] \<Rightarrow> Inl InterpolationSyntaxError
             | c2 # cs2 \<Rightarrow>
                 if c2 = CHR ''%'' then
                   (case interpolate_some options depth cs2 of
                      Inl e \<Rightarrow> Inl e
                    | Inr accum \<Rightarrow> Inr (CHR ''%'' # accum))
                 else if c2 = CHR ''('' then
                   (case key_reference cs2 of
                      None \<Rightarrow> Inl InterpolationSyntaxError
                    | Some (var, rest2) \<Rightarrow>
                        (case map_of options (optionxform var) of
                           None \<Rightarrow> Inl InterpolationMissingOptionError
                         | Some v \<Rightarrow>
                             (case (if CHR ''%'' \<in> set v
                                    then interpolate_some options (Suc depth) v
                                    else Inr v) of
                                Inl e \<Rightarrow> Inl e
                              | Inr replaced \<Rightarrow>
                                  (case interpolate_some options depth rest2 of
                                     Inl e \<Rightarrow> Inl e
                                   | Inr accum \<Rightarrow> Inr (replaced @ accum)))))
                 else Inl InterpolationSyntaxError))"
  by pat_completeness auto
termination
proof (relation "measures [\<lambda>(options, depth, rest). Suc MAX_INTERPOLATION_DEPTH - depth,
                           \<lambda>(options, depth, rest). length rest]")
  show "wf (measures [\<lambda>(options, depth, rest). Suc MAX_INTERPOLATION_DEPTH - depth,
                      \<lambda>(options, depth, rest). length rest])"
    by simp
next
  fix options :: "(string \<times> string) list" and depth :: nat and rest :: string
    and c cs c2 cs2 x var rest2
  assume "cs = c2 # cs2" "rest = c # cs" "key_reference cs2 = Some x" "(var, rest2) = x"
  then have "rest2 = drop 2 (dropWhile (\<lambda>c. c \<noteq> CHR '')'') cs2)"
    by (auto simp: key_reference_def Let_def split: if_splits)
  moreover have "length (dropWhile (\<lambda>c. c \<noteq> CHR '')'') cs2) \<le> length cs2"
    by (rule length_dropWhile_le)
  ultimately have "length rest2 \<le> length cs2" by simp
  then show "((options, depth, rest2), options, depth, rest)
      \<in> measures [\<lambda>(options, depth, rest). Suc MAX_INTERPOLATION_DEPTH - depth,
                   \<lambda>(options, depth, rest). length rest]"
    using \<open>cs = c2 # cs2\<close> \<open>rest = c # cs\<close> by simp
qed auto

declare interpolate_some.simps [simp del]

text \<open>\<^verbatim>\<open>before_get\<close>, and \<^verbatim>\<open>ConfigParser.get(section, option)\<close> without a fallback.\<close>

definition before_get :: "(string \<times> string) list \<Rightarrow> string \<Rightarrow> error + string" where
  "before_get options v = interpolate_some options 1 v"

definition parser_get :: "config \<Rightarrow> string \<Rightarrow> string \<Rightarrow> error + string" where
  "parser_get parser s k =
     (case map_of parser s of
        None \<Rightarrow> Inl NoSectionError
      | Some options \<Rightarrow>
          (case map_of options (optionxform k) of
             None \<Rightarrow> Inl NoOptionError
           | Some v \<Rightarrow> before_get options v))"

text \<open>The mapping access \<^verbatim>\<open>parser[section][key]\<close>: a section or a key that is not there raises
  \<^verbatim>\<open>KeyError\<close>, and a key that is there is read by \<^verbatim>\<open>get\<close>.\<close>

definition parser_getitem :: "config \<Rightarrow> string \<Rightarrow> string \<Rightarrow> error + string" where
  "parser_getitem parser s k =
     (case map_of parser s of
        None \<Rightarrow> Inl KeyError
      | Some options \<Rightarrow>
          if map_of options (optionxform k) = None then Inl KeyError
          else parser_get parser s k)"

text \<open>
  \<^verbatim>\<open>before_set\<close> refuses a value in which a \<^verbatim>\<open>%\<close> is left after every \<^verbatim>\<open>%%\<close> and then every
  reference \<^verbatim>\<open>%(name)s\<close> has been taken out. \<^verbatim>\<open>ConfigParser.set(section, option, value)\<close>
  checks a value that is not empty, and then assigns the option of a section that exists.
\<close>

fun remove_escaped :: "string \<Rightarrow> string" where
  "remove_escaped (a # b # cs) =
     (if a = CHR ''%'' \<and> b = CHR ''%'' then remove_escaped cs else a # remove_escaped (b # cs))"
| "remove_escaped cs = cs"

function remove_references :: "string \<Rightarrow> string" where
  "remove_references [] = []"
| "remove_references (c # cs) =
     (case (if c = CHR ''%'' \<and> take 1 cs = ''(''
            then key_reference (drop 1 cs) else None) of
        None \<Rightarrow> c # remove_references cs
      | Some (var, rest) \<Rightarrow> remove_references rest)"
  by pat_completeness auto
termination
proof (relation "measure length")
  show "wf (measure length)" by simp
next
  fix c :: char and cs :: string and x var rest
  assume "(if c = CHR ''%'' \<and> take 1 cs = ''('' then key_reference (drop 1 cs) else None) = Some x"
    "(var, rest) = x"
  then have "rest = drop 2 (dropWhile (\<lambda>c. c \<noteq> CHR '')'') (drop 1 cs))"
    by (auto simp: key_reference_def Let_def split: if_splits)
  moreover have "length (dropWhile (\<lambda>c. c \<noteq> CHR '')'') (drop 1 cs)) \<le> length (drop 1 cs)"
    by (rule length_dropWhile_le)
  ultimately have "length rest \<le> length cs" by simp
  then show "(rest, c # cs) \<in> measure length" by simp
qed auto

definition before_set :: "string \<Rightarrow> error + string" where
  "before_set v =
     (if CHR ''%'' \<in> set (remove_references (remove_escaped v)) then Inl ValueError else Inr v)"

definition parser_set :: "config \<Rightarrow> string \<Rightarrow> string \<Rightarrow> string \<Rightarrow> error + config" where
  "parser_set parser s k v =
     (case (if v \<noteq> [] then before_set v else Inr v) of
        Inl e \<Rightarrow> Inl e
      | Inr checked \<Rightarrow>
          (case map_of parser s of
             None \<Rightarrow> Inl NoSectionError
           | Some options \<Rightarrow>
               Inr (AList.update s (AList.update (optionxform k) checked options) parser)))"

text \<open>Python's \<^verbatim>\<open>str.split(sep)\<close> for a one-character separator: the empty string splits
  into one empty field, and adjacent separators give empty fields.\<close>

fun split_on :: "char \<Rightarrow> string \<Rightarrow> string list" where
  "split_on sep [] = [[]]"
| "split_on sep (c # cs) =
     (if c = sep then [] # split_on sep cs
      else (case split_on sep cs of
              [] \<Rightarrow> [[c]]
            | w # ws \<Rightarrow> (c # w) # ws))"

section \<open>Slot identities of a serialized stack\<close>

text \<open>
  \<^verbatim>\<open>_getContainerIdListFromSerialized\<close>, lines 1084-1103. The identities come from the
  \<^verbatim>\<open>[containers]\<close> section when the document has one, otherwise from the comma-separated
  option \<^verbatim>\<open>general/containers\<close> with the empty fields dropped.
\<close>

definition parsed_container_ids :: "config \<Rightarrow> string list" where
  "parsed_container_ids parser =
     (if has_section parser ''containers'' then map snd (items parser ''containers'')
      else if has_option parser ''general'' ''containers'' then
        (let container_string = (case get_option parser ''general'' ''containers'' of
                                   None \<Rightarrow> [] | Some v \<Rightarrow> v);
             container_list = split_on CHR '','' container_string
         in filter (\<lambda>container_id. container_id \<noteq> []) container_list)
      else [])"

text \<open>Python's \<^verbatim>\<open>list.insert(i, x)\<close> for a non-negative index: the element goes before
  position \<open>i\<close>, or to the end of a shorter list.\<close>

definition list_insert :: "nat \<Rightarrow> 'a \<Rightarrow> 'a list \<Rightarrow> 'a list" where
  "list_insert i x xs = take i xs @ x # drop i xs"

definition upgrade_container_ids :: "string list \<Rightarrow> string list" where
  "upgrade_container_ids container_ids =
     (if length container_ids = 6 then list_insert 5 ''empty'' container_ids
      else container_ids)"

definition getContainerIdListFromSerialized :: "config \<Rightarrow> string list" where
  "getContainerIdListFromSerialized parser = upgrade_container_ids (parsed_container_ids parser)"

section \<open>Containers, stacks and the registry\<close>

text \<open>
  A container (definition, instance profile or material) has an identity, a name, metadata and
  setting instances. A stack holds the identities of the containers in its slots, by slot
  index; a machine (global) stack also maps each extruder position to its extruder stack.
\<close>

record container =
  container_id :: string
  container_name :: string
  container_metadata :: "(string \<times> string) list"
  container_instances :: "(string \<times> string) list"
  container_dirty :: bool

record container_stack =
  stack_id :: string
  stack_name :: string
  stack_metadata :: "(string \<times> string) list"
  stack_containers :: "string list"

record global_stack = container_stack +
  extruders :: "(string \<times> container_stack) list"

datatype entry =
    DefinitionContainer container
  | InstanceContainer container
  | ExtruderStack container_stack
  | GlobalStack global_stack

record registry =
  entries :: "entry list"
  read_only :: "string list"

fun entry_id :: "entry \<Rightarrow> string" where
  "entry_id (DefinitionContainer c) = container_id c"
| "entry_id (InstanceContainer c) = container_id c"
| "entry_id (ExtruderStack s) = stack_id s"
| "entry_id (GlobalStack g) = stack_id g"

fun as_definition :: "entry \<Rightarrow> container option" where
  "as_definition (DefinitionContainer c) = Some c"
| "as_definition _ = None"

fun as_instance :: "entry \<Rightarrow> container option" where
  "as_instance (InstanceContainer c) = Some c"
| "as_instance _ = None"

fun as_global_stack :: "entry \<Rightarrow> global_stack option" where
  "as_global_stack (GlobalStack g) = Some g"
| "as_global_stack _ = None"

fun is_stack :: "entry \<Rightarrow> bool" where
  "is_stack (ExtruderStack s) = True"
| "is_stack (GlobalStack g) = True"
| "is_stack _ = False"

text \<open>
  Modelled from the spec: the registry is the external collaborator of section 6
  (\<^verbatim>\<open>findByIdentity\<close>, \<^verbatim>\<open>add\<close>, \<^verbatim>\<open>remove\<close>, \<^verbatim>\<open>isReadOnly\<close>); its class is not part of the
  source file. A query returns the matching live records in registry order, and the source
  takes element 0 of the answer. A query by metadata matches the key \<open>id\<close> against the
  identity and every other key against the metadata.
\<close>

definition findContainersMetadata :: "registry \<Rightarrow> string \<Rightarrow> entry list" where
  "findContainersMetadata reg cid = filter (\<lambda>e. entry_id e = cid) (entries reg)"

definition findDefinitionContainersMetadata :: "registry \<Rightarrow> string \<Rightarrow> container list" where
  "findDefinitionContainersMetadata reg cid =
     filter (\<lambda>c. container_id c = cid) (List.map_filter as_definition (entries reg))"

definition matches :: "(string \<times> string) list \<Rightarrow> container \<Rightarrow> bool" where
  "matches criteria c =
     list_all (\<lambda>(k, v). if k = ''id'' then container_id c = v
                         else map_of (container_metadata c) k = Some v) criteria"

definition findInstanceContainers :: "registry \<Rightarrow> (string \<times> string) list \<Rightarrow> container list" where
  "findInstanceContainers reg criteria =
     filter (matches criteria) (List.map_filter as_instance (entries reg))"

definition findContainerStacks :: "registry \<Rightarrow> string \<Rightarrow> global_stack list" where
  "findContainerStacks reg cid =
     filter (\<lambda>g. stack_id g = cid) (List.map_filter as_global_stack (entries reg))"

definition findContainerStacksMetadata :: "registry \<Rightarrow> string \<Rightarrow> entry list" where
  "findContainerStacksMetadata reg cid =
     filter (\<lambda>e. is_stack e \<and> entry_id e = cid) (entries reg)"

definition isReadOnly :: "registry \<Rightarrow> string \<Rightarrow> bool" where
  "isReadOnly reg cid = (cid \<in> set (read_only reg))"

text \<open>\<^verbatim>\<open>getMetaDataEntry(key)\<close> and \<^verbatim>\<open>getContainer(index).getId()\<close>. Reading a slot the stack
  does not have raises \<^verbatim>\<open>IndexError\<close>.\<close>

definition getMetaDataEntry :: "(string \<times> string) list \<Rightarrow> string \<Rightarrow> string option" where
  "getMetaDataEntry metadata k = map_of metadata k"

definition getContainer :: "'a container_stack_scheme \<Rightarrow> nat \<Rightarrow> error + string" where
  "getContainer s index =
     (if index < length (stack_containers s) then Inr (stack_containers s ! index)
      else Inl IndexError)"

text \<open>The slot indices of \<^verbatim>\<open>_ContainerIndexes\<close>; the source's comment at line 1098 names
  index 5 as the definition-changes slot.\<close>

definition Material :: nat where "Material = 3"
definition DefinitionChanges :: nat where "DefinitionChanges = 5"

definition replaceContainer :: "'a container_stack_scheme \<Rightarrow> nat \<Rightarrow> string \<Rightarrow> 'a container_stack_scheme" where
  "replaceContainer s index cid = s\<lparr>stack_containers := (stack_containers s)[index := cid]\<rparr>"

section \<open>Child material resolution\<close>

text \<open>
  \<^verbatim>\<open>_replaceStackMaterialWithNew\<close>, lines 1022-1073. The dictionary from old parent
  material identities to the new material containers is an association list with distinct
  keys, visited in its order. The loop keeps the best key and its length, starting from
  \<^verbatim>\<open>None\<close> and \<open>-1\<close>.
\<close>

fun best_matching_loop :: "string \<Rightarrow> string list \<Rightarrow> string option \<times> int \<Rightarrow> string option \<times> int" where
  "best_matching_loop old_material_id_in_stack [] best = best"
| "best_matching_loop old_material_id_in_stack (old_parent_material_id # rest)
       (best_matching_old_material_id, best_matching_old_material_prefix_length) =
     (if int (length old_parent_material_id) < best_matching_old_material_prefix_length then
        best_matching_loop old_material_id_in_stack rest
          (best_matching_old_material_id, best_matching_old_material_prefix_length)
      else if length old_parent_material_id \<le> length old_material_id_in_stack
            \<and> old_parent_material_id = take (length old_parent_material_id) old_material_id_in_stack then
        best_matching_loop old_material_id_in_stack rest
          (Some old_parent_material_id, int (length old_parent_material_id))
      else
        best_matching_loop old_material_id_in_stack rest
          (best_matching_old_material_id, best_matching_old_material_prefix_length))"

definition best_matching_old_material_id :: "string \<Rightarrow> string list \<Rightarrow> string option" where
  "best_matching_old_material_id old_material_id_in_stack keys =
     fst (best_matching_loop old_material_id_in_stack keys (None, - 1))"

definition replaceStackMaterialWithNew ::
  "registry \<Rightarrow> 'a container_stack_scheme \<Rightarrow> (string \<times> container) list
     \<Rightarrow> error + 'a container_stack_scheme" where
  "replaceStackMaterialWithNew reg stack old_new_material_dict =
     (case getContainer stack Material of
        Inl e \<Rightarrow> Inl e
      | Inr old_material_id_in_stack \<Rightarrow>
          (case best_matching_old_material_id old_material_id_in_stack
                  (map fst old_new_material_dict) of
             None \<Rightarrow> Inr stack
           | Some best \<Rightarrow>
               (case map_of old_new_material_dict best of
                  None \<Rightarrow> Inl KeyError
                | Some new_parent \<Rightarrow>
                    (let new_material_id =
                           container_id new_parent @ drop (length best) old_material_id_in_stack
                     in case findInstanceContainers reg
                               [(''id'', new_material_id), (''type'', ''material'')] of
                          [] \<Rightarrow> Inr stack
                        | new_material # _ \<Rightarrow>
                            Inr (replaceContainer stack Material (container_id new_material))))))"

section \<open>Inspection: \<^verbatim>\<open>preRead\<close>\<close>

text \<open>
  A bundle entry that holds a stack: the identity obtained from the file name by
  \<^verbatim>\<open>_stripFileToId\<close>, and the parsed document.
\<close>

record stack_file =
  file_id :: string
  file_parser :: config

subsection \<open>Materials, lines 177-191\<close>

text \<open>
  The loop over the material files of the bundle, given by their identities. The state is
  \<^verbatim>\<open>containers_found_dict["material"]\<close> and \<^verbatim>\<open>material_conflict\<close>. The material labels
  collected by the same loop are for display and are left out.
\<close>

fun material_loop :: "registry \<Rightarrow> string list \<Rightarrow> bool \<times> bool \<Rightarrow> bool \<times> bool" where
  "material_loop reg [] state = state"
| "material_loop reg (cid # material_container_files) (found_material, material_conflict) =
     (if findContainersMetadata reg cid \<noteq> [] then
        material_loop reg material_container_files
          (True, if \<not> isReadOnly reg cid then True else material_conflict)
      else material_loop reg material_container_files (found_material, material_conflict))"

definition inspect_materials :: "bool \<Rightarrow> registry \<Rightarrow> string list \<Rightarrow> bool \<times> bool" where
  "inspect_materials xml_material_profile reg material_container_files =
     (if xml_material_profile then material_loop reg material_container_files (False, False)
      else (False, False))"

subsection \<open>Instance containers, lines 193-244\<close>

text \<open>
  The loop over the deserialized instance containers of the bundle. The comparison
  \<^verbatim>\<open>!=\<close> of two instance containers belongs to the container class, which is not part of
  the source file; it is the parameter \<open>differs\<close>.
\<close>

record instance_scan =
  quality_name :: string
  num_settings_overriden_by_quality_changes :: nat
  num_settings_overriden_by_definition_changes :: nat
  num_user_settings :: nat
  quality_changes_conflict :: bool
  definition_changes_conflict :: bool
  containers_found_dict :: "(string \<times> bool) list"

definition instance_step ::
  "(container \<Rightarrow> container \<Rightarrow> bool) \<Rightarrow> registry \<Rightarrow> container \<Rightarrow> instance_scan \<Rightarrow> instance_scan" where
  "instance_step differs reg instance_container st =
     (let container_type = getMetaDataEntry (container_metadata instance_container) ''type'' in
      if container_type = Some ''quality_changes'' then
        (let st1 = st\<lparr>quality_name := container_name instance_container,
                      num_settings_overriden_by_quality_changes :=
                        num_settings_overriden_by_quality_changes st
                          + length (container_instances instance_container)\<rparr>
         in case findInstanceContainers reg [(''id'', container_id instance_container)] of
              [] \<Rightarrow> st1
            | existing # _ \<Rightarrow>
                (let st2 = st1\<lparr>containers_found_dict :=
                                 AList.update ''quality_changes'' True (containers_found_dict st1)\<rparr>
                 in if differs existing instance_container
                    then st2\<lparr>quality_changes_conflict := True\<rparr> else st2))
      else if container_type = Some ''definition_changes'' then
        (let st1 = st\<lparr>num_settings_overriden_by_definition_changes :=
                        num_settings_overriden_by_definition_changes st
                          + length (container_instances instance_container)\<rparr>
         in case findInstanceContainers reg [(''id'', container_id instance_container)] of
              [] \<Rightarrow> st1
            | existing # _ \<Rightarrow>
                (let st2 = st1\<lparr>containers_found_dict :=
                                 AList.update ''definition_changes'' True (containers_found_dict st1)\<rparr>
                 in if differs existing instance_container
                    then st2\<lparr>definition_changes_conflict := True\<rparr> else st2))
      else if container_type = Some ''quality'' then
        (if quality_name st = [] then st\<lparr>quality_name := container_name instance_container\<rparr>
         else st)
      else if container_type = Some ''user'' then
        st\<lparr>num_user_settings := num_user_settings st
                                   + length (container_instances instance_container)\<rparr>
      else st)"

fun instance_loop ::
  "(container \<Rightarrow> container \<Rightarrow> bool) \<Rightarrow> registry \<Rightarrow> container list \<Rightarrow> instance_scan \<Rightarrow> instance_scan" where
  "instance_loop differs reg [] st = st"
| "instance_loop differs reg (instance_container # rest) st =
     instance_loop differs reg rest (instance_step differs reg instance_container st)"

text \<open>The state at line 203: \<^verbatim>\<open>containers_found_dict\<close> as initialised at line 139 and, when
  called after the material loop, with the material flag that loop computed.\<close>

definition initial_scan :: "(string \<times> bool) list \<Rightarrow> instance_scan" where
  "initial_scan found =
     \<lparr>quality_name = [],
      num_settings_overriden_by_quality_changes = 0,
      num_settings_overriden_by_definition_changes = 0,
      num_user_settings = 0,
      quality_changes_conflict = False,
      definition_changes_conflict = False,
      containers_found_dict = found\<rparr>"

definition resolve_strategy_keys :: "string list" where
  "resolve_strategy_keys = [''machine'', ''material'', ''quality_changes'']"

definition initial_containers_found_dict :: "(string \<times> bool) list" where
  "initial_containers_found_dict = map (\<lambda>k. (k, False)) resolve_strategy_keys"

definition inspect_instance_containers ::
  "(container \<Rightarrow> container \<Rightarrow> bool) \<Rightarrow> registry \<Rightarrow> container list \<Rightarrow> instance_scan" where
  "inspect_instance_containers differs reg instance_containers =
     instance_loop differs reg instance_containers (initial_scan initial_containers_found_dict)"

subsection \<open>The machine stack and its extruder stacks, lines 246-303\<close>

text \<open>\<^verbatim>\<open>_old_empty_profile_id_dict\<close>, line 65, and its use
  \<^verbatim>\<open>self._old_empty_profile_id_dict.get(container_id, container_id)\<close>.\<close>

definition old_empty_profile_id_dict :: "(string \<times> string) list" where
  "old_empty_profile_id_dict =
     map (\<lambda>k. (''empty_'' @ k, ''empty'')) [''material'', ''variant'']"

definition old_empty_profile_id :: "string \<Rightarrow> string" where
  "old_empty_profile_id cid =
     (case map_of old_empty_profile_id_dict cid of
        None \<Rightarrow> cid
      | Some new_id \<Rightarrow> new_id)"

text \<open>
  The loop \<^verbatim>\<open>for index, container_id in enumerate(id_list)\<close> of lines 263-268 and 298-303:
  it stops with a difference at the first index whose live occupant has another identity.
  The result says whether the loop assigned \<^verbatim>\<open>machine_conflict = True\<close>.
\<close>

fun slots_differ :: "'a container_stack_scheme \<Rightarrow> nat \<Rightarrow> string list \<Rightarrow> error + bool" where
  "slots_differ live index [] = Inr False"
| "slots_differ live index (cid # id_list) =
     (case getContainer live index of
        Inl e \<Rightarrow> Inl e
      | Inr live_id \<Rightarrow>
          if live_id \<noteq> old_empty_profile_id cid then Inr True
          else slots_differ live (Suc index) id_list)"

text \<open>\<^verbatim>\<open>_getMachineNameFromSerializedStack\<close>, lines 1105-1108: \<^verbatim>\<open>parser["general"]\<close> raises
  \<^verbatim>\<open>KeyError\<close> when the document has no such section.\<close>

definition getMachineNameFromSerializedStack :: "config \<Rightarrow> error + string" where
  "getMachineNameFromSerializedStack parser =
     (case map_of parser ''general'' of
        None \<Rightarrow> Inl KeyError
      | Some kvs \<Rightarrow> Inr (case map_of kvs ''name'' of None \<Rightarrow> [] | Some n \<Rightarrow> n))"

text \<open>Lines 254-268: the machine name is read from the file first, at line 256. Then the
  live stack with the identity of the bundle's machine stack file, if there is one, and the
  value of \<^verbatim>\<open>machine_conflict\<close> at line 269.
  \<^verbatim>\<open>containers_found_dict["machine"]\<close> is true exactly when a live stack is returned.\<close>

definition check_global_stack :: "registry \<Rightarrow> stack_file \<Rightarrow> error + (global_stack option \<times> bool)" where
  "check_global_stack reg global_stack_file =
     (case getMachineNameFromSerializedStack (file_parser global_stack_file) of
        Inl e \<Rightarrow> Inl e
      | Inr machine_name \<Rightarrow>
          (case findContainerStacks reg (file_id global_stack_file) of
             [] \<Rightarrow> Inr (None, False)
           | live # _ \<Rightarrow>
               (case slots_differ live 0
                       (getContainerIdListFromSerialized (file_parser global_stack_file)) of
                  Inl e \<Rightarrow> Inl e
                | Inr machine_conflict \<Rightarrow> Inr (Some live, machine_conflict))))"

text \<open>Line 260: \<^verbatim>\<open>containers_found_dict["machine"] = True\<close> when a live stack was found.\<close>

definition found_machine :: "global_stack option \<Rightarrow> (string \<times> bool) list \<Rightarrow> (string \<times> bool) list" where
  "found_machine live found =
     (case live of None \<Rightarrow> found | Some global_stack \<Rightarrow> AList.update ''machine'' True found)"

text \<open>Lines 273-303: the loop over the extruder stack files. The parser of line 276 is made
  by \<^verbatim>\<open>ConfigParser()\<close>, so \<^verbatim>\<open>parser["metadata"]["position"]\<close> raises \<^verbatim>\<open>KeyError\<close> when the
  document has no such option and interpolates the value that is there; the identity list
  is read by the parser of line 1085, without interpolation. The \<^verbatim>\<open>break\<close> of the inner loop
  leaves only the inner loop, so the next extruder file is still visited; the \<^verbatim>\<open>break\<close> of
  line 293 leaves the loop over the files.\<close>

fun extruder_loop :: "global_stack \<Rightarrow> stack_file list \<Rightarrow> bool \<Rightarrow> error + bool" where
  "extruder_loop live [] machine_conflict = Inr machine_conflict"
| "extruder_loop live (extruder_stack_file # rest) machine_conflict =
     (case parser_getitem (file_parser extruder_stack_file) ''metadata'' ''position'' of
        Inl e \<Rightarrow> Inl e
      | Inr position \<Rightarrow>
          (case map_of (extruders live) position of
             None \<Rightarrow> Inr False
           | Some existing_extruder_stack \<Rightarrow>
               (case slots_differ existing_extruder_stack 0
                       (getContainerIdListFromSerialized (file_parser extruder_stack_file)) of
                  Inl e \<Rightarrow> Inl e
                | Inr d \<Rightarrow> extruder_loop live rest (if d then True else machine_conflict))))"

text \<open>The machine conflict flag handed to the dialog at line 336.\<close>

definition inspect_machine :: "registry \<Rightarrow> stack_file \<Rightarrow> stack_file list \<Rightarrow> error + bool" where
  "inspect_machine reg global_stack_file extruder_stack_files =
     (case check_global_stack reg global_stack_file of
        Inl e \<Rightarrow> Inl e
      | Inr (None, machine_conflict) \<Rightarrow> Inr machine_conflict
      | Inr (Some live, machine_conflict) \<Rightarrow>
          if \<not> machine_conflict then extruder_loop live extruder_stack_files machine_conflict
          else Inr machine_conflict)"

subsection \<open>Default resolve strategies, lines 361-376\<close>

text \<open>
  A strategy is \<^verbatim>\<open>None\<close> or a string. The dictionary returned by the dialog is visited item
  by item; an item is skipped when its key is not in \<^verbatim>\<open>containers_found_dict\<close> or its strategy
  is not \<^verbatim>\<open>None\<close>, and otherwise its entry is assigned.
\<close>

fun default_loop ::
  "(string \<times> bool) list \<Rightarrow> (string \<times> string option) list \<Rightarrow> (string \<times> string option) list
     \<Rightarrow> (string \<times> string option) list" where
  "default_loop found [] resolve_strategies = resolve_strategies"
| "default_loop found ((key, strategy) # rest) resolve_strategies =
     (case map_of found key of
        None \<Rightarrow> default_loop found rest resolve_strategies
      | Some exists \<Rightarrow>
          if strategy \<noteq> None then default_loop found rest resolve_strategies
          else default_loop found rest
                 (AList.update key (Some (if exists then ''override'' else ''new''))
                    resolve_strategies))"

definition default_resolve_strategies ::
  "(string \<times> bool) list \<Rightarrow> (string \<times> string option) list \<Rightarrow> (string \<times> string option) list" where
  "default_resolve_strategies found dialog_result = default_loop found dialog_result dialog_result"

section \<open>The write pass: \<^verbatim>\<open>read\<close>\<close>

subsection \<open>Registry updates and deserialization\<close>

text \<open>
  Modelled from the spec: \<^verbatim>\<open>add\<close> and \<^verbatim>\<open>remove\<close> of the registry (section 6), whose class is
  not part of the source file. Identities are unique in the registry (section 3), so a record
  whose identity is already present is not added, and removal by identity removes what has
  that identity.
\<close>

definition addContainer :: "registry \<Rightarrow> entry \<Rightarrow> registry" where
  "addContainer reg e =
     (if findContainersMetadata reg (entry_id e) \<noteq> [] then reg
      else reg\<lparr>entries := entries reg @ [e]\<rparr>)"

definition removeContainer :: "registry \<Rightarrow> string \<Rightarrow> registry" where
  "removeContainer reg cid = reg\<lparr>entries := filter (\<lambda>e. entry_id e \<noteq> cid) (entries reg)\<rparr>"

text \<open>
  A live record is a Python object shared with the registry: a change made through a
  reference obtained from a query is a change of the registry's record. The model writes the
  changed record back over the first record of its kind with that identity, which is the
  record the query returned as element 0.
\<close>

fun replace_first :: "(entry \<Rightarrow> bool) \<Rightarrow> entry \<Rightarrow> entry list \<Rightarrow> entry list" where
  "replace_first P new [] = []"
| "replace_first P new (e # es) = (if P e then new # es else e # replace_first P new es)"

definition is_instance_with_id :: "string \<Rightarrow> entry \<Rightarrow> bool" where
  "is_instance_with_id cid e = (case as_instance e of None \<Rightarrow> False | Some c \<Rightarrow> container_id c = cid)"

definition is_global_stack_with_id :: "string \<Rightarrow> entry \<Rightarrow> bool" where
  "is_global_stack_with_id cid e = (case as_global_stack e of None \<Rightarrow> False | Some g \<Rightarrow> stack_id g = cid)"

definition store_instance :: "registry \<Rightarrow> string \<Rightarrow> container \<Rightarrow> registry" where
  "store_instance reg cid c =
     reg\<lparr>entries := replace_first (is_instance_with_id cid) (InstanceContainer c) (entries reg)\<rparr>"

definition store_global_stack :: "registry \<Rightarrow> string \<Rightarrow> global_stack \<Rightarrow> registry" where
  "store_global_stack reg cid g =
     reg\<lparr>entries := replace_first (is_global_stack_with_id cid) (GlobalStack g) (entries reg)\<rparr>"

text \<open>
  Modelled from the spec: \<^verbatim>\<open>deserialize\<close> of the container and stack classes, which are not
  part of the source file. A serialized record is a flat key/value document with a
  \<^verbatim>\<open>general.name\<close>, a \<^verbatim>\<open>metadata\<close> map and, for a stack, the list of slot identities
  (section 6); a container has its setting values in \<^verbatim>\<open>values\<close>. Deserializing over a record
  replaces these parts by the document's and leaves the identity of the record alone.
\<close>

definition deserialize_container :: "config \<Rightarrow> container \<Rightarrow> container" where
  "deserialize_container parser c =
     c\<lparr>container_name := (case get_option parser ''general'' ''name'' of
                               None \<Rightarrow> container_name c | Some n \<Rightarrow> n),
       container_metadata := items parser ''metadata'',
       container_instances := items parser ''values''\<rparr>"

definition deserialize_stack :: "config \<Rightarrow> 'a container_stack_scheme \<Rightarrow> 'a container_stack_scheme" where
  "deserialize_stack parser s =
     s\<lparr>stack_name := (case get_option parser ''general'' ''name'' of
                           None \<Rightarrow> stack_name s | Some n \<Rightarrow> n),
       stack_metadata := items parser ''metadata'',
       stack_containers := getContainerIdListFromSerialized parser\<rparr>"

text \<open>The constructors \<^verbatim>\<open>InstanceContainer(id)\<close> and \<^verbatim>\<open>GlobalStack(id)\<close>: a record with the
  given identity and nothing else; a new stack has the empty container in each of its 7
  slots.\<close>

definition new_container :: "string \<Rightarrow> container" where
  "new_container cid =
     \<lparr>container_id = cid, container_name = cid, container_metadata = [],
      container_instances = [], container_dirty = False\<rparr>"

definition new_global_stack :: "string \<Rightarrow> global_stack" where
  "new_global_stack sid =
     \<lparr>stack_id = sid, stack_name = sid, stack_metadata = [],
      stack_containers = replicate 7 ''empty'', extruders = []\<rparr>"

text \<open>\<^verbatim>\<open>setMetaDataEntry\<close> assigns the key; \<^verbatim>\<open>addMetaDataEntry\<close> adds a key that is not there
  and leaves a key that is there alone. A Python condition \<^verbatim>\<open>if value:\<close> on an optional
  string holds for a string that is present and not empty.\<close>

definition setMetaDataEntry :: "(string \<times> string) list \<Rightarrow> string \<Rightarrow> string \<Rightarrow> (string \<times> string) list" where
  "setMetaDataEntry metadata k v = AList.update k v metadata"

definition addMetaDataEntry :: "(string \<times> string) list \<Rightarrow> string \<Rightarrow> string \<Rightarrow> (string \<times> string) list" where
  "addMetaDataEntry metadata k v =
     (if map_of metadata k = None then metadata @ [(k, v)] else metadata)"

fun truthy :: "string option \<Rightarrow> bool" where
  "truthy None = False"
| "truthy (Some v) = (v \<noteq> [])"

subsection \<open>The state of \<^verbatim>\<open>read\<close>\<close>

text \<open>
  The bundle: the entries under \<^verbatim>\<open>Cura/\<close> by kind, each with the identity of its file name
  and its parsed document. The machine stack file and the extruder stack files are what
  \<^verbatim>\<open>_determineGlobalAndExtruderStackFiles\<close> returns.
\<close>

record import_bundle =
  bundle_definitions :: "stack_file list"
  bundle_materials :: "stack_file list"
  bundle_instances :: "stack_file list"
  bundle_machine :: stack_file
  bundle_extruders :: "stack_file list"

text \<open>
  The variables of \<^verbatim>\<open>read\<close> that the write pass changes. \<^verbatim>\<open>containers_added\<close> holds the
  identities of the tracked records: the handler reads \<^verbatim>\<open>container.getId()\<close> of each.
\<close>

record read_state =
  st_registry :: registry
  st_id_mapping :: "(string \<times> string) list"
  st_containers_to_add :: "container list"
  st_containers_added :: "string list"
  st_material_containers :: "container list"
  st_user_instance_containers :: "container list"
  st_changes_instance_containers :: "container list"
  st_machine_extruder_count :: "string option"

definition initial_read_state :: "registry \<Rightarrow> read_state" where
  "initial_read_state reg =
     \<lparr>st_registry = reg, st_id_mapping = [], st_containers_to_add = [],
      st_containers_added = [], st_material_containers = [],
      st_user_instance_containers = [], st_changes_instance_containers = [],
      st_machine_extruder_count = None\<rparr>"

text \<open>\<^verbatim>\<open>self._resolve_strategies[key]\<close>: a strategy is \<^verbatim>\<open>None\<close> or a string, and a key that
  the dictionary does not have raises \<^verbatim>\<open>KeyError\<close>.\<close>

definition get_strategy :: "(string \<times> string option) list \<Rightarrow> string \<Rightarrow> error + string option" where
  "get_strategy resolve_strategies k =
     (case map_of resolve_strategies k of None \<Rightarrow> Inl KeyError | Some s \<Rightarrow> Inr s)"

text \<open>\<^verbatim>\<open>getNewId\<close>, lines 69-72. The registry's \<^verbatim>\<open>uniqueName\<close> is a parameter.\<close>

definition getNewId ::
  "(registry \<Rightarrow> string \<Rightarrow> string) \<Rightarrow> read_state \<Rightarrow> string \<Rightarrow> string \<times> read_state" where
  "getNewId uniqueName st old_id =
     (case map_of (st_id_mapping st) old_id of
        Some new_id \<Rightarrow> (new_id, st)
      | None \<Rightarrow>
          (let new_id = uniqueName (st_registry st) old_id
           in (new_id, st\<lparr>st_id_mapping := st_id_mapping st @ [(old_id, new_id)]\<rparr>)))"

subsection \<open>Identities of the stacks to load, lines 451-473\<close>

record identities =
  global_stack_id_original :: string
  global_stack_id_new :: string
  global_stack_name_new :: string
  global_stack_need_rename :: bool
  extruder_stack_id_map :: "(string \<times> string) list"

fun extruder_id_loop ::
  "(registry \<Rightarrow> string \<Rightarrow> string) \<Rightarrow> stack_file list
     \<Rightarrow> (string \<times> string) list \<times> read_state \<Rightarrow> (string \<times> string) list \<times> read_state" where
  "extruder_id_loop uniqueName [] acc = acc"
| "extruder_id_loop uniqueName (each_extruder_stack_file # rest) (id_map, st) =
     (let old_container_id = file_id each_extruder_stack_file in
      if findContainerStacksMetadata (st_registry st) old_container_id \<noteq> [] then
        (case getNewId uniqueName st old_container_id of
           (new_container_id, st1) \<Rightarrow>
             extruder_id_loop uniqueName rest
               (AList.update old_container_id new_container_id id_map, st1))
      else extruder_id_loop uniqueName rest
             (AList.update old_container_id old_container_id id_map, st))"

definition plan_identities ::
  "(registry \<Rightarrow> string \<Rightarrow> string) \<Rightarrow> (string \<times> string option) list \<Rightarrow> import_bundle
     \<Rightarrow> read_state \<Rightarrow> error + (identities \<times> read_state)" where
  "plan_identities uniqueName resolve_strategies b st =
     (case getMachineNameFromSerializedStack (file_parser (bundle_machine b)) of
        Inl e \<Rightarrow> Inl e
      | Inr global_stack_name_original \<Rightarrow>
          (case get_strategy resolve_strategies ''machine'' of
             Inl e \<Rightarrow> Inl e
           | Inr strategy \<Rightarrow>
               (let original = file_id (bundle_machine b) in
                if strategy = Some ''new'' then
                  (case (if findContainerStacksMetadata (st_registry st) original \<noteq> []
                         then (case getNewId uniqueName st original of
                                 (new_id, st1) \<Rightarrow> (new_id, True, st1))
                         else (original, False, st)) of
                     (new_id, need_rename, st1) \<Rightarrow>
                       (case extruder_id_loop uniqueName (bundle_extruders b) ([], st1) of
                          (id_map, st2) \<Rightarrow>
                            Inr (\<lparr>global_stack_id_original = original,
                                  global_stack_id_new = new_id,
                                  global_stack_name_new =
                                    uniqueName (st_registry st1) global_stack_name_original,
                                  global_stack_need_rename = need_rename,
                                  extruder_stack_id_map = id_map\<rparr>, st2)))
                else
                  Inr (\<lparr>global_stack_id_original = original,
                        global_stack_id_new = original,
                        global_stack_name_new = global_stack_name_original,
                        global_stack_need_rename = False,
                        extruder_stack_id_map = []\<rparr>, st))))"

subsection \<open>Definitions, lines 478-489\<close>

text \<open>A definition that the registry does not have is added to the registry at once. It is
  not put in \<^verbatim>\<open>containers_to_add\<close> and so never reaches \<^verbatim>\<open>containers_added\<close>.\<close>

fun load_definitions :: "registry \<Rightarrow> stack_file list \<Rightarrow> registry" where
  "load_definitions reg [] = reg"
| "load_definitions reg (definition_container_file # rest) =
     (if findDefinitionContainersMetadata reg (file_id definition_container_file) = [] then
        load_definitions
          (addContainer reg
             (DefinitionContainer
                (deserialize_container (file_parser definition_container_file)
                   (new_container (file_id definition_container_file)))))
          rest
      else load_definitions reg rest)"

subsection \<open>Materials, lines 491-523\<close>

definition load_material ::
  "(registry \<Rightarrow> string \<Rightarrow> string) \<Rightarrow> (string \<times> string option) list \<Rightarrow> stack_file
     \<Rightarrow> read_state \<Rightarrow> error + read_state" where
  "load_material uniqueName resolve_strategies material_container_file st =
     (let cid = file_id material_container_file;
          parser = file_parser material_container_file in
      case findInstanceContainers (st_registry st) [(''id'', cid)] of
        [] \<Rightarrow>
          (let material_container = deserialize_container parser (new_container cid) in
           Inr (st\<lparr>st_containers_to_add := st_containers_to_add st @ [material_container],
                    st_material_containers := st_material_containers st @ [material_container]\<rparr>))
      | existing # _ \<Rightarrow>
          if \<not> isReadOnly (st_registry st) cid then
            (case get_strategy resolve_strategies ''material'' of
               Inl e \<Rightarrow> Inl e
             | Inr strategy \<Rightarrow>
                 if strategy = Some ''override'' then
                   (let material_container = deserialize_container parser existing in
                    Inr (st\<lparr>st_registry := store_instance (st_registry st) cid material_container,
                             st_material_containers :=
                               st_material_containers st @ [material_container]\<rparr>))
                 else if strategy = Some ''new'' then
                   (case getNewId uniqueName st cid of
                      (new_id, st1) \<Rightarrow>
                        (let material_container =
                               deserialize_container parser (new_container new_id) in
                         Inr (st1\<lparr>st_containers_to_add :=
                                     st_containers_to_add st1 @ [material_container],
                                   st_material_containers :=
                                     st_material_containers st1 @ [material_container]\<rparr>)))
                 else Inr (st\<lparr>st_material_containers := st_material_containers st @ [existing]\<rparr>))
          else Inr (st\<lparr>st_material_containers := st_material_containers st @ [existing]\<rparr>))"

fun load_materials ::
  "(registry \<Rightarrow> string \<Rightarrow> string) \<Rightarrow> (string \<times> string option) list \<Rightarrow> stack_file list
     \<Rightarrow> read_state \<Rightarrow> (error \<times> read_state) + read_state" where
  "load_materials uniqueName resolve_strategies [] st = Inr st"
| "load_materials uniqueName resolve_strategies (material_container_file # rest) st =
     (case load_material uniqueName resolve_strategies material_container_file st of
        Inl e \<Rightarrow> Inl (e, st)
      | Inr st1 \<Rightarrow> load_materials uniqueName resolve_strategies rest st1)"

subsection \<open>Instance containers, lines 525-647\<close>

definition ignored_instance_container_types :: "string list" where
  "ignored_instance_container_types = [''quality'', ''variant'']"

text \<open>
  An iteration of the loop works on \<^verbatim>\<open>instance_container\<close>, which is either the container
  deserialized from the file or, after \<^verbatim>\<open>instance_container = user_containers[0]\<close>, the live
  record. The branches return the container as they leave it, whether it is the live record,
  and how often they appended it to \<^verbatim>\<open>containers_to_add\<close>.
\<close>

text \<open>Lines 560-589, type \<open>user\<close>. The call \<^verbatim>\<open>setMetadataEntry\<close> of line 586 names a method
  that the container class does not have, so reaching it raises \<^verbatim>\<open>AttributeError\<close>.\<close>

definition load_user_container ::
  "(string \<times> string option) list \<Rightarrow> (string \<times> string) list \<Rightarrow> config \<Rightarrow> container
     \<Rightarrow> read_state \<Rightarrow> error + (container \<times> bool \<times> nat)" where
  "load_user_container resolve_strategies id_map parser instance_container st =
     (case findInstanceContainers (st_registry st) [(''id'', container_id instance_container)] of
        [] \<Rightarrow> Inr (instance_container, False, 1)
      | existing # _ \<Rightarrow>
          (case get_strategy resolve_strategies ''machine'' of
             Inl e \<Rightarrow> Inl e
           | Inr strategy \<Rightarrow>
               if strategy = Some ''override'' \<or> strategy = None then
                 Inr ((deserialize_container parser existing)\<lparr>container_dirty := True\<rparr>, True, 0)
               else if strategy = Some ''new'' then
                 (case (let old_extruder_id =
                              getMetaDataEntry (container_metadata instance_container) ''extruder''
                        in if truthy old_extruder_id then
                             (case map_of id_map (the old_extruder_id) of
                                None \<Rightarrow> Inl KeyError
                              | Some new_extruder_id \<Rightarrow>
                                  (let new_id = new_extruder_id @ ''_current_settings'' in
                                   Inr (instance_container
                                          \<lparr>container_name := new_id,
                                           container_metadata :=
                                             setMetaDataEntry
                                               (setMetaDataEntry
                                                  (container_metadata instance_container)
                                                  ''id'' new_id)
                                               ''extruder'' new_extruder_id\<rparr>, 1::nat)))
                           else Inr (instance_container, 0)) of
                    Inl e \<Rightarrow> Inl e
                  | Inr (renamed, appended) \<Rightarrow>
                      if truthy (getMetaDataEntry (container_metadata renamed) ''machine'')
                      then Inl AttributeError
                      else Inr (renamed, False, appended))
               else Inr (instance_container, False, 0)))"

text \<open>Lines 591-634, types \<open>quality_changes\<close> and \<open>definition_changes\<close>.\<close>

definition load_changes_container ::
  "(registry \<Rightarrow> string \<Rightarrow> string) \<Rightarrow> (string \<times> string option) list \<Rightarrow> (string \<times> string) list
     \<Rightarrow> string \<Rightarrow> config \<Rightarrow> container \<Rightarrow> read_state
     \<Rightarrow> error + (container \<times> bool \<times> nat \<times> read_state)" where
  "load_changes_container uniqueName resolve_strategies id_map ctype parser instance_container st =
     (case findInstanceContainers (st_registry st) [(''id'', container_id instance_container)] of
        [] \<Rightarrow> Inr (instance_container, False, 1, st)
      | existing # _ \<Rightarrow>
          (case get_strategy resolve_strategies ctype of
             Inl e \<Rightarrow> Inl e
           | Inr strategy \<Rightarrow>
               if strategy = Some ''override'' then
                 Inr ((deserialize_container parser existing)\<lparr>container_dirty := True\<rparr>,
                      True, 0, st)
               else if strategy = Some ''new'' then
                 (let named = instance_container
                        \<lparr>container_name :=
                           uniqueName (st_registry st) (container_name instance_container)\<rparr>
                  in case getNewId uniqueName st (container_id named) of
                       (new_changes_container_id, st1) \<Rightarrow>
                         (let renamed = named\<lparr>container_id := new_changes_container_id\<rparr> in
                          case get_strategy resolve_strategies ''machine'' of
                            Inl e \<Rightarrow> Inl e
                          | Inr machine_strategy \<Rightarrow>
                              if machine_strategy = Some ''new'' then
                                (let old_extruder_id =
                                       getMetaDataEntry (container_metadata renamed) ''extruder'';
                                     relinked =
                                       (if truthy old_extruder_id then
                                          (case map_of id_map (the old_extruder_id) of
                                             None \<Rightarrow> renamed
                                           | Some new_extruder_id \<Rightarrow>
                                               renamed\<lparr>container_metadata :=
                                                 setMetaDataEntry (container_metadata renamed)
                                                   ''extruder'' new_extruder_id\<rparr>)
                                        else renamed);
                                     machine_id =
                                       getMetaDataEntry (container_metadata relinked) ''machine''
                                 in if truthy machine_id then
                                      (case getNewId uniqueName st1 (the machine_id) of
                                         (new_machine_id, st2) \<Rightarrow>
                                           Inr (relinked\<lparr>container_metadata :=
                                                  setMetaDataEntry (container_metadata relinked)
                                                    ''machine'' new_machine_id\<rparr>,
                                                False, 1, st2))
                                    else Inr (relinked, False, 1, st1))
                              else Inr (renamed, False, 1, st1)))
               else Inr (instance_container, False, 0, st)))"

text \<open>Lines 645-647, at the end of an iteration that was not left by \<^verbatim>\<open>continue\<close>.\<close>

definition relink_machine :: "identities \<Rightarrow> container \<Rightarrow> container" where
  "relink_machine ids instance_container =
     (if global_stack_need_rename ids
         \<and> truthy (getMetaDataEntry (container_metadata instance_container) ''machine'')
      then instance_container\<lparr>container_metadata :=
             setMetaDataEntry (container_metadata instance_container) ''machine''
               (global_stack_id_new ids)\<rparr>
      else instance_container)"

text \<open>The effect of an iteration on the state: a change of the live record is a change of the
  registry, and the list \<^verbatim>\<open>containers_to_add\<close> holds the container as the iteration leaves
  it.\<close>

definition finish_instance ::
  "string \<Rightarrow> container \<Rightarrow> bool \<Rightarrow> nat \<Rightarrow> read_state \<Rightarrow> read_state" where
  "finish_instance cid instance_container is_live appended st =
     st\<lparr>st_registry := (if is_live then store_instance (st_registry st) cid instance_container
                         else st_registry st),
        st_containers_to_add := st_containers_to_add st @ replicate appended instance_container\<rparr>"

text \<open>Lines 636-639, any other type: the container is added when no live instance container
  has its identity.\<close>

definition load_other_container :: "identities \<Rightarrow> string \<Rightarrow> container \<Rightarrow> read_state \<Rightarrow> read_state" where
  "load_other_container ids cid instance_container st =
     (let appended = (if findInstanceContainers (st_registry st) [(''id'', cid)] = []
                      then 1 else 0)
      in finish_instance cid (relink_machine ids instance_container) False appended st)"

text \<open>
  An iteration of the loop of lines 530-647. The parser of line 535 is made by
  \<^verbatim>\<open>ConfigParser()\<close>, so the type read at line 540 is interpolated; the type of line 548 is
  the metadata entry of the deserialized container.
\<close>

definition load_instance ::
  "(registry \<Rightarrow> string \<Rightarrow> string) \<Rightarrow> (string \<times> string option) list \<Rightarrow> identities
     \<Rightarrow> stack_file \<Rightarrow> read_state \<Rightarrow> error + read_state" where
  "load_instance uniqueName resolve_strategies ids instance_container_file st =
     (let cid = file_id instance_container_file;
          parser = file_parser instance_container_file in
      if \<not> has_option parser ''metadata'' ''type'' then Inr st
      else
        (case parser_get parser ''metadata'' ''type'' of
           Inl e \<Rightarrow> Inl e
         | Inr parsed_type \<Rightarrow>
             if parsed_type \<in> set ignored_instance_container_types then Inr st
             else
               (let instance_container = deserialize_container parser (new_container cid) in
                case getMetaDataEntry (container_metadata instance_container) ''type'' of
                  None \<Rightarrow> Inr (load_other_container ids cid instance_container st)
                | Some ctype \<Rightarrow>
                    if ctype \<in> set ignored_instance_container_types then Inr st
                    else if ctype = ''user'' then
                      (case load_user_container resolve_strategies (extruder_stack_id_map ids)
                              parser instance_container st of
                         Inl e \<Rightarrow> Inl e
                       | Inr (c, is_live, appended) \<Rightarrow>
                           (let c1 = relink_machine ids c;
                                st1 = st\<lparr>st_user_instance_containers :=
                                            st_user_instance_containers st @ [c1]\<rparr>
                            in Inr (finish_instance cid c1 is_live appended st1)))
                    else if ctype = ''quality_changes'' \<or> ctype = ''definition_changes'' then
                      (case load_changes_container uniqueName resolve_strategies
                              (extruder_stack_id_map ids) ctype parser instance_container st of
                         Inl e \<Rightarrow> Inl e
                       | Inr (c, is_live, appended, st1) \<Rightarrow>
                           (let count = (if ctype = ''definition_changes''
                                         then map_of (container_instances c)
                                                ''machine_extruder_count''
                                         else None);
                                c1 = relink_machine ids c;
                                st2 = st1\<lparr>st_changes_instance_containers :=
                                             st_changes_instance_containers st1 @ [c1],
                                           st_machine_extruder_count :=
                                             (case count of
                                                None \<Rightarrow> st_machine_extruder_count st1
                                              | Some v \<Rightarrow> Some v)\<rparr>
                            in Inr (finish_instance cid c1 is_live appended st2)))
                    else Inr (load_other_container ids cid instance_container st))))"

fun load_instances ::
  "(registry \<Rightarrow> string \<Rightarrow> string) \<Rightarrow> (string \<times> string option) list \<Rightarrow> identities
     \<Rightarrow> stack_file list \<Rightarrow> read_state \<Rightarrow> (error \<times> read_state) + read_state" where
  "load_instances uniqueName resolve_strategies ids [] st = Inr st"
| "load_instances uniqueName resolve_strategies ids (instance_container_file # rest) st =
     (case load_instance uniqueName resolve_strategies ids instance_container_file st of
        Inl e \<Rightarrow> Inl (e, st)
      | Inr st1 \<Rightarrow> load_instances uniqueName resolve_strategies ids rest st1)"

subsection \<open>The containers of the bundle, lines 435-647\<close>

text \<open>Lines 435-647: the identities, the definitions, the materials and the instance
  containers. An exception here leaves \<^verbatim>\<open>read\<close>; no handler is around these lines.\<close>

definition prepare_containers ::
  "(registry \<Rightarrow> string \<Rightarrow> string) \<Rightarrow> bool \<Rightarrow> (string \<times> string option) list \<Rightarrow> import_bundle
     \<Rightarrow> registry \<Rightarrow> (error \<times> registry) + (identities \<times> read_state)" where
  "prepare_containers uniqueName xml_material_profile resolve_strategies b reg =
     (case plan_identities uniqueName resolve_strategies b (initial_read_state reg) of
        Inl e \<Rightarrow> Inl (e, reg)
      | Inr (ids, st0) \<Rightarrow>
          (let st1 = st0\<lparr>st_registry := load_definitions (st_registry st0) (bundle_definitions b)\<rparr>
           in case (if xml_material_profile
                    then load_materials uniqueName resolve_strategies (bundle_materials b) st1
                    else Inr st1) of
                Inl (e, st) \<Rightarrow> Inl (e, st_registry st)
              | Inr st2 \<Rightarrow>
                  (case load_instances uniqueName resolve_strategies ids (bundle_instances b) st2 of
                     Inl (e, st) \<Rightarrow> Inl (e, st_registry st)
                   | Inr st3 \<Rightarrow> Inr (ids, st3))))"

subsection \<open>Adding the pending containers, lines 649-653\<close>

fun add_pending :: "container list \<Rightarrow> read_state \<Rightarrow> read_state" where
  "add_pending [] st = st"
| "add_pending (c # rest) st =
     add_pending rest
       (st\<lparr>st_registry := addContainer (st_registry st)
                              (InstanceContainer (c\<lparr>container_dirty := True\<rparr>)),
           st_containers_added := st_containers_added st @ [container_id c]\<rparr>)"

subsection \<open>The machine stack, lines 658-710\<close>

text \<open>Lines 662-674, strategy \<open>override\<close>: the live stack is deserialized over in place, and
  the two authentication entries it had are added again when their values are not empty.
  Element 0 of an empty query result raises \<^verbatim>\<open>IndexError\<close>.\<close>

definition keep_authentication ::
  "string \<Rightarrow> string option \<Rightarrow> global_stack \<Rightarrow> global_stack" where
  "keep_authentication k old_value stack =
     (case old_value of
        None \<Rightarrow> stack
      | Some v \<Rightarrow>
          if v \<noteq> [] then stack\<lparr>stack_metadata := addMetaDataEntry (stack_metadata stack) k v\<rparr>
          else stack)"

definition override_global_stack :: "registry \<Rightarrow> string \<Rightarrow> config \<Rightarrow> error + (registry \<times> global_stack)" where
  "override_global_stack reg original parser =
     (case findContainerStacks reg original of
        [] \<Rightarrow> Inl IndexError
      | live # _ \<Rightarrow>
          (let network_authentication_id =
                 getMetaDataEntry (stack_metadata live) ''network_authentication_id'';
               network_authentication_key =
                 getMetaDataEntry (stack_metadata live) ''network_authentication_key'';
               stack =
                 keep_authentication ''network_authentication_key'' network_authentication_key
                   (keep_authentication ''network_authentication_id'' network_authentication_id
                      (deserialize_stack parser live))
           in Inr (store_global_stack reg original stack, stack)))"

text \<open>Lines 676-696, strategy \<open>new\<close>.\<close>

definition create_global_stack :: "identities \<Rightarrow> config \<Rightarrow> read_state \<Rightarrow> read_state \<times> global_stack" where
  "create_global_stack ids parser st =
     (let deserialized = deserialize_stack parser (new_global_stack (global_stack_id_new ids));
          identified = deserialized\<lparr>stack_id := global_stack_id_new ids\<rparr>;
          linked = (if truthy (getMetaDataEntry (stack_metadata identified) ''machine'')
                    then identified\<lparr>stack_metadata :=
                           setMetaDataEntry (stack_metadata identified) ''machine''
                             (global_stack_id_new ids)\<rparr>
                    else identified);
          stack = linked\<lparr>stack_name := global_stack_name_new ids\<rparr>
      in (st\<lparr>st_registry := addContainer (st_registry st) (GlobalStack stack),
              st_containers_added := st_containers_added st @ [stack_id stack]\<rparr>, stack))"

text \<open>
  Lines 700-702. The builder of a definition-changes container is not part of the source
  file; it is the parameter \<open>createDefinitionChangesContainer\<close>, which returns the registry
  after its work and the container it made. Reading the definition-changes slot of a stack
  without one raises \<^verbatim>\<open>IndexError\<close>.
\<close>

definition ensure_definition_changes ::
  "(registry \<Rightarrow> global_stack \<Rightarrow> string \<Rightarrow> registry \<times> container) \<Rightarrow> global_stack
     \<Rightarrow> read_state \<Rightarrow> error + (read_state \<times> global_stack)" where
  "ensure_definition_changes createDefinitionChangesContainer stack st =
     (case getContainer stack DefinitionChanges of
        Inl e \<Rightarrow> Inl e
      | Inr definition_changes \<Rightarrow>
          if definition_changes = ''empty'' then
            (case createDefinitionChangesContainer (st_registry st) stack
                    (stack_id stack @ ''_settings'') of
               (reg1, created) \<Rightarrow>
                 (let stack1 = replaceContainer stack DefinitionChanges (container_id created) in
                  Inr (st\<lparr>st_registry := store_global_stack reg1 (stack_id stack) stack1\<rparr>,
                       stack1)))
          else Inr (st, stack))"

text \<open>The body of the \<^verbatim>\<open>try\<close> of lines 659-704. An exception comes with the state in which
  it was raised. With a strategy other than \<open>override\<close> and \<open>new\<close> the variable \<^verbatim>\<open>stack\<close> is
  still \<^verbatim>\<open>None\<close> at line 701, and reading its attribute raises \<^verbatim>\<open>AttributeError\<close>.\<close>

definition load_global_stack ::
  "(registry \<Rightarrow> global_stack \<Rightarrow> string \<Rightarrow> registry \<times> container)
     \<Rightarrow> (string \<times> string option) list \<Rightarrow> identities \<Rightarrow> config \<Rightarrow> read_state
     \<Rightarrow> (error \<times> read_state) + (read_state \<times> global_stack)" where
  "load_global_stack createDefinitionChangesContainer resolve_strategies ids parser st =
     (case get_strategy resolve_strategies ''machine'' of
        Inl e \<Rightarrow> Inl (e, st)
      | Inr strategy \<Rightarrow>
          if strategy = Some ''override'' then
            (case override_global_stack (st_registry st) (global_stack_id_original ids) parser of
               Inl e \<Rightarrow> Inl (e, st)
             | Inr (reg1, stack) \<Rightarrow>
                 (let st1 = st\<lparr>st_registry := reg1\<rparr> in
                  case ensure_definition_changes createDefinitionChangesContainer stack st1 of
                    Inl e \<Rightarrow> Inl (e, st1)
                  | Inr r \<Rightarrow> Inr r))
          else if strategy = Some ''new'' then
            (case create_global_stack ids parser st of
               (st1, stack) \<Rightarrow>
                 (case ensure_definition_changes createDefinitionChangesContainer stack st1 of
                    Inl e \<Rightarrow> Inl (e, st1)
                  | Inr r \<Rightarrow> Inr r))
          else Inl (AttributeError, st))"

text \<open>The handler of lines 705-710, which lines 773-778 repeat: every tracked record is
  removed from the registry by its identity.\<close>

fun remove_added :: "registry \<Rightarrow> string list \<Rightarrow> registry" where
  "remove_added reg [] = reg"
| "remove_added reg (cid # rest) = remove_added (removeContainer reg cid) rest"

subsection \<open>The extruder stacks, lines 712-778\<close>

text \<open>
  The machine stack loaded above is the Python object \<^verbatim>\<open>global_stack\<close>, and the extruder stacks
  in its position map are live objects too. A live stack is taken to be the first record of
  its class with its identity in the registry, as for the machine stack above: a change of
  an extruder stack is written to that record, to the position map of \<^verbatim>\<open>global_stack\<close> and to
  the record of \<^verbatim>\<open>global_stack\<close>.
\<close>

fun as_extruder_stack :: "entry \<Rightarrow> container_stack option" where
  "as_extruder_stack (ExtruderStack s) = Some s"
| "as_extruder_stack _ = None"

definition is_extruder_stack_with_id :: "string \<Rightarrow> entry \<Rightarrow> bool" where
  "is_extruder_stack_with_id cid e =
     (case as_extruder_stack e of None \<Rightarrow> False | Some s \<Rightarrow> stack_id s = cid)"

definition store_extruder_stack :: "registry \<Rightarrow> string \<Rightarrow> container_stack \<Rightarrow> registry" where
  "store_extruder_stack reg cid s =
     reg\<lparr>entries := replace_first (is_extruder_stack_with_id cid) (ExtruderStack s) (entries reg)\<rparr>"

definition update_live_extruder ::
  "container_stack \<Rightarrow> read_state \<Rightarrow> global_stack \<Rightarrow> read_state \<times> global_stack" where
  "update_live_extruder s st global_stack =
     (let g = global_stack\<lparr>extruders :=
                 map (\<lambda>(position, e). (position, if stack_id e = stack_id s then s else e))
                   (extruders global_stack)\<rparr>
      in (st\<lparr>st_registry :=
                store_global_stack (store_extruder_stack (st_registry st) (stack_id s) s)
                  (stack_id g) g\<rparr>, g))"

text \<open>
  Modelled from the spec: \<^verbatim>\<open>deserialize\<close> of the extruder stack class, which is not part of
  the source file. It replaces name, metadata and slots like \<open>deserialize_stack\<close> (section 6);
  the comment of lines 728-732 says that it also does \<^verbatim>\<open>addExtruder()\<close> to its machine stack,
  and a machine stack owns the map from positions to its extruder stacks (section 3): the
  machine stack with the identity of the metadata entry \<open>machine\<close> gets the extruder stack at
  the position of its metadata entry \<open>position\<close>.
\<close>

definition addExtruder :: "global_stack \<Rightarrow> container_stack \<Rightarrow> global_stack" where
  "addExtruder machine extruder =
     (case getMetaDataEntry (stack_metadata extruder) ''position'' of
        None \<Rightarrow> machine
      | Some position \<Rightarrow>
          machine\<lparr>extruders := AList.update position extruder (extruders machine)\<rparr>)"

definition register_extruder ::
  "container_stack \<Rightarrow> read_state \<Rightarrow> global_stack \<Rightarrow> read_state \<times> global_stack" where
  "register_extruder extruder st global_stack =
     (case getMetaDataEntry (stack_metadata extruder) ''machine'' of
        None \<Rightarrow> (st, global_stack)
      | Some machine_id \<Rightarrow>
          if machine_id = stack_id global_stack then
            (let g = addExtruder global_stack extruder
             in (st\<lparr>st_registry := store_global_stack (st_registry st) machine_id g\<rparr>, g))
          else
            (case findContainerStacks (st_registry st) machine_id of
               [] \<Rightarrow> (st, global_stack)
             | machine # _ \<Rightarrow>
                 (st\<lparr>st_registry := store_global_stack (st_registry st) machine_id
                                        (addExtruder machine extruder)\<rparr>, global_stack)))"

text \<open>The constructor \<^verbatim>\<open>ExtruderStack(id)\<close>, like \<^verbatim>\<open>GlobalStack(id)\<close>.\<close>

definition new_extruder_stack :: "string \<Rightarrow> container_stack" where
  "new_extruder_stack sid =
     \<lparr>stack_id = sid, stack_name = sid, stack_metadata = [],
      stack_containers = replicate 7 ''empty''\<rparr>"

text \<open>
  \<^verbatim>\<open>_overrideExtruderStack\<close>, lines 379-398. The result is \<^verbatim>\<open>None\<close> when the machine stack has
  no extruder stack at the position of the file; otherwise the live extruder stack at that
  position after the file was deserialized over it, with the state and the machine stack
  after that change.
\<close>

definition overrideExtruderStack ::
  "global_stack \<Rightarrow> config \<Rightarrow> read_state
     \<Rightarrow> error + (container_stack \<times> read_state \<times> global_stack) option" where
  "overrideExtruderStack global_stack extruder_config st =
     (if \<not> has_option extruder_config ''metadata'' ''position'' then Inl RuntimeError
      else
        (case parser_get extruder_config ''metadata'' ''position'' of
           Inl e \<Rightarrow> Inl e
         | Inr extruder_position \<Rightarrow>
             (case map_of (extruders global_stack) extruder_position of
                None \<Rightarrow> Inr None
              | Some extruder_stack \<Rightarrow>
                  (let deserialized = deserialize_stack extruder_config extruder_stack in
                   case update_live_extruder deserialized st global_stack of
                     (st1, g1) \<Rightarrow>
                       (case register_extruder deserialized st1 g1 of
                          (st2, g2) \<Rightarrow> Inr (Some (deserialized, st2, g2)))))))"

text \<open>
  Lines 724-747, strategy \<open>new\<close>. The document in which \<^verbatim>\<open>metadata/machine\<close> was set is written
  out and deserialized; the new stack is added to the registry and tracked.
  \<^verbatim>\<open>extruder_stacks_added\<close> is not read anywhere and is left out. An exception comes with the
  state in which it was raised.
\<close>

definition create_extruder_stack ::
  "identities \<Rightarrow> stack_file \<Rightarrow> read_state \<Rightarrow> global_stack
     \<Rightarrow> (error \<times> read_state) + (container_stack \<times> read_state \<times> global_stack)" where
  "create_extruder_stack ids extruder_stack_file st global_stack =
     (case map_of (extruder_stack_id_map ids) (file_id extruder_stack_file) of
        None \<Rightarrow> Inl (KeyError, st)
      | Some new_id \<Rightarrow>
          (case parser_set (file_parser extruder_stack_file) ''metadata'' ''machine''
                  (global_stack_id_new ids) of
             Inl e \<Rightarrow> Inl (e, st)
           | Inr extruder_config \<Rightarrow>
               (let deserialized = deserialize_stack extruder_config (new_extruder_stack new_id)
                in case register_extruder deserialized st global_stack of
                     (st1, g1) \<Rightarrow>
                       (let stack = deserialized\<lparr>stack_id := new_id\<rparr>
                        in Inr (stack,
                                st1\<lparr>st_registry :=
                                       addContainer (st_registry st1) (ExtruderStack stack),
                                     st_containers_added :=
                                       st_containers_added st1 @ [stack_id stack]\<rparr>,
                                g1)))))"

text \<open>
  Lines 751-753, for an extruder stack. The builder is the one of line 702; the model has it
  once for each class of stack, and \<open>createExtruderDefinitionChangesContainer\<close> is the
  parameter for an extruder stack.
\<close>

definition ensure_extruder_definition_changes ::
  "(registry \<Rightarrow> container_stack \<Rightarrow> string \<Rightarrow> registry \<times> container) \<Rightarrow> container_stack
     \<Rightarrow> read_state \<Rightarrow> global_stack
     \<Rightarrow> error + (container_stack \<times> read_state \<times> global_stack)" where
  "ensure_extruder_definition_changes createExtruderDefinitionChangesContainer stack st
       global_stack =
     (case getContainer stack DefinitionChanges of
        Inl e \<Rightarrow> Inl e
      | Inr definition_changes \<Rightarrow>
          if definition_changes = ''empty'' then
            (case createExtruderDefinitionChangesContainer (st_registry st) stack
                    (stack_id stack @ ''_settings'') of
               (reg1, created) \<Rightarrow>
                 (let stack1 = replaceContainer stack DefinitionChanges (container_id created)
                  in case update_live_extruder stack1 (st\<lparr>st_registry := reg1\<rparr>) global_stack of
                       (st1, g1) \<Rightarrow> Inr (stack1, st1, g1)))
          else Inr (stack, st, global_stack))"

text \<open>
  An iteration of the loop of lines 714-756, on the state, the machine stack and the list
  \<^verbatim>\<open>extruder_stacks\<close>. With a strategy other than \<open>override\<close> and \<open>new\<close> the block of lines
  659-704 has raised, so lines 748-749 are not reached from \<^verbatim>\<open>read\<close>; the model leaves the
  state as it is there.
\<close>

definition load_extruder_stack ::
  "(registry \<Rightarrow> container_stack \<Rightarrow> string \<Rightarrow> registry \<times> container)
     \<Rightarrow> (string \<times> string option) list \<Rightarrow> identities \<Rightarrow> stack_file
     \<Rightarrow> read_state \<Rightarrow> global_stack \<Rightarrow> container_stack list
     \<Rightarrow> (error \<times> read_state) + (read_state \<times> global_stack \<times> container_stack list)" where
  "load_extruder_stack createExtruderDefinitionChangesContainer resolve_strategies ids
       extruder_stack_file st global_stack extruder_stacks =
     (case get_strategy resolve_strategies ''machine'' of
        Inl e \<Rightarrow> Inl (e, st)
      | Inr strategy \<Rightarrow>
          (case (if strategy = Some ''override'' then
                   (case overrideExtruderStack global_stack (file_parser extruder_stack_file) st of
                      Inl e \<Rightarrow> Inl (e, st)
                    | Inr overridden \<Rightarrow> Inr overridden)
                 else if strategy = Some ''new'' then
                   (case create_extruder_stack ids extruder_stack_file st global_stack of
                      Inl failure \<Rightarrow> Inl failure
                    | Inr created \<Rightarrow> Inr (Some created))
                 else Inr None) of
             Inl failure \<Rightarrow> Inl failure
           | Inr None \<Rightarrow> Inr (st, global_stack, extruder_stacks)
           | Inr (Some (stack, st1, g1)) \<Rightarrow>
               (case ensure_extruder_definition_changes createExtruderDefinitionChangesContainer
                       stack st1 g1 of
                  Inl e \<Rightarrow> Inl (e, st1)
                | Inr (stack1, st2, g2) \<Rightarrow>
                    Inr (st2, g2,
                         if getMetaDataEntry (stack_metadata stack1) ''type'' = Some ''extruder_train''
                         then extruder_stacks @ [stack1] else extruder_stacks))))"

fun load_extruder_stack_files ::
  "(registry \<Rightarrow> container_stack \<Rightarrow> string \<Rightarrow> registry \<times> container)
     \<Rightarrow> (string \<times> string option) list \<Rightarrow> identities \<Rightarrow> stack_file list
     \<Rightarrow> read_state \<Rightarrow> global_stack \<Rightarrow> container_stack list
     \<Rightarrow> (error \<times> read_state) + (read_state \<times> global_stack \<times> container_stack list)" where
  "load_extruder_stack_files createExtruderDefinitionChangesContainer resolve_strategies ids []
       st global_stack extruder_stacks = Inr (st, global_stack, extruder_stacks)"
| "load_extruder_stack_files createExtruderDefinitionChangesContainer resolve_strategies ids
       (extruder_stack_file # rest) st global_stack extruder_stacks =
     (case load_extruder_stack createExtruderDefinitionChangesContainer resolve_strategies ids
             extruder_stack_file st global_stack extruder_stacks of
        Inl failure \<Rightarrow> Inl failure
      | Inr (st1, g1, extruder_stacks1) \<Rightarrow>
          load_extruder_stack_files createExtruderDefinitionChangesContainer resolve_strategies
            ids rest st1 g1 extruder_stacks1)"

text \<open>
  Lines 767-768: the slots of the existing extruder stack are replaced index by index by
  those of the new one. A slot that one of the two stacks does not have raises
  \<^verbatim>\<open>IndexError\<close>, with the existing stack as the loop has changed it so far.
\<close>

fun replace_containers ::
  "nat list \<Rightarrow> container_stack \<Rightarrow> container_stack \<Rightarrow> (error \<times> container_stack) + container_stack" where
  "replace_containers [] existing_extruder_stack stack = Inr existing_extruder_stack"
| "replace_containers (idx # rest) existing_extruder_stack stack =
     (if idx < length (stack_containers stack)
         \<and> idx < length (stack_containers existing_extruder_stack)
      then replace_containers rest
             (replaceContainer existing_extruder_stack idx (stack_containers stack ! idx)) stack
      else Inl (IndexError, existing_extruder_stack))"

text \<open>
  Lines 758-771. The registry's \<^verbatim>\<open>addExtruderStackForSingleExtrusionMachine\<close> is not part of
  the source file; it is a parameter, which returns the registry and the machine stack
  after its work and the extruder stack it made, if any. \<^verbatim>\<open>_ContainerIndexes.IndexTypeMap\<close> has
  the 7 slots of a stack.
\<close>

definition add_single_extruder_stack ::
  "(registry \<Rightarrow> global_stack \<Rightarrow> string \<Rightarrow> registry \<times> global_stack \<times> container_stack option)
     \<Rightarrow> (string \<times> string option) list \<Rightarrow> read_state \<Rightarrow> global_stack \<Rightarrow> container_stack list
     \<Rightarrow> (error \<times> read_state) + (read_state \<times> global_stack \<times> container_stack list)" where
  "add_single_extruder_stack addExtruderStackForSingleExtrusionMachine resolve_strategies st
       global_stack extruder_stacks =
     (if extruder_stacks \<noteq> [] then Inr (st, global_stack, extruder_stacks)
      else
        (case addExtruderStackForSingleExtrusionMachine (st_registry st) global_stack
                ''fdmextruder'' of
           (reg1, g1, made) \<Rightarrow>
             (let st1 = st\<lparr>st_registry := reg1\<rparr> in
              case made of
                None \<Rightarrow> Inr (st1, g1, extruder_stacks)
              | Some stack \<Rightarrow>
                  (case get_strategy resolve_strategies ''machine'' of
                     Inl e \<Rightarrow> Inl (e, st1)
                   | Inr strategy \<Rightarrow>
                       if strategy = Some ''override'' then
                         (case getMetaDataEntry (stack_metadata stack) ''position'' of
                            None \<Rightarrow> Inl (KeyError, st1)
                          | Some position \<Rightarrow>
                              (case map_of (extruders g1) position of
                                 None \<Rightarrow> Inl (KeyError, st1)
                               | Some existing_extruder_stack \<Rightarrow>
                                   (case replace_containers [0..<7] existing_extruder_stack stack of
                                      Inl (e, changed) \<Rightarrow>
                                        Inl (e, fst (update_live_extruder changed st1 g1))
                                    | Inr replaced \<Rightarrow>
                                        (case update_live_extruder replaced st1 g1 of
                                           (st2, g2) \<Rightarrow>
                                             Inr (st2, g2, extruder_stacks @ [replaced])))))
                       else Inr (st1, g1, extruder_stacks @ [stack])))))"

text \<open>The body of the \<^verbatim>\<open>try\<close> of lines 713-771.\<close>

definition load_extruder_stacks ::
  "(registry \<Rightarrow> container_stack \<Rightarrow> string \<Rightarrow> registry \<times> container)
     \<Rightarrow> (registry \<Rightarrow> global_stack \<Rightarrow> string \<Rightarrow> registry \<times> global_stack \<times> container_stack option)
     \<Rightarrow> (string \<times> string option) list \<Rightarrow> identities \<Rightarrow> stack_file list
     \<Rightarrow> read_state \<Rightarrow> global_stack
     \<Rightarrow> (error \<times> read_state) + (read_state \<times> global_stack \<times> container_stack list)" where
  "load_extruder_stacks createExtruderDefinitionChangesContainer
       addExtruderStackForSingleExtrusionMachine resolve_strategies ids extruder_stack_files
       st global_stack =
     (case load_extruder_stack_files createExtruderDefinitionChangesContainer resolve_strategies
             ids extruder_stack_files st global_stack [] of
        Inl failure \<Rightarrow> Inl failure
      | Inr (st1, g1, extruder_stacks) \<Rightarrow>
          add_single_extruder_stack addExtruderStackForSingleExtrusionMachine resolve_strategies
            st1 g1 extruder_stacks)"

subsection \<open>The write pass of \<^verbatim>\<open>read\<close>, lines 435-778\<close>

text \<open>
  The outcomes of the write pass: an exception that leaves \<^verbatim>\<open>read\<close>, with the registry it
  leaves behind; the failure return of one of the two handlers, with the registry after the
  clean-up and the identities that were tracked; or the state, the machine stack and the
  extruder stacks with which \<^verbatim>\<open>read\<close> goes on at line 780.
\<close>

datatype write_pass_outcome =
    Exception error registry
  | Failure registry "string list"
  | Stacks read_state global_stack "container_stack list"

text \<open>
  Lines 435-647 prepare the containers with no handler around them. Lines 649-653 add the
  pending containers and track them. The machine stack and then the extruder stacks are
  loaded, each under its handler.
\<close>

definition read_write_pass ::
  "(registry \<Rightarrow> string \<Rightarrow> string) \<Rightarrow> (registry \<Rightarrow> global_stack \<Rightarrow> string \<Rightarrow> registry \<times> container)
     \<Rightarrow> (registry \<Rightarrow> container_stack \<Rightarrow> string \<Rightarrow> registry \<times> container)
     \<Rightarrow> (registry \<Rightarrow> global_stack \<Rightarrow> string \<Rightarrow> registry \<times> global_stack \<times> container_stack option)
     \<Rightarrow> bool \<Rightarrow> (string \<times> string option) list \<Rightarrow> import_bundle \<Rightarrow> registry
     \<Rightarrow> write_pass_outcome" where
  "read_write_pass uniqueName createDefinitionChangesContainer
       createExtruderDefinitionChangesContainer addExtruderStackForSingleExtrusionMachine
       xml_material_profile resolve_strategies b reg =
     (case prepare_containers uniqueName xml_material_profile resolve_strategies b reg of
        Inl (e, reg1) \<Rightarrow> Exception e reg1
      | Inr (ids, st3) \<Rightarrow>
          (let st4 = add_pending (st_containers_to_add st3) st3 in
           case load_global_stack createDefinitionChangesContainer resolve_strategies
                  ids (file_parser (bundle_machine b)) st4 of
             Inl (e, st) \<Rightarrow>
               Failure (remove_added (st_registry st) (st_containers_added st))
                 (st_containers_added st)
           | Inr (st5, global_stack) \<Rightarrow>
               (case load_extruder_stacks createExtruderDefinitionChangesContainer
                       addExtruderStackForSingleExtrusionMachine resolve_strategies ids
                       (bundle_extruders b) st5 global_stack of
                  Inl (e, st) \<Rightarrow>
                    Failure (remove_added (st_registry st) (st_containers_added st))
                      (st_containers_added st)
                | Inr (st6, g, extruder_stacks) \<Rightarrow> Stacks st6 g extruder_stacks)))"

section \<open>Predicates used in the statements\<close>

text \<open>The type of an imported instance container, as \<^verbatim>\<open>getMetaDataEntry("type")\<close> gives it.\<close>

definition container_type :: "container \<Rightarrow> string option" where
  "container_type c = getMetaDataEntry (container_metadata c) ''type''"

text \<open>A live instance container with the identity of the imported one exists; and the first
  such live container compares unequal to the imported one.\<close>

definition exists_live :: "registry \<Rightarrow> container \<Rightarrow> bool" where
  "exists_live reg imported = (findInstanceContainers reg [(''id'', container_id imported)] \<noteq> [])"

definition conflicts_with_live ::
  "(container \<Rightarrow> container \<Rightarrow> bool) \<Rightarrow> registry \<Rightarrow> container \<Rightarrow> bool" where
  "conflicts_with_live differs reg imported =
     (case findInstanceContainers reg [(''id'', container_id imported)] of
        [] \<Rightarrow> False
      | existing # _ \<Rightarrow> differs existing imported)"

text \<open>Every imported slot identity, with the two legacy identities read as \<open>empty\<close>, is the
  identity of the live occupant at the same index; and some imported slot identity is not.\<close>

definition slots_match :: "'a container_stack_scheme \<Rightarrow> string list \<Rightarrow> bool" where
  "slots_match live id_list =
     (\<forall>i<length id_list. i < length (stack_containers live)
         \<and> stack_containers live ! i = old_empty_profile_id (id_list ! i))"

definition slot_mismatch :: "'a container_stack_scheme \<Rightarrow> string list \<Rightarrow> bool" where
  "slot_mismatch live id_list =
     (\<exists>i<length id_list. i < length (stack_containers live)
         \<and> stack_containers live ! i \<noteq> old_empty_profile_id (id_list ! i))"

text \<open>The live machine has an extruder stack at the position that this extruder file
  declares, and every slot of the file matches that stack; some slot of the file differs
  from it; the comparison with it ends without an exception.\<close>

definition extruder_file_matches :: "global_stack \<Rightarrow> stack_file \<Rightarrow> bool" where
  "extruder_file_matches live extruder_stack_file =
     (case parser_getitem (file_parser extruder_stack_file) ''metadata'' ''position'' of
        Inl e \<Rightarrow> False
      | Inr position \<Rightarrow>
          (case map_of (extruders live) position of
             None \<Rightarrow> False
           | Some existing_extruder_stack \<Rightarrow>
               slots_match existing_extruder_stack
                 (getContainerIdListFromSerialized (file_parser extruder_stack_file))))"

definition extruder_file_differs :: "global_stack \<Rightarrow> stack_file \<Rightarrow> bool" where
  "extruder_file_differs live extruder_stack_file =
     (case parser_getitem (file_parser extruder_stack_file) ''metadata'' ''position'' of
        Inl e \<Rightarrow> False
      | Inr position \<Rightarrow>
          (case map_of (extruders live) position of
             None \<Rightarrow> False
           | Some existing_extruder_stack \<Rightarrow>
               slot_mismatch existing_extruder_stack
                 (getContainerIdListFromSerialized (file_parser extruder_stack_file))))"

definition extruder_file_compared :: "global_stack \<Rightarrow> stack_file \<Rightarrow> bool" where
  "extruder_file_compared live extruder_stack_file =
     (case parser_getitem (file_parser extruder_stack_file) ''metadata'' ''position'' of
        Inl e \<Rightarrow> False
      | Inr position \<Rightarrow>
          (case map_of (extruders live) position of
             None \<Rightarrow> False
           | Some existing_extruder_stack \<Rightarrow>
               (case slots_differ existing_extruder_stack 0
                       (getContainerIdListFromSerialized (file_parser extruder_stack_file)) of
                  Inl e \<Rightarrow> False
                | Inr d \<Rightarrow> True)))"

text \<open>
  The identities of the records of a registry, and those of them that \<^verbatim>\<open>containers_added\<close>
  does not track. The identities that a builder of
  definition-changes containers can add to a registry: those of the records that a call of
  it with the name of lines 702 and 753 adds. The identities that
  \<^verbatim>\<open>addExtruderStackForSingleExtrusionMachine\<close> can add with the argument of line 761.
\<close>

definition identities_of :: "registry \<Rightarrow> string set" where
  "identities_of reg = entry_id ` set (entries reg)"

definition untracked :: "read_state \<Rightarrow> string set" where
  "untracked st = identities_of (st_registry st) - set (st_containers_added st)"

definition made_by_builder ::
  "(registry \<Rightarrow> 'a container_stack_scheme \<Rightarrow> string \<Rightarrow> registry \<times> container) \<Rightarrow> string set" where
  "made_by_builder build =
     {cid. \<exists>reg stack. cid \<in> identities_of (fst (build reg stack (stack_id stack @ ''_settings'')))
                        \<and> cid \<notin> identities_of reg}"

definition made_by_registry ::
  "(registry \<Rightarrow> global_stack \<Rightarrow> string \<Rightarrow> registry \<times> global_stack \<times> container_stack option)
     \<Rightarrow> string set" where
  "made_by_registry build =
     {cid. \<exists>reg machine. cid \<in> identities_of (fst (build reg machine ''fdmextruder''))
                          \<and> cid \<notin> identities_of reg}"

section \<open>Example inputs\<close>

text \<open>A legacy machine stack file: six slot identities in \<^verbatim>\<open>general/containers\<close>.\<close>

definition legacy_stack_parser :: config where
  "legacy_stack_parser =
     [(''general'', [(''version'', ''3''), (''name'', ''Ultimaker 3''), (''id'', ''um3''),
                     (''containers'',
                      ''um3_user,empty_quality_changes,um3_normal,empty_material,empty_variant,ultimaker3'')]),
      (''metadata'', [(''type'', ''machine'')])]"

text \<open>A live machine with one extruder at position 0, and the registry that holds them.\<close>

definition live_extruder :: container_stack where
  "live_extruder =
     \<lparr>stack_id = ''um3_extruder_0'', stack_name = ''Extruder 1'',
      stack_metadata = [(''type'', ''extruder_train''), (''position'', ''0'')],
      stack_containers = [''um3_extruder_0_user'', ''empty_quality_changes'', ''um3_normal'',
                          ''PLA Premium_um3_aa04'', ''um3_aa04'', ''empty'', ''um3_extruder_left'']\<rparr>"

definition live_machine :: global_stack where
  "live_machine =
     \<lparr>stack_id = ''um3'', stack_name = ''Ultimaker 3'',
      stack_metadata = [(''type'', ''machine'')],
      stack_containers = [''um3_user'', ''empty_quality_changes'', ''um3_normal'', ''empty'',
                          ''empty'', ''empty'', ''ultimaker3''],
      extruders = [(''0'', live_extruder)]\<rparr>"

definition material_profile :: "string \<Rightarrow> container" where
  "material_profile cid =
     \<lparr>container_id = cid, container_name = cid, container_metadata = [(''type'', ''material'')],
      container_instances = [], container_dirty = False\<rparr>"

definition live_registry :: registry where
  "live_registry =
     \<lparr>entries = [GlobalStack live_machine, ExtruderStack live_extruder,
                 InstanceContainer (material_profile ''generic_pla''),
                 InstanceContainer (material_profile ''PLA Premium #2''),
                 InstanceContainer (material_profile ''PLA Premium #2_um3_aa04'')],
      read_only = [''generic_pla'']\<rparr>"

text \<open>Machine stack files of a bundle: the legacy one has the slots of the live machine, the other one differs at index 2 and has one slot more than the live machine.\<close>

definition machine_file_same :: stack_file where
  "machine_file_same = \<lparr>file_id = ''um3'', file_parser = legacy_stack_parser\<rparr>"

definition machine_file_changed :: stack_file where
  "machine_file_changed =
     \<lparr>file_id = ''um3'',
      file_parser = [(''general'', [(''name'', ''Ultimaker 3'')]),
                     (''containers'', [(''0'', ''um3_user''), (''1'', ''empty_quality_changes''),
                                       (''2'', ''um3_fast''), (''3'', ''empty''), (''4'', ''empty''),
                                       (''5'', ''empty''), (''6'', ''ultimaker3''), (''7'', ''extra'')])]\<rparr>"

text \<open>Extruder stack files of a bundle: one at position 0 that differs from the live extruder at index 1, one at position 1, which the live machine does not have.\<close>

definition extruder_file_changed :: stack_file where
  "extruder_file_changed =
     \<lparr>file_id = ''um3_extruder_0'',
      file_parser = [(''metadata'', [(''type'', ''extruder_train''), (''position'', ''0'')]),
                     (''containers'', [(''0'', ''um3_extruder_0_user''), (''1'', ''my_profile'')])]\<rparr>"

definition extruder_file_unknown_position :: stack_file where
  "extruder_file_unknown_position =
     \<lparr>file_id = ''um3_extruder_1'',
      file_parser = [(''metadata'', [(''type'', ''extruder_train''), (''position'', ''1'')]),
                     (''containers'', [(''0'', ''um3_extruder_1_user'')])]\<rparr>"

text \<open>An extruder stack file at position 0 with the slots of the live extruder, and a machine
  stack file with the slots of the live machine and no \<^verbatim>\<open>[general]\<close> section.\<close>

definition extruder_file_same :: stack_file where
  "extruder_file_same =
     \<lparr>file_id = ''um3_extruder_0'',
      file_parser = [(''general'', [(''name'', ''Extruder 1'')]),
                     (''metadata'', [(''type'', ''extruder_train''), (''machine'', ''um3''),
                                     (''position'', ''0'')]),
                     (''containers'', [(''0'', ''um3_extruder_0_user''),
                                       (''1'', ''empty_quality_changes''), (''2'', ''um3_normal''),
                                       (''3'', ''PLA Premium_um3_aa04''), (''4'', ''um3_aa04''),
                                       (''5'', ''empty''), (''6'', ''um3_extruder_left'')])]\<rparr>"

definition machine_file_no_general :: stack_file where
  "machine_file_no_general =
     \<lparr>file_id = ''um3'',
      file_parser = [(''metadata'', [(''type'', ''machine'')]),
                     (''containers'', [(''0'', ''um3_user''), (''1'', ''empty_quality_changes''),
                                       (''2'', ''um3_normal''), (''3'', ''empty''), (''4'', ''empty''),
                                       (''5'', ''empty''), (''6'', ''ultimaker3'')])]\<rparr>"

text \<open>The parent materials minted by an import, keyed by their old identities.\<close>

definition minted_materials :: "(string \<times> container) list" where
  "minted_materials = [(''PLA'', material_profile ''PLA #2''),
                       (''PLA Premium'', material_profile ''PLA Premium #2'')]"

text \<open>A comparison of two containers by name, metadata and setting instances.\<close>

definition content_differs :: "container \<Rightarrow> container \<Rightarrow> bool" where
  "content_differs a b =
     (container_name a \<noteq> container_name b \<or> container_metadata a \<noteq> container_metadata b
      \<or> container_instances a \<noteq> container_instances b)"

text \<open>Quality-changes profiles, and a registry that holds two of them.\<close>

definition quality_changes_profile :: "string \<Rightarrow> string \<Rightarrow> container" where
  "quality_changes_profile cid layer_height =
     \<lparr>container_id = cid, container_name = ''My profile'',
      container_metadata = [(''type'', ''quality_changes''), (''quality_type'', ''normal'')],
      container_instances = [(''layer_height'', layer_height)], container_dirty = False\<rparr>"

definition profile_registry :: registry where
  "profile_registry =
     \<lparr>entries = [InstanceContainer (quality_changes_profile ''my_profile'' ''0.1''),
                 InstanceContainer (quality_changes_profile ''my_profile_extruder'' ''0.1'')],
      read_only = []\<rparr>"

text \<open>A live machine with authentication entries, one of them empty, a live user container, and the registry that holds them.\<close>

definition networked_machine :: global_stack where
  "networked_machine =
     \<lparr>stack_id = ''um3'', stack_name = ''Ultimaker 3'',
      stack_metadata = [(''type'', ''machine''), (''network_authentication_id'', ''printer-1''),
                        (''network_authentication_key'', '''')],
      stack_containers = [''um3_user'', ''empty_quality_changes'', ''um3_normal'', ''empty'',
                          ''empty'', ''um3_settings'', ''ultimaker3''],
      extruders = []\<rparr>"

definition live_user_settings :: container where
  "live_user_settings =
     \<lparr>container_id = ''um3_user'', container_name = ''um3_user'',
      container_metadata = [(''type'', ''user''), (''machine'', ''um3'')],
      container_instances = [(''infill_sparse_density'', ''20'')], container_dirty = False\<rparr>"

definition networked_registry :: registry where
  "networked_registry =
     \<lparr>entries = [GlobalStack networked_machine, InstanceContainer live_user_settings],
      read_only = []\<rparr>"

text \<open>The machine stack after the legacy machine stack file was deserialized over it.\<close>

definition merged_machine :: global_stack where
  "merged_machine =
     \<lparr>stack_id = ''um3'', stack_name = ''Ultimaker 3'',
      stack_metadata = [(''type'', ''machine''), (''network_authentication_id'', ''printer-1'')],
      stack_containers = [''um3_user'', ''empty_quality_changes'', ''um3_normal'',
                          ''empty_material'', ''empty_variant'', ''empty'', ''ultimaker3''],
      extruders = []\<rparr>"

text \<open>The entries of a project: a user container and a quality-changes profile, a machine definition, and the legacy machine stack file.\<close>

definition user_settings_file :: stack_file where
  "user_settings_file =
     \<lparr>file_id = ''um3_user'',
      file_parser = [(''general'', [(''name'', ''um3_user'')]),
                     (''metadata'', [(''type'', ''user''), (''machine'', ''um3'')]),
                     (''values'', [(''infill_sparse_density'', ''35'')])]\<rparr>"

definition new_profile_file :: stack_file where
  "new_profile_file =
     \<lparr>file_id = ''new_profile'',
      file_parser = [(''general'', [(''name'', ''New profile'')]),
                     (''metadata'', [(''type'', ''quality_changes'')]),
                     (''values'', [(''layer_height'', ''0.2'')])]\<rparr>"

definition custom_printer_file :: stack_file where
  "custom_printer_file =
     \<lparr>file_id = ''custom_printer'',
      file_parser = [(''general'', [(''name'', ''Custom printer'')]),
                     (''metadata'', [(''type'', ''machine'')])]\<rparr>"

definition project :: import_bundle where
  "project =
     \<lparr>bundle_definitions = [custom_printer_file], bundle_materials = [],
      bundle_instances = [user_settings_file, new_profile_file],
      bundle_machine = machine_file_same, bundle_extruders = []\<rparr>"

text \<open>The resolve strategies as line 138 leaves them, which is how \<^verbatim>\<open>preRead\<close> returns without its dialog.\<close>

definition unset_strategies :: "(string \<times> string option) list" where
  "unset_strategies = map (\<lambda>k. (k, None)) resolve_strategy_keys"

text \<open>Collaborators for the examples: a unique name, and a builder of definition-changes containers.\<close>

definition numbered_name :: "registry \<Rightarrow> string \<Rightarrow> string" where
  "numbered_name reg name = name @ '' #2''"

definition settings_builder :: "registry \<Rightarrow> global_stack \<Rightarrow> string \<Rightarrow> registry \<times> container" where
  "settings_builder reg stack name =
     (addContainer reg (InstanceContainer (new_container name)), new_container name)"

text \<open>Collaborators for the extruder stacks: a builder of definition-changes containers, and
  a registry that has no extruder definition to make an extruder stack from.\<close>

definition extruder_settings_builder :: "registry \<Rightarrow> container_stack \<Rightarrow> string \<Rightarrow> registry \<times> container" where
  "extruder_settings_builder reg stack name =
     (addContainer reg (InstanceContainer (new_container name)), new_container name)"

definition no_single_extruder ::
  "registry \<Rightarrow> global_stack \<Rightarrow> string \<Rightarrow> registry \<times> global_stack \<times> container_stack option" where
  "no_single_extruder reg machine extruder_id = (reg, machine, None)"

text \<open>A project saved from a machine with two extruders: the legacy machine stack file and
  the extruder stack files at positions 0 and 1.\<close>

definition two_extruder_project :: import_bundle where
  "two_extruder_project =
     \<lparr>bundle_definitions = [], bundle_materials = [], bundle_instances = [],
      bundle_machine = machine_file_same,
      bundle_extruders = [extruder_file_same, extruder_file_unknown_position]\<rparr>"

text \<open>The strategies that \<^verbatim>\<open>preRead\<close> leaves when the machine was found and the dialog set
  none, and the stacks and the state of \<^verbatim>\<open>read\<close> after the write pass on that project.\<close>

definition machine_found_strategies :: "(string \<times> string option) list" where
  "machine_found_strategies =
     [(''machine'', Some ''override''), (''material'', Some ''new''),
      (''quality_changes'', Some ''new'')]"

definition overridden_extruder :: container_stack where
  "overridden_extruder =
     \<lparr>stack_id = ''um3_extruder_0'', stack_name = ''Extruder 1'',
      stack_metadata = [(''type'', ''extruder_train''), (''machine'', ''um3''),
                        (''position'', ''0'')],
      stack_containers = [''um3_extruder_0_user'', ''empty_quality_changes'', ''um3_normal'',
                          ''PLA Premium_um3_aa04'', ''um3_aa04'', ''um3_extruder_0_settings'',
                          ''um3_extruder_left'']\<rparr>"

definition overridden_machine :: global_stack where
  "overridden_machine =
     \<lparr>stack_id = ''um3'', stack_name = ''Ultimaker 3'',
      stack_metadata = [(''type'', ''machine'')],
      stack_containers = [''um3_user'', ''empty_quality_changes'', ''um3_normal'',
                          ''empty_material'', ''empty_variant'', ''um3_settings'',
                          ''ultimaker3''],
      extruders = [(''0'', overridden_extruder)]\<rparr>"

definition state_after_override :: read_state where
  "state_after_override =
     \<lparr>st_registry =
        \<lparr>entries = [GlobalStack overridden_machine, ExtruderStack overridden_extruder,
                    InstanceContainer (material_profile ''generic_pla''),
                    InstanceContainer (material_profile ''PLA Premium #2''),
                    InstanceContainer (material_profile ''PLA Premium #2_um3_aa04''),
                    InstanceContainer (new_container ''um3_settings''),
                    InstanceContainer (new_container ''um3_extruder_0_settings'')],
         read_only = [''generic_pla'']\<rparr>,
      st_id_mapping = [], st_containers_to_add = [], st_containers_added = [],
      st_material_containers = [], st_user_instance_containers = [],
      st_changes_instance_containers = [], st_machine_extruder_count = None\<rparr>"

text \<open>A project whose extruder stack file has no \<^verbatim>\<open>[metadata]\<close> section, and the strategies
  when the dialog asks for a new machine.\<close>

definition broken_extruder_file :: stack_file where
  "broken_extruder_file =
     \<lparr>file_id = ''um3_extruder_0'',
      file_parser = [(''general'', [(''name'', ''Extruder 1'')]),
                     (''containers'', [(''0'', ''um3_extruder_0_user'')])]\<rparr>"

definition broken_project :: import_bundle where
  "broken_project =
     \<lparr>bundle_definitions = [custom_printer_file], bundle_materials = [],
      bundle_instances = [new_profile_file],
      bundle_machine = machine_file_same, bundle_extruders = [broken_extruder_file]\<rparr>"

definition new_machine_strategies :: "(string \<times> string option) list" where
  "new_machine_strategies =
     [(''machine'', Some ''new''), (''material'', None), (''quality_changes'', None)]"

text \<open>The records and the registries that the write pass leaves on these projects.\<close>

definition overwritten_user_settings :: container where
  "overwritten_user_settings =
     \<lparr>container_id = ''um3_user'', container_name = ''um3_user'',
      container_metadata = [(''type'', ''user''), (''machine'', ''um3'')],
      container_instances = [(''infill_sparse_density'', ''35'')], container_dirty = True\<rparr>"

definition custom_printer_definition :: container where
  "custom_printer_definition =
     \<lparr>container_id = ''custom_printer'', container_name = ''Custom printer'',
      container_metadata = [(''type'', ''machine'')],
      container_instances = [], container_dirty = False\<rparr>"

definition registry_after_failure :: registry where
  "registry_after_failure =
     \<lparr>entries = [GlobalStack networked_machine, InstanceContainer overwritten_user_settings,
                 DefinitionContainer custom_printer_definition],
      read_only = []\<rparr>"

definition registry_after_extruder_failure :: registry where
  "registry_after_extruder_failure =
     \<lparr>entries = [GlobalStack networked_machine, InstanceContainer live_user_settings,
                 DefinitionContainer custom_printer_definition,
                 InstanceContainer (new_container ''um3 #2_settings'')],
      read_only = []\<rparr>"

definition no_rename :: identities where
  "no_rename =
     \<lparr>global_stack_id_original = ''um3'', global_stack_id_new = ''um3'',
      global_stack_name_new = ''Ultimaker 3'', global_stack_need_rename = False,
      extruder_stack_id_map = []\<rparr>"

definition registry_with_definition :: registry where
  "registry_with_definition =
     \<lparr>entries = [GlobalStack networked_machine, InstanceContainer live_user_settings,
                 DefinitionContainer custom_printer_definition],
      read_only = []\<rparr>"

section \<open>Theorems\<close>

subsection \<open>Reading a parsed document\<close>

lemma interpolate_some_plain:
  "CHR ''%'' \<notin> set v \<Longrightarrow> depth \<le> MAX_INTERPOLATION_DEPTH
   \<Longrightarrow> interpolate_some options depth v = Inr v"
proof (induction v)
  case Nil
  then show ?case by (subst interpolate_some.simps) simp
next
  case (Cons c cs)
  then show ?case by (subst interpolate_some.simps) auto
qed

lemma before_get_plain: "CHR ''%'' \<notin> set v \<Longrightarrow> before_get options v = Inr v"
  by (simp add: before_get_def interpolate_some_plain MAX_INTERPOLATION_DEPTH_def)

lemma optionxform_literals:
  "optionxform ''type'' = ''type''"
  "optionxform ''position'' = ''position''"
  "optionxform ''machine'' = ''machine''"
  by (simp_all add: optionxform_def lower_char_def)

lemma parser_get_plain:
  assumes "get_option parser s k = Some v" and "optionxform k = k" and "CHR ''%'' \<notin> set v"
  shows "parser_get parser s k = Inr v"
  using assms
  by (auto simp: parser_get_def get_option_def before_get_plain split: option.splits)

lemma parser_getitem_plain:
  assumes "get_option parser s k = Some v" and "optionxform k = k" and "CHR ''%'' \<notin> set v"
  shows "parser_getitem parser s k = Inr v"
  using assms parser_get_plain [OF assms]
  by (auto simp: parser_getitem_def get_option_def split: option.splits)

lemma parser_getitem_missing:
  assumes "get_option parser s k = None" and "optionxform k = k"
  shows "parser_getitem parser s k = Inl KeyError"
  using assms by (auto simp: parser_getitem_def get_option_def split: option.splits)

lemma deserialized_metadata:
  "getMetaDataEntry (container_metadata (deserialize_container parser c)) k
     = get_option parser ''metadata'' k"
  by (simp add: deserialize_container_def getMetaDataEntry_def items_def get_option_def
      split: option.splits)

subsection \<open>Evaluation of the example inputs\<close>

lemmas ex_defs = live_extruder_def live_machine_def material_profile_def live_registry_def
  machine_file_same_def machine_file_changed_def extruder_file_changed_def
  extruder_file_unknown_position_def minted_materials_def legacy_stack_parser_def

lemmas cfg_defs = parsed_container_ids_def has_section_def has_option_def get_option_def items_def
  getContainerIdListFromSerialized_def upgrade_container_ids_def list_insert_def

lemma same_ids: "getContainerIdListFromSerialized (file_parser machine_file_same)
   = [''um3_user'', ''empty_quality_changes'', ''um3_normal'', ''empty_material'',
          ''empty_variant'', ''empty'', ''ultimaker3'']"
  by (simp add: cfg_defs ex_defs)

lemma changed_ids: "getContainerIdListFromSerialized (file_parser machine_file_changed)
   = [''um3_user'', ''empty_quality_changes'', ''um3_fast'', ''empty'', ''empty'', ''empty'',
      ''ultimaker3'', ''extra'']"
  by (simp add: cfg_defs ex_defs)

lemma live_found: "findContainerStacks live_registry ''um3'' = [live_machine]"
  by (simp add: findContainerStacks_def live_registry_def List.map_filter_simps live_machine_def)

lemma legacy_ids: "getContainerIdListFromSerialized legacy_stack_parser
   = [''um3_user'', ''empty_quality_changes'', ''um3_normal'', ''empty_material'',
          ''empty_variant'', ''empty'', ''ultimaker3'']"
  by (simp add: parsed_container_ids_def has_section_def has_option_def get_option_def items_def
      getContainerIdListFromSerialized_def upgrade_container_ids_def list_insert_def
      legacy_stack_parser_def)

subsection \<open>Legacy slot upgrade\<close>

lemma list_insert_length: "length (list_insert i x xs) = Suc (length xs)"
  by (simp add: list_insert_def)

lemma list_insert_before: "j < i \<Longrightarrow> i \<le> length xs \<Longrightarrow> list_insert i x xs ! j = xs ! j"
  by (simp add: list_insert_def nth_append)

lemma list_insert_at: "i \<le> length xs \<Longrightarrow> list_insert i x xs ! i = x"
  by (simp add: list_insert_def nth_append)

lemma list_insert_after:
  "i \<le> j \<Longrightarrow> j < length xs \<Longrightarrow> list_insert i x xs ! Suc j = xs ! j"
  by (simp add: list_insert_def nth_append min_def Suc_diff_le)

text \<open>
  Claim C9. When the identity list parsed from a serialized stack has exactly 6 entries, the
  list returned by the slot extractor has 7 entries: index 5 holds the reserved identity
  \<open>empty\<close>, indices 0 to 4 are the parsed entries 0 to 4, and index 6 is the parsed entry 5,
  so the six parsed entries are kept in their order.
\<close>

theorem legacy_slot_upgrade:
  assumes "length (parsed_container_ids parser) = 6"
  shows "length (getContainerIdListFromSerialized parser) = 7
       \<and> getContainerIdListFromSerialized parser ! 5 = ''empty''
       \<and> (\<forall>i<5. getContainerIdListFromSerialized parser ! i = parsed_container_ids parser ! i)
       \<and> getContainerIdListFromSerialized parser ! 6 = parsed_container_ids parser ! 5
       \<and> getContainerIdListFromSerialized parser
           = take 5 (parsed_container_ids parser) @ ''empty'' # drop 5 (parsed_container_ids parser)"
proof -
  let ?p = "parsed_container_ids parser"
  have r: "getContainerIdListFromSerialized parser = list_insert 5 ''empty'' ?p"
    using assms by (simp add: getContainerIdListFromSerialized_def upgrade_container_ids_def)
  have "length (list_insert 5 ''empty'' ?p) = 7"
    using assms by (simp add: list_insert_length)
  moreover have "list_insert 5 ''empty'' ?p ! 5 = ''empty''"
    using assms by (simp add: list_insert_at)
  moreover have "\<forall>i<5. list_insert 5 ''empty'' ?p ! i = ?p ! i"
    using assms by (simp add: list_insert_before)
  moreover have "list_insert 5 ''empty'' ?p ! 6 = ?p ! 5"
    using assms list_insert_after [of 5 5 ?p "''empty''"] by simp
  moreover have "list_insert 5 ''empty'' ?p = take 5 ?p @ ''empty'' # drop 5 ?p"
    by (simp add: list_insert_def)
  ultimately show ?thesis
    unfolding r by blast
qed

theorem legacy_slot_upgrade_witness:
  "length (parsed_container_ids legacy_stack_parser) = 6
   \<and> getContainerIdListFromSerialized legacy_stack_parser
       = [''um3_user'', ''empty_quality_changes'', ''um3_normal'', ''empty_material'',
          ''empty_variant'', ''empty'', ''ultimaker3'']"
proof -
  have h: "parsed_container_ids legacy_stack_parser
             = [''um3_user'', ''empty_quality_changes'', ''um3_normal'', ''empty_material'',
                ''empty_variant'', ''ultimaker3'']"
    by (simp add: parsed_container_ids_def legacy_stack_parser_def has_section_def
        has_option_def get_option_def)
  then have l: "length (parsed_container_ids legacy_stack_parser) = 6" by simp
  from legacy_slot_upgrade [OF l] h l show ?thesis by simp
qed

subsection \<open>Child material resolution\<close>

lemma prefix_take_iff: "(length p \<le> length m \<and> p = take (length p) m) = prefix p m"
  by (metis prefix_length_le take_is_prefix append_eq_conv_conj prefix_def)

lemma best_matching_loop_inv:
  assumes "best_matching_loop m ks (b, n) = (b', n')"
    and "(b = None \<and> n = - 1) \<or> (\<exists>p. b = Some p \<and> n = int (length p) \<and> prefix p m)"
  shows "(b' = None \<longleftrightarrow> b = None \<and> (\<forall>q\<in>set ks. \<not> prefix q m))
       \<and> (\<forall>p. b' = Some p \<longrightarrow> (p \<in> set ks \<or> b = Some p) \<and> prefix p m \<and> n \<le> int (length p)
              \<and> (\<forall>q\<in>set ks. prefix q m \<longrightarrow> length q \<le> length p))"
  using assms
proof (induction ks arbitrary: b n)
  case Nil
  then show ?case by auto
next
  case (Cons k ks)
  show ?case
  proof (cases "int (length k) < n")
    case True
    with Cons.prems have step: "best_matching_loop m ks (b, n) = (b', n')" by simp
    from True Cons.prems(2) obtain p0 where p0: "b = Some p0" "n = int (length p0)" "prefix p0 m"
      by auto
    from Cons.IH [OF step Cons.prems(2)] True p0 show ?thesis
      by auto
  next
    case False
    show ?thesis
    proof (cases "prefix k m")
      case True
      with False Cons.prems have step: "best_matching_loop m ks (Some k, int (length k)) = (b', n')"
        by (simp add: prefix_take_iff)
      have "(Some k = None \<and> int (length k) = - 1) \<or> (\<exists>p. Some k = Some p \<and> int (length k) = int (length p) \<and> prefix p m)"
        using True by simp
      from Cons.IH [OF step this] True False show ?thesis
        by auto
    next
      case nopre: False
      with False Cons.prems have step: "best_matching_loop m ks (b, n) = (b', n')"
        by (simp add: prefix_take_iff)
      from Cons.IH [OF step Cons.prems(2)] nopre show ?thesis
        by auto
    qed
  qed
qed

text \<open>
  Claim C8. For a stack with the material identity \<open>old\<close>, the resolver selects among the old
  parent identities one that is a prefix of \<open>old\<close> and at least as long as every other parent
  that is a prefix of \<open>old\<close>. The candidate identity is the new identity of that parent followed
  by the rest of \<open>old\<close>. When no parent is a prefix of \<open>old\<close>, or the registry has no material
  with the candidate identity, the stack is returned unchanged; otherwise its material slot
  holds the candidate identity.
\<close>

theorem longest_prefix_material_resolution:
  assumes "getContainer stack Material = Inr old"
    and "keys = map fst old_new_material_dict"
  shows "case best_matching_old_material_id old keys of
           None \<Rightarrow> (\<forall>q\<in>set keys. \<not> prefix q old)
                   \<and> replaceStackMaterialWithNew reg stack old_new_material_dict = Inr stack
         | Some p \<Rightarrow>
             p \<in> set keys \<and> prefix p old
             \<and> (\<forall>q\<in>set keys. prefix q old \<longrightarrow> length q \<le> length p)
             \<and> (\<exists>new_parent. map_of old_new_material_dict p = Some new_parent
                  \<and> (case findInstanceContainers reg
                             [(''id'', container_id new_parent @ drop (length p) old),
                              (''type'', ''material'')] of
                        [] \<Rightarrow> replaceStackMaterialWithNew reg stack old_new_material_dict = Inr stack
                      | new_material # _ \<Rightarrow>
                          container_id new_material = container_id new_parent @ drop (length p) old
                          \<and> replaceStackMaterialWithNew reg stack old_new_material_dict
                              = Inr (replaceContainer stack Material
                                       (container_id new_parent @ drop (length p) old))))"
proof (cases "best_matching_old_material_id old keys")
  case None
  then obtain n' where l: "best_matching_loop old keys (None, - 1) = (None, n')"
    by (cases "best_matching_loop old keys (None, - 1)") (simp add: best_matching_old_material_id_def)
  from best_matching_loop_inv [OF l] have "\<forall>q\<in>set keys. \<not> prefix q old" by simp
  with None assms show ?thesis by (simp add: replaceStackMaterialWithNew_def)
next
  case (Some p)
  then obtain n' where l: "best_matching_loop old keys (None, - 1) = (Some p, n')"
    by (cases "best_matching_loop old keys (None, - 1)") (simp add: best_matching_old_material_id_def)
  from best_matching_loop_inv [OF l]
  have p: "p \<in> set keys" "prefix p old" "\<forall>q\<in>set keys. prefix q old \<longrightarrow> length q \<le> length p"
    by auto
  from p(1) assms(2) have "p \<in> fst ` set old_new_material_dict" by simp
  then have "map_of old_new_material_dict p \<noteq> None"
    by (simp add: map_of_eq_None_iff)
  then obtain new_parent where np: "map_of old_new_material_dict p = Some new_parent"
    by blast
  let ?cand = "container_id new_parent @ drop (length p) old"
  let ?found = "findInstanceContainers reg [(''id'', ?cand), (''type'', ''material'')]"
  have r: "replaceStackMaterialWithNew reg stack old_new_material_dict =
             (case ?found of [] \<Rightarrow> Inr stack
              | new_material # _ \<Rightarrow> Inr (replaceContainer stack Material (container_id new_material)))"
    using Some np assms by (simp add: replaceStackMaterialWithNew_def Let_def)
  have tail: "case ?found of
                [] \<Rightarrow> replaceStackMaterialWithNew reg stack old_new_material_dict = Inr stack
              | new_material # _ \<Rightarrow>
                  container_id new_material = ?cand
                  \<and> replaceStackMaterialWithNew reg stack old_new_material_dict
                      = Inr (replaceContainer stack Material ?cand)"
  proof (cases ?found)
    case Nil
    then show ?thesis using r by simp
  next
    case (Cons c cs)
    then have "c \<in> set (filter (matches [(''id'', ?cand), (''type'', ''material'')])
                          (List.map_filter as_instance (entries reg)))"
      by (simp add: findInstanceContainers_def)
    then have "container_id c = ?cand" by (simp add: matches_def)
    then show ?thesis using r Cons by simp
  qed
  have "\<exists>new_parent. map_of old_new_material_dict p = Some new_parent
          \<and> (case findInstanceContainers reg
                     [(''id'', container_id new_parent @ drop (length p) old),
                      (''type'', ''material'')] of
                [] \<Rightarrow> replaceStackMaterialWithNew reg stack old_new_material_dict = Inr stack
              | new_material # _ \<Rightarrow>
                  container_id new_material = container_id new_parent @ drop (length p) old
                  \<and> replaceStackMaterialWithNew reg stack old_new_material_dict
                      = Inr (replaceContainer stack Material
                               (container_id new_parent @ drop (length p) old)))"
    using np tail by blast
  with p show ?thesis
    unfolding Some by simp
qed

theorem longest_prefix_material_resolution_witness:
  "getContainer live_extruder Material = Inr ''PLA Premium_um3_aa04''
   \<and> best_matching_old_material_id ''PLA Premium_um3_aa04'' [''PLA'', ''PLA Premium'']
       = Some ''PLA Premium''
   \<and> replaceStackMaterialWithNew live_registry live_extruder minted_materials
       = Inr (replaceContainer live_extruder Material ''PLA Premium #2_um3_aa04'')"
proof -
  have s: "getContainer live_extruder Material = Inr ''PLA Premium_um3_aa04''"
    by (simp add: getContainer_def Material_def live_extruder_def)
  have k: "[''PLA'', ''PLA Premium''] = map fst minted_materials"
    by (simp add: minted_materials_def)
  have b: "best_matching_old_material_id ''PLA Premium_um3_aa04'' [''PLA'', ''PLA Premium'']
       = Some ''PLA Premium''"
    by (simp add: best_matching_old_material_id_def)
  have np: "map_of minted_materials ''PLA Premium'' = Some (material_profile ''PLA Premium #2'')"
    by (simp add: minted_materials_def)
  have f: "findInstanceContainers live_registry
             [(''id'', ''PLA Premium #2_um3_aa04''), (''type'', ''material'')]
           = [material_profile ''PLA Premium #2_um3_aa04'']"
    by (simp add: findInstanceContainers_def live_registry_def List.map_filter_simps
        matches_def material_profile_def)
  from longest_prefix_material_resolution [OF s k, of live_registry]
  have "replaceStackMaterialWithNew live_registry live_extruder minted_materials
       = Inr (replaceContainer live_extruder Material ''PLA Premium #2_um3_aa04'')"
    unfolding b using np f by (simp add: material_profile_def)
  with s b show ?thesis by blast
qed

subsection \<open>Material conflict\<close>

lemma material_loop_char:
  "material_loop reg ids (f, c) =
     (f \<or> (\<exists>cid\<in>set ids. findContainersMetadata reg cid \<noteq> []),
      c \<or> (\<exists>cid\<in>set ids. findContainersMetadata reg cid \<noteq> [] \<and> \<not> isReadOnly reg cid))"
  by (induction ids arbitrary: f c) auto

text \<open>
  Claim C6. The material conflict flag of the inspection is true exactly when some material of
  the bundle has a live record with the same identity that is not read-only, so it is set only
  for such a material; the "material already exists" flag is true exactly when some material
  of the bundle has a live record with the same identity. A same-identity live material that
  is read-only therefore sets the second flag and never the first.
\<close>

theorem material_conflict_flag:
  "inspect_materials xml reg ids =
     (xml \<and> (\<exists>cid\<in>set ids. findContainersMetadata reg cid \<noteq> []),
      xml \<and> (\<exists>cid\<in>set ids. findContainersMetadata reg cid \<noteq> [] \<and> \<not> isReadOnly reg cid))"
  by (simp add: inspect_materials_def material_loop_char)

theorem material_conflict_flag_witness:
  "inspect_materials True live_registry [''generic_pla''] = (True, False)
   \<and> inspect_materials True live_registry [''generic_pla'', ''PLA Premium #2''] = (True, True)
   \<and> inspect_materials True live_registry [''generic_abs''] = (False, False)"
  using material_conflict_flag [of True live_registry "[''generic_pla'']"]
    material_conflict_flag [of True live_registry "[''generic_pla'', ''PLA Premium #2'']"]
    material_conflict_flag [of True live_registry "[''generic_abs'']"]
  by (simp add: findContainersMetadata_def isReadOnly_def ex_defs)

subsection \<open>Quality-changes and definition-changes conflicts\<close>

lemma step_quality_changes_conflict:
  "quality_changes_conflict (instance_step differs reg c st) =
     (quality_changes_conflict st
      \<or> container_type c = Some ''quality_changes'' \<and> conflicts_with_live differs reg c)"
  by (simp add: instance_step_def conflicts_with_live_def container_type_def Let_def
      split: list.splits)

lemma step_definition_changes_conflict:
  "definition_changes_conflict (instance_step differs reg c st) =
     (definition_changes_conflict st
      \<or> container_type c = Some ''definition_changes'' \<and> conflicts_with_live differs reg c)"
  by (simp add: instance_step_def conflicts_with_live_def container_type_def Let_def
      split: list.splits)

lemma step_found_quality_changes:
  "map_of (containers_found_dict (instance_step differs reg c st)) ''quality_changes'' =
     (if container_type c = Some ''quality_changes'' \<and> exists_live reg c then Some True
      else map_of (containers_found_dict st) ''quality_changes'')"
  by (simp add: instance_step_def exists_live_def container_type_def Let_def update_conv'
      split: list.splits)

lemma step_found_definition_changes:
  "map_of (containers_found_dict (instance_step differs reg c st)) ''definition_changes'' =
     (if container_type c = Some ''definition_changes'' \<and> exists_live reg c then Some True
      else map_of (containers_found_dict st) ''definition_changes'')"
  by (simp add: instance_step_def exists_live_def container_type_def Let_def update_conv'
      split: list.splits)

lemma loop_quality_changes_conflict:
  "quality_changes_conflict (instance_loop differs reg cs st) =
     (quality_changes_conflict st
      \<or> (\<exists>c\<in>set cs. container_type c = Some ''quality_changes'' \<and> conflicts_with_live differs reg c))"
  by (induction cs arbitrary: st) (auto simp: step_quality_changes_conflict)

lemma loop_definition_changes_conflict:
  "definition_changes_conflict (instance_loop differs reg cs st) =
     (definition_changes_conflict st
      \<or> (\<exists>c\<in>set cs. container_type c = Some ''definition_changes'' \<and> conflicts_with_live differs reg c))"
  by (induction cs arbitrary: st) (auto simp: step_definition_changes_conflict)

lemma loop_found_quality_changes:
  "map_of (containers_found_dict (instance_loop differs reg cs st)) ''quality_changes'' =
     (if \<exists>c\<in>set cs. container_type c = Some ''quality_changes'' \<and> exists_live reg c then Some True
      else map_of (containers_found_dict st) ''quality_changes'')"
  by (induction cs arbitrary: st) (auto simp: step_found_quality_changes)

lemma loop_found_definition_changes:
  "map_of (containers_found_dict (instance_loop differs reg cs st)) ''definition_changes'' =
     (if \<exists>c\<in>set cs. container_type c = Some ''definition_changes'' \<and> exists_live reg c then Some True
      else map_of (containers_found_dict st) ''definition_changes'')"
  by (induction cs arbitrary: st) (auto simp: step_found_definition_changes)

lemma conflicts_with_live_iff:
  "conflicts_with_live differs reg imported \<longleftrightarrow>
     exists_live reg imported
     \<and> differs (hd (findInstanceContainers reg [(''id'', container_id imported)])) imported"
  by (simp add: conflicts_with_live_def exists_live_def split: list.splits)

lemma initial_found:
  "map_of (containers_found_dict (initial_scan initial_containers_found_dict)) ''quality_changes''
     = Some False"
  "map_of (containers_found_dict (initial_scan initial_containers_found_dict)) ''definition_changes''
     = None"
  "\<not> quality_changes_conflict (initial_scan initial_containers_found_dict)"
  "\<not> definition_changes_conflict (initial_scan initial_containers_found_dict)"
  by (simp_all add: initial_scan_def initial_containers_found_dict_def resolve_strategy_keys_def)

text \<open>
  Claim C5, as amended. The quality-changes conflict flag of the inspection is true exactly
  when at least one imported profile of type quality_changes has a live record with the same
  identity whose content compares unequal to the imported record, and likewise for
  definition_changes. The "already exists" flag of the type is true exactly when at least one
  imported profile of the type has a live record with the same identity. A profile whose live
  record compares equal thus sets the second flag and does not, by itself, set the first.
\<close>

theorem changes_conflict_flags:
  "quality_changes_conflict (inspect_instance_containers differs reg cs)
     = (\<exists>c\<in>set cs. container_type c = Some ''quality_changes'' \<and> conflicts_with_live differs reg c)
   \<and> definition_changes_conflict (inspect_instance_containers differs reg cs)
     = (\<exists>c\<in>set cs. container_type c = Some ''definition_changes'' \<and> conflicts_with_live differs reg c)
   \<and> map_of (containers_found_dict (inspect_instance_containers differs reg cs)) ''quality_changes''
     = Some (\<exists>c\<in>set cs. container_type c = Some ''quality_changes'' \<and> exists_live reg c)
   \<and> map_of (containers_found_dict (inspect_instance_containers differs reg cs)) ''definition_changes''
     = (if \<exists>c\<in>set cs. container_type c = Some ''definition_changes'' \<and> exists_live reg c
        then Some True else None)
   \<and> (conflicts_with_live differs reg imported \<longleftrightarrow>
        exists_live reg imported
        \<and> differs (hd (findInstanceContainers reg [(''id'', container_id imported)])) imported)"
proof (intro conjI)
  show "quality_changes_conflict (inspect_instance_containers differs reg cs)
     = (\<exists>c\<in>set cs. container_type c = Some ''quality_changes'' \<and> conflicts_with_live differs reg c)"
    by (simp add: inspect_instance_containers_def loop_quality_changes_conflict initial_found)
  show "definition_changes_conflict (inspect_instance_containers differs reg cs)
     = (\<exists>c\<in>set cs. container_type c = Some ''definition_changes'' \<and> conflicts_with_live differs reg c)"
    by (simp add: inspect_instance_containers_def loop_definition_changes_conflict initial_found)
  show "map_of (containers_found_dict (inspect_instance_containers differs reg cs)) ''quality_changes''
     = Some (\<exists>c\<in>set cs. container_type c = Some ''quality_changes'' \<and> exists_live reg c)"
    by (simp add: inspect_instance_containers_def loop_found_quality_changes initial_found)
  show "map_of (containers_found_dict (inspect_instance_containers differs reg cs)) ''definition_changes''
     = (if \<exists>c\<in>set cs. container_type c = Some ''definition_changes'' \<and> exists_live reg c
        then Some True else None)"
    by (simp add: inspect_instance_containers_def loop_found_definition_changes initial_found)
  show "conflicts_with_live differs reg imported \<longleftrightarrow>
        exists_live reg imported
        \<and> differs (hd (findInstanceContainers reg [(''id'', container_id imported)])) imported"
    by (rule conflicts_with_live_iff)
qed

lemma find_my_profile:
  "findInstanceContainers profile_registry [(''id'', ''my_profile'')]
     = [quality_changes_profile ''my_profile'' ''0.1'']"
  by (simp add: findInstanceContainers_def profile_registry_def List.map_filter_simps matches_def
      quality_changes_profile_def)

lemma find_new_profile:
  "findInstanceContainers profile_registry [(''id'', ''new_profile'')] = []"
  by (simp add: findInstanceContainers_def profile_registry_def List.map_filter_simps matches_def
      quality_changes_profile_def)

lemma find_my_profile_extruder:
  "findInstanceContainers profile_registry [(''id'', ''my_profile_extruder'')]
     = [quality_changes_profile ''my_profile_extruder'' ''0.1'']"
  by (simp add: findInstanceContainers_def profile_registry_def List.map_filter_simps matches_def
      quality_changes_profile_def)

theorem changes_conflict_flags_witness:
  "quality_changes_conflict
     (inspect_instance_containers content_differs profile_registry
        [quality_changes_profile ''my_profile'' ''0.2'',
         quality_changes_profile ''new_profile'' ''0.2''])
   \<and> \<not> quality_changes_conflict
     (inspect_instance_containers content_differs profile_registry
        [quality_changes_profile ''my_profile_extruder'' ''0.1'',
         quality_changes_profile ''new_profile'' ''0.2''])
   \<and> map_of (containers_found_dict
        (inspect_instance_containers content_differs profile_registry
           [quality_changes_profile ''my_profile_extruder'' ''0.1'',
            quality_changes_profile ''new_profile'' ''0.2''])) ''quality_changes'' = Some True"
proof -
  have ids: "\<And>a b. container_id (quality_changes_profile a b) = a"
    by (simp add: quality_changes_profile_def)
  have ty: "\<And>a b. container_type (quality_changes_profile a b) = Some ''quality_changes''"
    by (simp add: quality_changes_profile_def getMetaDataEntry_def container_type_def)
  have d: "content_differs (quality_changes_profile ''my_profile'' ''0.1'')
             (quality_changes_profile ''my_profile'' ''0.2'')"
    by (simp add: content_differs_def quality_changes_profile_def)
  have nd: "\<not> content_differs (quality_changes_profile ''my_profile_extruder'' ''0.1'')
                         (quality_changes_profile ''my_profile_extruder'' ''0.1'')"
    by (simp add: content_differs_def)
  have c1: "conflicts_with_live content_differs profile_registry (quality_changes_profile ''my_profile'' ''0.2'')"
    by (simp add: conflicts_with_live_def ids find_my_profile d)
  have c2: "\<not> conflicts_with_live content_differs profile_registry (quality_changes_profile ''my_profile_extruder'' ''0.1'')"
    by (simp add: conflicts_with_live_def ids find_my_profile_extruder nd)
  have c3: "\<not> conflicts_with_live content_differs profile_registry (quality_changes_profile ''new_profile'' ''0.2'')"
    by (simp add: conflicts_with_live_def ids find_new_profile)
  have e2: "exists_live profile_registry (quality_changes_profile ''my_profile_extruder'' ''0.1'')"
    by (simp add: exists_live_def ids find_my_profile_extruder)
  show ?thesis
    using changes_conflict_flags [of content_differs profile_registry
        "[quality_changes_profile ''my_profile'' ''0.2'', quality_changes_profile ''new_profile'' ''0.2'']"]
      changes_conflict_flags [of content_differs profile_registry
        "[quality_changes_profile ''my_profile_extruder'' ''0.1'', quality_changes_profile ''new_profile'' ''0.2'']"]
      c1 c2 c3 e2 ty
    by simp
qed

text \<open>
  The flag is one value for all profiles of a type, so it is not decided by each profile alone:
  here it is true, although the second imported profile has a live record that compares equal
  and the third imported profile has no live record at all.
\<close>

theorem changes_conflict_per_profile_counterexample:
  "quality_changes_conflict
     (inspect_instance_containers content_differs profile_registry
        [quality_changes_profile ''my_profile'' ''0.2'',
         quality_changes_profile ''my_profile_extruder'' ''0.1'',
         quality_changes_profile ''new_profile'' ''0.2''])
   \<and> container_type (quality_changes_profile ''my_profile_extruder'' ''0.1'') = Some ''quality_changes''
   \<and> findInstanceContainers profile_registry
        [(''id'', container_id (quality_changes_profile ''my_profile_extruder'' ''0.1''))]
      = [quality_changes_profile ''my_profile_extruder'' ''0.1'']
   \<and> \<not> content_differs (quality_changes_profile ''my_profile_extruder'' ''0.1'')
                         (quality_changes_profile ''my_profile_extruder'' ''0.1'')
   \<and> container_type (quality_changes_profile ''new_profile'' ''0.2'') = Some ''quality_changes''
   \<and> findInstanceContainers profile_registry
        [(''id'', container_id (quality_changes_profile ''new_profile'' ''0.2''))] = []"
proof -
  have ids: "container_id (quality_changes_profile ''my_profile'' ''0.2'') = ''my_profile''"
     "container_id (quality_changes_profile ''my_profile_extruder'' ''0.1'') = ''my_profile_extruder''"
     "container_id (quality_changes_profile ''new_profile'' ''0.2'') = ''new_profile''"
    by (simp_all add: quality_changes_profile_def)
  have ty: "\<And>a b. getMetaDataEntry (container_metadata (quality_changes_profile a b)) ''type''
              = Some ''quality_changes''"
    by (simp add: quality_changes_profile_def getMetaDataEntry_def)
  have d: "content_differs (quality_changes_profile ''my_profile'' ''0.1'')
             (quality_changes_profile ''my_profile'' ''0.2'')"
    by (simp add: content_differs_def quality_changes_profile_def)
  have nd: "\<not> content_differs (quality_changes_profile ''my_profile_extruder'' ''0.1'')
                         (quality_changes_profile ''my_profile_extruder'' ''0.1'')"
    by (simp add: content_differs_def)
  have "quality_changes_conflict
     (inspect_instance_containers content_differs profile_registry
        [quality_changes_profile ''my_profile'' ''0.2'',
         quality_changes_profile ''my_profile_extruder'' ''0.1'',
         quality_changes_profile ''new_profile'' ''0.2''])"
    by (simp add: inspect_instance_containers_def instance_step_def ty ids find_my_profile
        find_my_profile_extruder find_new_profile d nd Let_def)
  then show ?thesis
    using nd by (simp add: container_type_def ty ids find_my_profile_extruder find_new_profile)
qed

subsection \<open>Machine conflict\<close>

lemma slots_differ_match:
  "(\<forall>i<length ids. index + i < length (stack_containers live)
        \<and> stack_containers live ! (index + i) = old_empty_profile_id (ids ! i))
   \<Longrightarrow> slots_differ live index ids = Inr False"
proof (induction ids arbitrary: index)
  case Nil
  then show ?case by simp
next
  case (Cons c ids)
  from Cons.prems have h0: "index < length (stack_containers live)"
      "stack_containers live ! index = old_empty_profile_id c"
    by force+
  have "\<forall>i<length ids. Suc index + i < length (stack_containers live)
        \<and> stack_containers live ! (Suc index + i) = old_empty_profile_id (ids ! i)"
  proof (intro allI impI)
    fix i assume "i < length ids"
    then have "Suc i < length (c # ids)" by simp
    from Cons.prems [rule_format, OF this] show "Suc index + i < length (stack_containers live)
        \<and> stack_containers live ! (Suc index + i) = old_empty_profile_id (ids ! i)" by simp
  qed
  from Cons.IH [OF this] h0 show ?case by (simp add: getContainer_def)
qed

lemma slots_differ_first_mismatch:
  "i < length ids \<Longrightarrow> index + i < length (stack_containers live)
   \<Longrightarrow> (\<forall>j<i. stack_containers live ! (index + j) = old_empty_profile_id (ids ! j))
   \<Longrightarrow> stack_containers live ! (index + i) \<noteq> old_empty_profile_id (ids ! i)
   \<Longrightarrow> slots_differ live index ids = Inr True"
proof (induction ids arbitrary: index i)
  case Nil
  then show ?case by simp
next
  case (Cons c ids)
  show ?case
  proof (cases i)
    case 0
    with Cons.prems show ?thesis by (simp add: getContainer_def)
  next
    case (Suc i')
    from Cons.prems Suc have h0: "index < length (stack_containers live)"
      "stack_containers live ! index = old_empty_profile_id c"
      by force+
    have a: "i' < length ids" using Cons.prems Suc by simp
    have b: "Suc index + i' < length (stack_containers live)" using Cons.prems Suc by simp
    have c: "\<forall>j<i'. stack_containers live ! (Suc index + j) = old_empty_profile_id (ids ! j)"
    proof (intro allI impI)
      fix j assume "j < i'"
      then have "Suc j < i" using Suc by simp
      from Cons.prems(3) [rule_format, OF this]
      show "stack_containers live ! (Suc index + j) = old_empty_profile_id (ids ! j)" by simp
    qed
    have d: "stack_containers live ! (Suc index + i') \<noteq> old_empty_profile_id (ids ! i')"
      using Cons.prems(4) Suc by simp
    from Cons.IH [OF a b c d] h0 show ?thesis by (simp add: getContainer_def)
  qed
qed

lemma slots_differ_append_True:
  "slots_differ live index ids = Inr True \<Longrightarrow> slots_differ live index (ids @ later) = Inr True"
  by (induction ids arbitrary: index) (auto split: sum.splits if_splits)

lemma old_empty_profile_id_cases:
  "old_empty_profile_id cid = (if cid = ''empty_material'' \<or> cid = ''empty_variant'' then ''empty'' else cid)"
  by (simp add: old_empty_profile_id_def old_empty_profile_id_dict_def)

lemma slots_differ_True_mismatch:
  "slots_differ live index ids = Inr True
   \<Longrightarrow> \<exists>i<length ids. index + i < length (stack_containers live)
         \<and> stack_containers live ! (index + i) \<noteq> old_empty_profile_id (ids ! i)"
proof (induction ids arbitrary: index)
  case Nil
  then show ?case by simp
next
  case (Cons c ids)
  show ?case
  proof (cases "index < length (stack_containers live)")
    case False
    with Cons.prems show ?thesis by (simp add: getContainer_def)
  next
    case True
    show ?thesis
    proof (cases "stack_containers live ! index = old_empty_profile_id c")
      case False
      with True have "0 < length (c # ids) \<and> index + 0 < length (stack_containers live)
         \<and> stack_containers live ! (index + 0) \<noteq> old_empty_profile_id ((c # ids) ! 0)"
        by simp
      then show ?thesis by blast
    next
      case eq: True
      with True Cons.prems have "slots_differ live (Suc index) ids = Inr True"
        by (simp add: getContainer_def)
      from Cons.IH [OF this] obtain i where
        "i < length ids" "Suc index + i < length (stack_containers live)"
        "stack_containers live ! (Suc index + i) \<noteq> old_empty_profile_id (ids ! i)"
        by blast
      then have "Suc i < length (c # ids) \<and> index + Suc i < length (stack_containers live)
         \<and> stack_containers live ! (index + Suc i) \<noteq> old_empty_profile_id ((c # ids) ! Suc i)"
        by simp
      then show ?thesis by blast
    qed
  qed
qed

lemma slots_match_differ: "slots_match live ids \<Longrightarrow> slots_differ live 0 ids = Inr False"
  using slots_differ_match [of ids 0 live] by (simp add: slots_match_def)

lemma slots_differ_mismatch: "slots_differ live 0 ids = Inr True \<Longrightarrow> slot_mismatch live ids"
  using slots_differ_True_mismatch [of live 0 ids] by (simp add: slot_mismatch_def)

lemma extruder_loop_all_match:
  "(\<forall>f\<in>set efiles. extruder_file_matches live f) \<Longrightarrow> extruder_loop live efiles mc = Inr mc"
proof (induction efiles arbitrary: mc)
  case Nil
  then show ?case by simp
next
  case (Cons x xs)
  from Cons.prems have m: "extruder_file_matches live x"
    and r: "\<forall>f\<in>set xs. extruder_file_matches live f" by simp_all
  from m obtain position existing where
    "parser_getitem (file_parser x) ''metadata'' ''position'' = Inr position"
    "map_of (extruders live) position = Some existing"
    "slots_match existing (getContainerIdListFromSerialized (file_parser x))"
    by (auto simp: extruder_file_matches_def split: sum.splits option.splits)
  with Cons.IH [OF r, of mc] show ?case
    by (simp add: slots_match_differ)
qed

lemma extruder_loop_True:
  "extruder_loop live efiles mc = Inr True
   \<Longrightarrow> mc \<or> (\<exists>f\<in>set efiles. extruder_file_differs live f)"
proof (induction efiles arbitrary: mc)
  case Nil
  then show ?case by simp
next
  case (Cons x xs)
  from Cons.prems obtain position existing d where
    p: "parser_getitem (file_parser x) ''metadata'' ''position'' = Inr position"
    and e: "map_of (extruders live) position = Some existing"
    and s: "slots_differ existing 0 (getContainerIdListFromSerialized (file_parser x)) = Inr d"
    and l: "extruder_loop live xs (if d then True else mc) = Inr True"
    by (auto split: sum.splits option.splits)
  from Cons.IH [OF l] consider "d" | "mc" | "\<exists>f\<in>set xs. extruder_file_differs live f"
    by (auto split: if_splits)
  then show ?case
  proof cases
    case 1
    with s have "slot_mismatch existing (getContainerIdListFromSerialized (file_parser x))"
      by (simp add: slots_differ_mismatch)
    with p e have "extruder_file_differs live x" by (simp add: extruder_file_differs_def)
    then show ?thesis by simp
  next
    case 2
    then show ?thesis by simp
  next
    case 3
    then show ?thesis by auto
  qed
qed

text \<open>
  Claim C3, as amended. The machine stack file has a \<^verbatim>\<open>[general]\<close> section and a live machine
  stack has its identity. The machine stack is compared slot index by slot index: the
  imported identity, with \<open>empty_material\<close> and \<open>empty_variant\<close> read as \<open>empty\<close>, against the
  identity of the live occupant at the same index. At the first index where they differ the
  machine conflict flag is true, whatever the imported slots after that index and whatever
  the extruder stack files are. When every slot of the machine stack matches, the flag at
  line 269 is false, although the stack identities are equal, and the flag of the inspection
  is the one that the loop over the extruder stack files leaves: false when every extruder
  stack file matches the live extruder stack at its position, and true only if a slot of
  some extruder stack file differs from the live extruder stack at its position.
\<close>

theorem machine_conflict_detection:
  assumes "has_section (file_parser global_stack_file) ''general''"
    and "findContainerStacks reg (file_id global_stack_file) = live # others"
    and "id_list = getContainerIdListFromSerialized (file_parser global_stack_file)"
  shows "((\<forall>i<length id_list. i < length (stack_containers live)
             \<and> stack_containers live ! i = old_empty_profile_id (id_list ! i)) \<longrightarrow>
           check_global_stack reg global_stack_file = Inr (Some live, False)
           \<and> inspect_machine reg global_stack_file extruder_stack_files
               = extruder_loop live extruder_stack_files False
           \<and> ((\<forall>f\<in>set extruder_stack_files. extruder_file_matches live f) \<longrightarrow>
                inspect_machine reg global_stack_file extruder_stack_files = Inr False)
           \<and> (inspect_machine reg global_stack_file extruder_stack_files = Inr True \<longrightarrow>
                (\<exists>f\<in>set extruder_stack_files. extruder_file_differs live f)))
       \<and> (\<forall>i. i < length id_list \<and> i < length (stack_containers live)
             \<and> (\<forall>j<i. stack_containers live ! j = old_empty_profile_id (id_list ! j))
             \<and> stack_containers live ! i \<noteq> old_empty_profile_id (id_list ! i) \<longrightarrow>
           check_global_stack reg global_stack_file = Inr (Some live, True)
           \<and> inspect_machine reg global_stack_file extruder_stack_files = Inr True
           \<and> (\<forall>later. slots_differ live 0 (take (Suc i) id_list @ later) = Inr True))
       \<and> old_empty_profile_id cid
           = (if cid = ''empty_material'' \<or> cid = ''empty_variant'' then ''empty'' else cid)"
proof -
  from assms(1) obtain name where
    n: "getMachineNameFromSerializedStack (file_parser global_stack_file) = Inr name"
    by (auto simp: has_section_def getMachineNameFromSerializedStack_def)
  have c: "check_global_stack reg global_stack_file
        = (case slots_differ live 0 id_list of
             Inl e \<Rightarrow> Inl e
           | Inr machine_conflict \<Rightarrow> Inr (Some live, machine_conflict))"
    using assms(2,3) n by (simp add: check_global_stack_def)
  have 1: "check_global_stack reg global_stack_file = Inr (Some live, False)
           \<and> inspect_machine reg global_stack_file extruder_stack_files
               = extruder_loop live extruder_stack_files False
           \<and> ((\<forall>f\<in>set extruder_stack_files. extruder_file_matches live f) \<longrightarrow>
                inspect_machine reg global_stack_file extruder_stack_files = Inr False)
           \<and> (inspect_machine reg global_stack_file extruder_stack_files = Inr True \<longrightarrow>
                (\<exists>f\<in>set extruder_stack_files. extruder_file_differs live f))"
    if h: "\<forall>i<length id_list. i < length (stack_containers live)
             \<and> stack_containers live ! i = old_empty_profile_id (id_list ! i)"
  proof -
    from h have "slots_differ live 0 id_list = Inr False"
      using slots_differ_match [of id_list 0 live] by simp
    with c have g: "check_global_stack reg global_stack_file = Inr (Some live, False)" by simp
    then have i: "inspect_machine reg global_stack_file extruder_stack_files
               = extruder_loop live extruder_stack_files False"
      by (simp add: inspect_machine_def)
    have m: "(\<forall>f\<in>set extruder_stack_files. extruder_file_matches live f) \<longrightarrow>
                inspect_machine reg global_stack_file extruder_stack_files = Inr False"
      unfolding i using extruder_loop_all_match [of extruder_stack_files live False] by blast
    have t: "inspect_machine reg global_stack_file extruder_stack_files = Inr True \<longrightarrow>
                (\<exists>f\<in>set extruder_stack_files. extruder_file_differs live f)"
      unfolding i using extruder_loop_True [of live extruder_stack_files False] by blast
    from g i m t show ?thesis by blast
  qed
  have 2: "check_global_stack reg global_stack_file = Inr (Some live, True)
           \<and> inspect_machine reg global_stack_file extruder_stack_files = Inr True
           \<and> (\<forall>later. slots_differ live 0 (take (Suc i) id_list @ later) = Inr True)"
    if h: "i < length id_list \<and> i < length (stack_containers live)
             \<and> (\<forall>j<i. stack_containers live ! j = old_empty_profile_id (id_list ! j))
             \<and> stack_containers live ! i \<noteq> old_empty_profile_id (id_list ! i)" for i
  proof -
    from h have "slots_differ live 0 id_list = Inr True"
      using slots_differ_first_mismatch [of i id_list 0 live] by simp
    with c have g: "check_global_stack reg global_stack_file = Inr (Some live, True)" by simp
    then have i: "inspect_machine reg global_stack_file extruder_stack_files = Inr True"
      by (simp add: inspect_machine_def)
    have "slots_differ live 0 (take (Suc i) id_list) = Inr True"
      using h slots_differ_first_mismatch [of i "take (Suc i) id_list" 0 live] by simp
    then have "\<forall>later. slots_differ live 0 (take (Suc i) id_list @ later) = Inr True"
      by (simp add: slots_differ_append_True)
    with g i show ?thesis by blast
  qed
  from 1 2 old_empty_profile_id_cases [of cid] show ?thesis by blast
qed

lemma machine_same_matches:
  "\<forall>i<length (getContainerIdListFromSerialized (file_parser machine_file_same)).
     i < length (stack_containers live_machine)
     \<and> stack_containers live_machine ! i
         = old_empty_profile_id (getContainerIdListFromSerialized (file_parser machine_file_same) ! i)"
  unfolding same_ids
  by (simp add: live_machine_def old_empty_profile_id_cases nth_Cons' less_Suc_eq)

lemma extruder_same_ids:
  "getContainerIdListFromSerialized (file_parser extruder_file_same)
     = [''um3_extruder_0_user'', ''empty_quality_changes'', ''um3_normal'',
        ''PLA Premium_um3_aa04'', ''um3_aa04'', ''empty'', ''um3_extruder_left'']"
  by (simp add: cfg_defs extruder_file_same_def)

lemma extruder_same_position:
  "parser_getitem (file_parser extruder_file_same) ''metadata'' ''position'' = Inr ''0''"
  by (rule parser_getitem_plain)
    (simp_all add: extruder_file_same_def get_option_def optionxform_literals)

lemma extruder_changed_ids:
  "getContainerIdListFromSerialized (file_parser extruder_file_changed)
     = [''um3_extruder_0_user'', ''my_profile'']"
  by (simp add: cfg_defs extruder_file_changed_def)

lemma extruder_changed_position:
  "parser_getitem (file_parser extruder_file_changed) ''metadata'' ''position'' = Inr ''0''"
  by (rule parser_getitem_plain)
    (simp_all add: extruder_file_changed_def get_option_def optionxform_literals)

lemma extruder_unknown_position:
  "parser_getitem (file_parser extruder_file_unknown_position) ''metadata'' ''position'' = Inr ''1''"
  by (rule parser_getitem_plain)
    (simp_all add: extruder_file_unknown_position_def get_option_def optionxform_literals)

lemma live_extruders:
  "map_of (extruders live_machine) ''0'' = Some live_extruder"
  "map_of (extruders live_machine) ''1'' = None"
  by (simp_all add: live_machine_def)

lemma extruder_same_matches: "extruder_file_matches live_machine extruder_file_same"
  by (simp add: extruder_file_matches_def extruder_same_position live_extruders
      extruder_same_ids slots_match_def live_extruder_def old_empty_profile_id_cases
      nth_Cons' less_Suc_eq)

lemma extruder_changed_differs:
  "slots_differ live_extruder 0 [''um3_extruder_0_user'', ''my_profile''] = Inr True"
  by (simp add: getContainer_def live_extruder_def old_empty_profile_id_cases)

theorem machine_conflict_detection_witness:
  "has_section (file_parser machine_file_same) ''general''
   \<and> findContainerStacks live_registry (file_id machine_file_same) = live_machine # []
   \<and> check_global_stack live_registry machine_file_same = Inr (Some live_machine, False)
   \<and> inspect_machine live_registry machine_file_same [extruder_file_same] = Inr False
   \<and> check_global_stack live_registry machine_file_changed = Inr (Some live_machine, True)
   \<and> inspect_machine live_registry machine_file_changed [extruder_file_same] = Inr True"
proof -
  have s1: "has_section (file_parser machine_file_same) ''general''"
    by (simp add: has_section_def machine_file_same_def legacy_stack_parser_def)
  have s2: "has_section (file_parser machine_file_changed) ''general''"
    by (simp add: has_section_def machine_file_changed_def)
  have f1: "findContainerStacks live_registry (file_id machine_file_same) = live_machine # []"
    using live_found by (simp add: machine_file_same_def)
  have f2: "findContainerStacks live_registry (file_id machine_file_changed) = live_machine # []"
    using live_found by (simp add: machine_file_changed_def)
  have e: "\<forall>f\<in>set [extruder_file_same]. extruder_file_matches live_machine f"
    by (simp add: extruder_same_matches)
  from machine_conflict_detection [OF s1 f1 refl, where extruder_stack_files = "[extruder_file_same]"]
    machine_same_matches e
  have 1: "check_global_stack live_registry machine_file_same = Inr (Some live_machine, False)
     \<and> inspect_machine live_registry machine_file_same [extruder_file_same] = Inr False"
    by blast
  have mis: "2 < length (getContainerIdListFromSerialized (file_parser machine_file_changed))
     \<and> 2 < length (stack_containers live_machine)
     \<and> (\<forall>j<2. stack_containers live_machine ! j
            = old_empty_profile_id (getContainerIdListFromSerialized (file_parser machine_file_changed) ! j))
     \<and> stack_containers live_machine ! 2
            \<noteq> old_empty_profile_id (getContainerIdListFromSerialized (file_parser machine_file_changed) ! 2)"
    unfolding changed_ids
    by (simp add: live_machine_def old_empty_profile_id_cases nth_Cons' less_Suc_eq)
  from machine_conflict_detection
         [OF s2 f2 refl, where extruder_stack_files = "[extruder_file_same]"] mis
  have 2: "check_global_stack live_registry machine_file_changed = Inr (Some live_machine, True)
     \<and> inspect_machine live_registry machine_file_changed [extruder_file_same] = Inr True"
    by blast
  from s1 f1 1 2 show ?thesis by blast
qed

lemma check_machine_same:
  "check_global_stack live_registry machine_file_same = Inr (Some live_machine, False)"
proof -
  have "getMachineNameFromSerializedStack (file_parser machine_file_same) = Inr ''Ultimaker 3''"
    by (simp add: getMachineNameFromSerializedStack_def machine_file_same_def
        legacy_stack_parser_def)
  moreover have "findContainerStacks live_registry (file_id machine_file_same) = [live_machine]"
    using live_found by (simp add: machine_file_same_def)
  moreover have "slots_differ live_machine 0
      (getContainerIdListFromSerialized (file_parser machine_file_same)) = Inr False"
    using machine_same_matches
      slots_differ_match [of "getContainerIdListFromSerialized (file_parser machine_file_same)" 0 live_machine]
    by simp
  ultimately show ?thesis by (simp add: check_global_stack_def)
qed

text \<open>
  The claim as stated fails in two ways. Every slot of the legacy machine stack file matches
  the live machine, and the flag of the inspection is true, because the extruder stack file
  at position 0 differs from the live extruder stack. And a machine stack file with the
  slots of the live machine and no \<^verbatim>\<open>[general]\<close> section gives no flag: line 256 raises
  \<^verbatim>\<open>KeyError\<close>.
\<close>

theorem extruder_conflict_with_matching_machine_counterexample:
  "findContainerStacks live_registry (file_id machine_file_same) = [live_machine]
   \<and> map old_empty_profile_id (getContainerIdListFromSerialized (file_parser machine_file_same))
       = stack_containers live_machine
   \<and> check_global_stack live_registry machine_file_same = Inr (Some live_machine, False)
   \<and> inspect_machine live_registry machine_file_same [extruder_file_changed] = Inr True
   \<and> findContainerStacks live_registry (file_id machine_file_no_general) = [live_machine]
   \<and> map old_empty_profile_id
         (getContainerIdListFromSerialized (file_parser machine_file_no_general))
       = stack_containers live_machine
   \<and> inspect_machine live_registry machine_file_no_general [] = Inl KeyError"
proof -
  have 1: "findContainerStacks live_registry (file_id machine_file_same) = [live_machine]"
    using live_found by (simp add: machine_file_same_def)
  have 2: "map old_empty_profile_id (getContainerIdListFromSerialized (file_parser machine_file_same))
       = stack_containers live_machine"
    unfolding same_ids by (simp add: old_empty_profile_id_cases live_machine_def)
  have 4: "inspect_machine live_registry machine_file_same [extruder_file_changed] = Inr True"
    by (simp add: inspect_machine_def check_machine_same extruder_changed_position live_extruders
        extruder_changed_ids extruder_changed_differs del: slots_differ.simps)
  have 5: "findContainerStacks live_registry (file_id machine_file_no_general) = [live_machine]"
    using live_found by (simp add: machine_file_no_general_def)
  have 6: "map old_empty_profile_id
         (getContainerIdListFromSerialized (file_parser machine_file_no_general))
       = stack_containers live_machine"
    by (simp add: cfg_defs machine_file_no_general_def old_empty_profile_id_cases live_machine_def)
  have 7: "inspect_machine live_registry machine_file_no_general [] = Inl KeyError"
    by (simp add: inspect_machine_def check_global_stack_def
        getMachineNameFromSerializedStack_def machine_file_no_general_def)
  from 1 2 check_machine_same 4 5 6 7 show ?thesis by blast
qed

subsection \<open>Extruder positions\<close>

lemma extruder_loop_missing_position:
  assumes "\<forall>x\<in>set earlier. extruder_file_compared live x"
    and "parser_getitem (file_parser f) ''metadata'' ''position'' = Inr position"
    and "map_of (extruders live) position = None"
  shows "extruder_loop live (earlier @ f # later) mc = Inr False"
  using assms(1)
proof (induction earlier arbitrary: mc)
  case Nil
  from assms(2,3) show ?case by simp
next
  case (Cons x xs)
  from Cons.prems have c: "extruder_file_compared live x"
    and r: "\<forall>x\<in>set xs. extruder_file_compared live x" by simp_all
  from c obtain p existing where
    p: "parser_getitem (file_parser x) ''metadata'' ''position'' = Inr p"
    and e: "map_of (extruders live) p = Some existing"
    by (auto simp: extruder_file_compared_def split: sum.splits option.splits)
  from c p e obtain d where
    "slots_differ existing 0 (getContainerIdListFromSerialized (file_parser x)) = Inr d"
    by (cases "slots_differ existing 0 (getContainerIdListFromSerialized (file_parser x))")
      (simp_all add: extruder_file_compared_def)
  with p e Cons.IH [OF r] show ?case by simp
qed

lemma overrideExtruderStack_missing_position:
  assumes "parser_getitem extruder_config ''metadata'' ''position'' = Inr position"
    and "map_of (extruders global_stack) position = None"
  shows "overrideExtruderStack global_stack extruder_config st = Inr None"
  using assms
  by (auto simp: overrideExtruderStack_def parser_getitem_def has_option_def get_option_def
      optionxform_literals split: option.splits if_splits)

text \<open>
  Claim C4, evaluated where the code parts from it. The live machine has an extruder stack at
  position 0 only, and the project has extruder stack files at positions 0 and 1 and the
  machine stack file of the live machine. The inspection ends with the machine conflict flag
  false, as the claim says. It has found the machine, so a strategy that the dialog leaves
  unset becomes \<open>override\<close> at line 374, and the write pass creates nothing: it deserializes
  over the live machine stack and the live extruder stack at position 0, and
  \<^verbatim>\<open>_overrideExtruderStack\<close> returns \<^verbatim>\<open>None\<close> for the file at position 1, which is skipped. The
  comment of lines 286-291 says that a new machine is created by default.
\<close>

theorem missing_position_overrides_and_skips:
  "inspect_machine live_registry machine_file_same
      [extruder_file_same, extruder_file_unknown_position] = Inr False
   \<and> check_global_stack live_registry machine_file_same = Inr (Some live_machine, False)
   \<and> default_resolve_strategies
         (found_machine (Some live_machine) initial_containers_found_dict) unset_strategies
       = machine_found_strategies
   \<and> map_of machine_found_strategies ''machine'' = Some (Some ''override'')
   \<and> overrideExtruderStack live_machine (file_parser extruder_file_unknown_position)
         (initial_read_state live_registry) = Inr None
   \<and> read_write_pass numbered_name settings_builder extruder_settings_builder
         no_single_extruder True machine_found_strategies two_extruder_project live_registry
       = Stacks state_after_override overridden_machine [overridden_extruder]
   \<and> stack_id overridden_machine = stack_id live_machine
   \<and> map fst (extruders overridden_machine) = [''0'']
   \<and> findContainersMetadata (st_registry state_after_override) ''um3_extruder_1'' = []
   \<and> st_containers_added state_after_override = []"
proof -
  have c: "extruder_file_compared live_machine extruder_file_same"
    using slots_match_differ [of live_extruder
        "getContainerIdListFromSerialized (file_parser extruder_file_same)"]
      extruder_same_matches
    by (simp add: extruder_file_compared_def extruder_file_matches_def extruder_same_position
        live_extruders del: slots_differ.simps)
  have "extruder_loop live_machine ([extruder_file_same] @ extruder_file_unknown_position # [])
          False = Inr False"
    by (rule extruder_loop_missing_position [OF _ extruder_unknown_position live_extruders(2)])
      (simp add: c)
  then have 1: "inspect_machine live_registry machine_file_same
      [extruder_file_same, extruder_file_unknown_position] = Inr False"
    by (simp add: inspect_machine_def check_machine_same del: extruder_loop.simps)
  have 3: "default_resolve_strategies
         (found_machine (Some live_machine) initial_containers_found_dict) unset_strategies
       = machine_found_strategies"
    by (simp add: default_resolve_strategies_def found_machine_def
        initial_containers_found_dict_def resolve_strategy_keys_def unset_strategies_def
        machine_found_strategies_def)
  have 4: "map_of machine_found_strategies ''machine'' = Some (Some ''override'')"
    by (simp add: machine_found_strategies_def)
  have 5: "overrideExtruderStack live_machine (file_parser extruder_file_unknown_position)
         (initial_read_state live_registry) = Inr None"
    by (rule overrideExtruderStack_missing_position
        [OF extruder_unknown_position live_extruders(2)])
  have 6: "read_write_pass numbered_name settings_builder extruder_settings_builder
         no_single_extruder True machine_found_strategies two_extruder_project live_registry
       = Stacks state_after_override overridden_machine [overridden_extruder]"
    by code_simp
  have 7: "stack_id overridden_machine = stack_id live_machine"
    by (simp add: overridden_machine_def live_machine_def)
  have 8: "map fst (extruders overridden_machine) = [''0'']"
    by (simp add: overridden_machine_def)
  have 9: "findContainersMetadata (st_registry state_after_override) ''um3_extruder_1'' = []"
    by (simp add: findContainersMetadata_def state_after_override_def overridden_machine_def
        overridden_extruder_def material_profile_def new_container_def)
  have 10: "st_containers_added state_after_override = []"
    by (simp add: state_after_override_def)
  from 1 check_machine_same 3 4 5 6 7 8 9 10 show ?thesis by blast
qed

subsection \<open>Default resolve strategies\<close>

lemma default_loop_map_of:
  "distinct (map fst its) \<Longrightarrow>
   map_of (default_loop found its rs) k =
     (case map_of its k of
        Some None \<Rightarrow> (case map_of found k of
                        Some b \<Rightarrow> Some (Some (if b then ''override'' else ''new''))
                      | None \<Rightarrow> map_of rs k)
      | _ \<Rightarrow> map_of rs k)"
proof (induction its arbitrary: rs)
  case Nil
  then show ?case by simp
next
  case (Cons it its)
  obtain key strategy where it: "it = (key, strategy)" by (cases it)
  from Cons.prems it have d: "distinct (map fst its)" and nk: "key \<notin> fst ` set its" by auto
  from nk have none: "map_of its key = None" by (simp add: map_of_eq_None_iff)
  show ?case
  proof (cases "k = key")
    case True
    show ?thesis using Cons.IH [OF d] none True it
      by (auto simp: update_conv' split: option.splits)
  next
    case False
    show ?thesis using Cons.IH [OF d] False it
      by (auto simp: update_conv' split: option.splits)
  qed
qed

text \<open>
  Claim C7. For a category whose strategy in the dialog result is unset (\<^verbatim>\<open>None\<close>) and whose
  "already exists" flag was recorded by the inspection, the final strategy is \<open>override\<close> when
  the flag is true and \<open>new\<close> when it is false; a strategy that was supplied is kept as it is.
  The flag is recorded for machine, material and quality_changes: the dictionary of flags
  starts with an entry for each of them (line 139), and an assignment to the dictionary
  removes no entry.
\<close>

theorem strategy_defaulting:
  assumes "distinct (map fst dialog_result)"
  shows "(map_of dialog_result key = Some None \<and> map_of found key = Some b \<longrightarrow>
            map_of (default_resolve_strategies found dialog_result) key
              = Some (Some (if b then ''override'' else ''new'')))
       \<and> (map_of dialog_result key = Some (Some s) \<longrightarrow>
            map_of (default_resolve_strategies found dialog_result) key = Some (Some s))
       \<and> (key \<in> set resolve_strategy_keys \<longrightarrow>
            map_of initial_containers_found_dict key = Some False)
       \<and> (map_of found key \<noteq> None \<longrightarrow> map_of (AList.update k v found) key \<noteq> None)"
proof -
  have 1: "map_of dialog_result key = Some None \<and> map_of found key = Some b \<longrightarrow>
            map_of (default_resolve_strategies found dialog_result) key
              = Some (Some (if b then ''override'' else ''new''))"
    using default_loop_map_of [OF assms, of found dialog_result key]
    by (auto simp: default_resolve_strategies_def)
  have 2: "map_of dialog_result key = Some (Some s) \<longrightarrow>
            map_of (default_resolve_strategies found dialog_result) key = Some (Some s)"
    using default_loop_map_of [OF assms, of found dialog_result key]
    by (auto simp: default_resolve_strategies_def)
  have 3: "key \<in> set resolve_strategy_keys \<longrightarrow>
            map_of initial_containers_found_dict key = Some False"
    by (auto simp: initial_containers_found_dict_def resolve_strategy_keys_def)
  have 4: "map_of found key \<noteq> None \<longrightarrow> map_of (AList.update k v found) key \<noteq> None"
    by (simp add: update_conv')
  from 1 2 3 4 show ?thesis by blast
qed

theorem strategy_defaulting_witness:
  "distinct (map fst [(''machine'', None), (''quality_changes'', Some ''new''), (''material'', None)])
   \<and> map_of (default_resolve_strategies
               [(''machine'', True), (''material'', False), (''quality_changes'', True)]
               [(''machine'', None), (''quality_changes'', Some ''new''), (''material'', None)])
        ''machine'' = Some (Some ''override'')
   \<and> map_of (default_resolve_strategies
               [(''machine'', True), (''material'', False), (''quality_changes'', True)]
               [(''machine'', None), (''quality_changes'', Some ''new''), (''material'', None)])
        ''material'' = Some (Some ''new'')
   \<and> map_of (default_resolve_strategies
               [(''machine'', True), (''material'', False), (''quality_changes'', True)]
               [(''machine'', None), (''quality_changes'', Some ''new''), (''material'', None)])
        ''quality_changes'' = Some (Some ''new'')"
proof -
  let ?d = "[(''machine'', None), (''quality_changes'', Some ''new''), (''material'', None)]"
  let ?f = "[(''machine'', True), (''material'', False), (''quality_changes'', True)]"
  have d: "distinct (map fst ?d)" by simp
  from strategy_defaulting [OF d, where key = "''machine''" and found = ?f and b = True]
  have 1: "map_of (default_resolve_strategies ?f ?d) ''machine'' = Some (Some ''override'')" by simp
  from strategy_defaulting [OF d, where key = "''material''" and found = ?f and b = False]
  have 2: "map_of (default_resolve_strategies ?f ?d) ''material'' = Some (Some ''new'')" by simp
  from strategy_defaulting [OF d, where key = "''quality_changes''" and found = ?f and s = "''new''"]
  have 3: "map_of (default_resolve_strategies ?f ?d) ''quality_changes'' = Some (Some ''new'')" by simp
  from d 1 2 3 show ?thesis by blast
qed

subsection \<open>Records of the registry\<close>

lemma find_after_remove:
  "findContainersMetadata (removeContainer reg cid) cid' =
     (if cid' = cid then [] else findContainersMetadata reg cid')"
  by (auto simp: findContainersMetadata_def removeContainer_def filter_empty_conv
      intro: filter_cong)

lemma find_after_remove_added:
  "findContainersMetadata (remove_added reg cids) cid =
     (if cid \<in> set cids then [] else findContainersMetadata reg cid)"
  by (induction cids arbitrary: reg) (auto simp: find_after_remove)

lemma stacks_after_replace_first:
  "stack_id g = cid \<Longrightarrow>
   filter (\<lambda>x. stack_id x = cid)
     (List.map_filter as_global_stack
        (replace_first (is_global_stack_with_id cid) (GlobalStack g) es))
   = (case filter (\<lambda>x. stack_id x = cid) (List.map_filter as_global_stack es) of
        [] \<Rightarrow> [] | x # xs \<Rightarrow> g # xs)"
proof (induction es)
  case Nil
  then show ?case by (simp add: List.map_filter_simps)
next
  case (Cons e es)
  then show ?case
    by (cases e) (auto simp: List.map_filter_simps is_global_stack_with_id_def split: list.splits)
qed

lemma instances_after_replace_first:
  "container_id c = cid \<Longrightarrow>
   filter (matches [(''id'', cid)])
     (List.map_filter as_instance
        (replace_first (is_instance_with_id cid) (InstanceContainer c) es))
   = (case filter (matches [(''id'', cid)]) (List.map_filter as_instance es) of
        [] \<Rightarrow> [] | x # xs \<Rightarrow> c # xs)"
proof (induction es)
  case Nil
  then show ?case by (simp add: List.map_filter_simps)
next
  case (Cons e es)
  then show ?case
    by (cases e)
      (auto simp: List.map_filter_simps is_instance_with_id_def matches_def split: list.splits)
qed

lemma length_replace_first: "length (replace_first P new es) = length es"
  by (induction es) auto

lemma found_stack_id: "findContainerStacks reg cid = live # others \<Longrightarrow> stack_id live = cid"
proof -
  assume "findContainerStacks reg cid = live # others"
  then have "live \<in> set (filter (\<lambda>g. stack_id g = cid) (List.map_filter as_global_stack (entries reg)))"
    by (simp add: findContainerStacks_def)
  then show ?thesis by simp
qed

lemma found_instance_id:
  "findInstanceContainers reg [(''id'', cid)] = existing # others \<Longrightarrow> container_id existing = cid"
proof -
  assume "findInstanceContainers reg [(''id'', cid)] = existing # others"
  then have "existing \<in> set (filter (matches [(''id'', cid)]) (List.map_filter as_instance (entries reg)))"
    by (simp add: findInstanceContainers_def)
  then show ?thesis by (simp add: matches_def)
qed

subsection \<open>User containers under an unset machine strategy\<close>

lemma relink_machine_no_rename: "\<not> global_stack_need_rename ids \<Longrightarrow> relink_machine ids c = c"
  by (simp add: relink_machine_def)

lemma plan_identities_no_rename:
  "plan_identities uniqueName resolve_strategies b st = Inr (ids, st')
   \<Longrightarrow> map_of resolve_strategies ''machine'' \<noteq> Some (Some ''new'')
   \<Longrightarrow> \<not> global_stack_need_rename ids"
  by (auto simp: plan_identities_def get_strategy_def Let_def split: sum.splits option.splits if_splits)

lemma load_user_container_existing:
  assumes "findInstanceContainers (st_registry st) [(''id'', container_id c)] = existing # others"
    and "map_of resolve_strategies ''machine'' = Some strategy"
    and "strategy = None \<or> strategy = Some ''override''"
  shows "load_user_container resolve_strategies id_map parser c st
           = Inr ((deserialize_container parser existing)\<lparr>container_dirty := True\<rparr>, True, 0)"
  using assms by (auto simp: load_user_container_def get_strategy_def)

lemma load_instance_user_existing:
  assumes "get_option (file_parser f) ''metadata'' ''type'' = Some ''user''"
    and "findInstanceContainers (st_registry st) [(''id'', file_id f)] = existing # others"
    and "map_of resolve_strategies ''machine'' = Some strategy"
    and "strategy = None \<or> strategy = Some ''override''"
  shows "load_instance uniqueName resolve_strategies ids f st =
     Inr (finish_instance (file_id f)
            (relink_machine ids ((deserialize_container (file_parser f) existing)\<lparr>container_dirty := True\<rparr>))
            True 0
            (st\<lparr>st_user_instance_containers := st_user_instance_containers st @
                  [relink_machine ids ((deserialize_container (file_parser f) existing)\<lparr>container_dirty := True\<rparr>)]\<rparr>))"
proof -
  let ?ic = "deserialize_container (file_parser f) (new_container (file_id f))"
  have i: "container_id ?ic = file_id f"
    by (simp add: deserialize_container_def new_container_def)
  have u: "load_user_container resolve_strategies (extruder_stack_id_map ids) (file_parser f) ?ic st
           = Inr ((deserialize_container (file_parser f) existing)\<lparr>container_dirty := True\<rparr>, True, 0)"
    using load_user_container_existing [of st ?ic existing others resolve_strategies strategy]
      assms i by simp
  have t: "parser_get (file_parser f) ''metadata'' ''type'' = Inr ''user''"
    using parser_get_plain [OF assms(1) optionxform_literals(1)] by simp
  have h: "has_option (file_parser f) ''metadata'' ''type''"
    using assms(1) by (simp add: has_option_def)
  show ?thesis
    using assms(1) u t h
    by (simp add: load_instance_def Let_def ignored_instance_container_types_def
        deserialized_metadata)
qed

lemma load_instance_unset_like_override:
  assumes "get_option (file_parser f) ''metadata'' ''type'' = Some ''user''"
    and "findInstanceContainers (st_registry st) [(''id'', file_id f)] = existing # others"
    and "map_of resolve_strategies ''machine'' = Some None"
    and "\<not> global_stack_need_rename ids"
  shows "load_instance uniqueName resolve_strategies ids f st
           = load_instance uniqueName (AList.update ''machine'' (Some ''override'') resolve_strategies)
               ids f st
       \<and> (\<exists>st'. load_instance uniqueName resolve_strategies ids f st = Inr st'
              \<and> findInstanceContainers (st_registry st') [(''id'', file_id f)]
                  = (deserialize_container (file_parser f) existing)\<lparr>container_dirty := True\<rparr> # others
              \<and> length (entries (st_registry st')) = length (entries (st_registry st))
              \<and> st_containers_to_add st' = st_containers_to_add st)"
proof -
  let ?c = "(deserialize_container (file_parser f) existing)\<lparr>container_dirty := True\<rparr>"
  let ?st' = "finish_instance (file_id f) ?c True 0
                (st\<lparr>st_user_instance_containers := st_user_instance_containers st @ [?c]\<rparr>)"
  have n: "load_instance uniqueName resolve_strategies ids f st = Inr ?st'"
    using load_instance_user_existing [OF assms(1,2,3), of uniqueName ids] assms(4)
    by (simp add: relink_machine_no_rename)
  have "map_of (AList.update ''machine'' (Some ''override'') resolve_strategies) ''machine''
          = Some (Some ''override'')"
    by (simp add: update_conv')
  from load_instance_user_existing [OF assms(1,2) this, of uniqueName ids] assms(4)
  have o: "load_instance uniqueName (AList.update ''machine'' (Some ''override'') resolve_strategies)
             ids f st = Inr ?st'"
    by (simp add: relink_machine_no_rename)
  have cid: "container_id ?c = file_id f"
    using found_instance_id [OF assms(2)] by (simp add: deserialize_container_def)
  have f: "findInstanceContainers (st_registry ?st') [(''id'', file_id f)] = ?c # others"
    using instances_after_replace_first [OF cid, of "entries (st_registry st)"] assms(2)
    by (simp add: finish_instance_def store_instance_def findInstanceContainers_def)
  have l: "length (entries (st_registry ?st')) = length (entries (st_registry st))"
    by (simp add: finish_instance_def store_instance_def length_replace_first)
  have a: "st_containers_to_add ?st' = st_containers_to_add st"
    by (simp add: finish_instance_def)
  from n o f l a show ?thesis by simp
qed

text \<open>
  Claim C10. For an imported instance container of type \<open>user\<close> whose identity a live container
  has, the write pass under the machine strategy \<^verbatim>\<open>None\<close> does what it does under \<open>override\<close>:
  the planned identities are the same and the iteration is the same. The live record is
  deserialized over from the imported document and marked dirty, the registry keeps its
  number of records, and nothing is appended to \<^verbatim>\<open>containers_to_add\<close>.
\<close>

theorem unset_machine_strategy_overwrites_user_container:
  assumes "get_option (file_parser f) ''metadata'' ''type'' = Some ''user''"
    and "findInstanceContainers (st_registry st) [(''id'', file_id f)] = existing # others"
    and "map_of resolve_strategies ''machine'' = Some None"
    and "plan_identities uniqueName resolve_strategies b st0 = Inr (ids, st1)"
  shows "plan_identities uniqueName
           (AList.update ''machine'' (Some ''override'') resolve_strategies) b st0 = Inr (ids, st1)
       \<and> load_instance uniqueName resolve_strategies ids f st
           = load_instance uniqueName (AList.update ''machine'' (Some ''override'') resolve_strategies)
               ids f st
       \<and> (\<exists>st'. load_instance uniqueName resolve_strategies ids f st = Inr st'
              \<and> findInstanceContainers (st_registry st') [(''id'', file_id f)]
                  = (deserialize_container (file_parser f) existing)\<lparr>container_dirty := True\<rparr> # others
              \<and> length (entries (st_registry st')) = length (entries (st_registry st))
              \<and> st_containers_to_add st' = st_containers_to_add st)"
proof -
  have n: "\<not> global_stack_need_rename ids"
    using plan_identities_no_rename [OF assms(4)] assms(3) by simp
  have p: "plan_identities uniqueName
           (AList.update ''machine'' (Some ''override'') resolve_strategies) b st0 = Inr (ids, st1)"
    using assms(3,4)
    by (auto simp: plan_identities_def get_strategy_def update_conv' Let_def split: sum.splits)
  from load_instance_unset_like_override [OF assms(1,2,3) n, of uniqueName] p
  show ?thesis by blast
qed

lemma initial_read_state_simps:
  "st_registry (initial_read_state reg) = reg"
  "st_containers_to_add (initial_read_state reg) = []"
  "st_containers_added (initial_read_state reg) = []"
  by (simp_all add: initial_read_state_def)

lemma strategies_machine: "map_of unset_strategies ''machine'' = Some None"
  by (simp add: unset_strategies_def resolve_strategy_keys_def)

lemma plan_project:
  "plan_identities numbered_name unset_strategies project (initial_read_state networked_registry)
     = Inr (no_rename, initial_read_state networked_registry)"
  by (simp add: plan_identities_def getMachineNameFromSerializedStack_def get_strategy_def
      strategies_machine project_def machine_file_same_def legacy_stack_parser_def no_rename_def
      Let_def)

lemma definitions_project:
  "load_definitions networked_registry (bundle_definitions project) = registry_with_definition"
  by (simp add: project_def custom_printer_file_def findDefinitionContainersMetadata_def
      networked_registry_def List.map_filter_simps addContainer_def findContainersMetadata_def
      networked_machine_def live_user_settings_def deserialize_container_def new_container_def
      get_option_def items_def registry_with_definition_def custom_printer_definition_def)

lemma find_user: "findInstanceContainers registry_with_definition [(''id'', ''um3_user'')]
    = [live_user_settings]"
  by (simp add: findInstanceContainers_def registry_with_definition_def List.map_filter_simps
      matches_def live_user_settings_def)

lemma user_type: "get_option (file_parser user_settings_file) ''metadata'' ''type'' = Some ''user''"
  "file_id user_settings_file = ''um3_user''"
  by (simp_all add: user_settings_file_def get_option_def)

lemma deserialize_user:
  "(deserialize_container (file_parser user_settings_file) live_user_settings)\<lparr>container_dirty := True\<rparr>
     = overwritten_user_settings"
  by (simp add: deserialize_container_def user_settings_file_def live_user_settings_def
      overwritten_user_settings_def get_option_def items_def)

theorem unset_machine_strategy_overwrites_user_container_witness:
  "get_option (file_parser user_settings_file) ''metadata'' ''type'' = Some ''user''
   \<and> findInstanceContainers registry_with_definition [(''id'', file_id user_settings_file)]
       = live_user_settings # []
   \<and> map_of unset_strategies ''machine'' = Some None
   \<and> plan_identities numbered_name unset_strategies project (initial_read_state networked_registry)
       = Inr (no_rename, initial_read_state networked_registry)
   \<and> (\<exists>st'. load_instance numbered_name unset_strategies no_rename user_settings_file
                (initial_read_state registry_with_definition) = Inr st'
          \<and> findInstanceContainers (st_registry st') [(''id'', ''um3_user'')]
              = [overwritten_user_settings]
          \<and> st_containers_to_add st' = [])"
proof -
  have f: "findInstanceContainers (st_registry (initial_read_state registry_with_definition))
             [(''id'', file_id user_settings_file)] = live_user_settings # []"
    by (simp add: initial_read_state_simps user_type find_user)
  from unset_machine_strategy_overwrites_user_container
         [OF user_type(1) f strategies_machine plan_project, THEN conjunct2, THEN conjunct2]
  obtain st' where
    "load_instance numbered_name unset_strategies no_rename user_settings_file
                (initial_read_state registry_with_definition) = Inr st'"
    "findInstanceContainers (st_registry st') [(''id'', ''um3_user'')] = [overwritten_user_settings]"
    "st_containers_to_add st' = []"
    by (auto simp: user_type deserialize_user initial_read_state_simps)
  with user_type f strategies_machine plan_project show ?thesis
    by (auto simp: initial_read_state_simps)
qed

subsection \<open>Overriding the machine stack\<close>

lemma keep_authentication_id [simp]: "stack_id (keep_authentication k v s) = stack_id s"
  by (simp add: keep_authentication_def split: option.splits)

lemma keep_authentication_metadata:
  "getMetaDataEntry (stack_metadata (keep_authentication k old s)) k' =
     (if k' = k \<and> truthy old \<and> getMetaDataEntry (stack_metadata s) k = None then old
      else getMetaDataEntry (stack_metadata s) k')"
  by (cases old)
    (auto simp: keep_authentication_def getMetaDataEntry_def addMetaDataEntry_def map_add_def
      split: option.splits)

lemma deserialize_stack_metadata:
  "getMetaDataEntry (stack_metadata (deserialize_stack parser s)) k = get_option parser ''metadata'' k"
  by (simp add: deserialize_stack_def getMetaDataEntry_def get_option_def items_def
      split: option.splits)

lemma override_global_stack_result:
  assumes "findContainerStacks reg original = live # others"
  shows "\<exists>reg' stack.
           override_global_stack reg original parser = Inr (reg', stack)
         \<and> findContainerStacks reg' original = stack # others
         \<and> stack_id stack = stack_id live
         \<and> (\<forall>k v. (k = ''network_authentication_id'' \<or> k = ''network_authentication_key'')
                \<and> getMetaDataEntry (stack_metadata live) k = Some v \<and> v \<noteq> []
                \<and> get_option parser ''metadata'' k = None
              \<longrightarrow> getMetaDataEntry (stack_metadata stack) k = Some v)
         \<and> (\<forall>k v. get_option parser ''metadata'' k = Some v
              \<longrightarrow> getMetaDataEntry (stack_metadata stack) k = Some v)"
proof -
  let ?nid = "getMetaDataEntry (stack_metadata live) ''network_authentication_id''"
  let ?nkey = "getMetaDataEntry (stack_metadata live) ''network_authentication_key''"
  let ?stack = "keep_authentication ''network_authentication_key'' ?nkey
                  (keep_authentication ''network_authentication_id'' ?nid
                     (deserialize_stack parser live))"
  have r: "override_global_stack reg original parser
             = Inr (store_global_stack reg original ?stack, ?stack)"
    using assms by (simp add: override_global_stack_def Let_def)
  have i: "stack_id ?stack = stack_id live"
    by (simp add: deserialize_stack_def)
  have o: "stack_id live = original"
    using assms by (rule found_stack_id)
  have f: "findContainerStacks (store_global_stack reg original ?stack) original = ?stack # others"
    using assms stacks_after_replace_first [of ?stack original "entries reg"] i o
    by (simp add: findContainerStacks_def store_global_stack_def)
  have m: "\<And>k. getMetaDataEntry (stack_metadata ?stack) k =
      (if k = ''network_authentication_key'' \<and> truthy ?nkey
            \<and> get_option parser ''metadata'' ''network_authentication_key'' = None then ?nkey
       else if k = ''network_authentication_id'' \<and> truthy ?nid
            \<and> get_option parser ''metadata'' ''network_authentication_id'' = None then ?nid
       else get_option parser ''metadata'' k)"
    by (simp add: keep_authentication_metadata deserialize_stack_metadata)
  have a: "\<forall>k v. (k = ''network_authentication_id'' \<or> k = ''network_authentication_key'')
                \<and> getMetaDataEntry (stack_metadata live) k = Some v \<and> v \<noteq> []
                \<and> get_option parser ''metadata'' k = None
              \<longrightarrow> getMetaDataEntry (stack_metadata ?stack) k = Some v"
    unfolding m by auto
  have b: "\<forall>k v. get_option parser ''metadata'' k = Some v
              \<longrightarrow> getMetaDataEntry (stack_metadata ?stack) k = Some v"
    unfolding m by auto
  from r f i a b show ?thesis by blast
qed

lemma ensure_definition_changes_stack:
  "ensure_definition_changes cdc stack st = Inr (st', stack') \<Longrightarrow>
     stack_id stack' = stack_id stack \<and> stack_metadata stack' = stack_metadata stack"
  by (auto simp: ensure_definition_changes_def Let_def replaceContainer_def
      split: sum.splits if_splits prod.splits)

lemma load_global_stack_override:
  assumes "map_of rs ''machine'' = Some (Some ''override'')"
    and "load_global_stack cdc rs ids parser st = Inr (st', stack')"
    and "override_global_stack (st_registry st) (global_stack_id_original ids) parser
           = Inr (reg', stack)"
  shows "stack_id stack' = stack_id stack \<and> stack_metadata stack' = stack_metadata stack"
  using assms ensure_definition_changes_stack [of cdc stack "st\<lparr>st_registry := reg'\<rparr>" st' stack']
  by (auto simp: load_global_stack_def get_strategy_def Let_def split: sum.splits)

text \<open>
  Claim C2, as amended. With strategy \<open>override\<close> and a live machine stack of the imported
  identity, the stack after lines 662-674 is the live record of the registry, with the
  identity it had. An authentication entry (\<open>network_authentication_id\<close>,
  \<open>network_authentication_key\<close>) that the live stack had with a non-empty value and that the
  imported document does not have is present afterwards with that value; every metadata entry
  of the imported document is present with the imported value. The rest of the guarded block
  leaves the identity and the metadata as they are then.
\<close>

theorem override_keeps_identity_and_authentication:
  assumes "findContainerStacks reg original = live # others"
  shows "\<exists>reg' stack.
           override_global_stack reg original parser = Inr (reg', stack)
         \<and> findContainerStacks reg' original = stack # others
         \<and> stack_id stack = stack_id live
         \<and> (\<forall>k v. (k = ''network_authentication_id'' \<or> k = ''network_authentication_key'')
                \<and> getMetaDataEntry (stack_metadata live) k = Some v \<and> v \<noteq> []
                \<and> get_option parser ''metadata'' k = None
              \<longrightarrow> getMetaDataEntry (stack_metadata stack) k = Some v)
         \<and> (\<forall>k v. get_option parser ''metadata'' k = Some v
              \<longrightarrow> getMetaDataEntry (stack_metadata stack) k = Some v)
         \<and> (\<forall>createDefinitionChangesContainer resolve_strategies ids st st' stack'.
                map_of resolve_strategies ''machine'' = Some (Some ''override'')
                \<and> st_registry st = reg \<and> global_stack_id_original ids = original
                \<and> load_global_stack createDefinitionChangesContainer resolve_strategies ids
                      parser st = Inr (st', stack')
              \<longrightarrow> stack_id stack' = stack_id live
                  \<and> stack_metadata stack' = stack_metadata stack)"
proof -
  from override_global_stack_result [OF assms, of parser]
  obtain reg' stack where
    r: "override_global_stack reg original parser = Inr (reg', stack)"
    and rest: "findContainerStacks reg' original = stack # others"
      "stack_id stack = stack_id live"
      "\<forall>k v. (k = ''network_authentication_id'' \<or> k = ''network_authentication_key'')
                \<and> getMetaDataEntry (stack_metadata live) k = Some v \<and> v \<noteq> []
                \<and> get_option parser ''metadata'' k = None
              \<longrightarrow> getMetaDataEntry (stack_metadata stack) k = Some v"
      "\<forall>k v. get_option parser ''metadata'' k = Some v
              \<longrightarrow> getMetaDataEntry (stack_metadata stack) k = Some v"
    by blast
  have "\<forall>cdc rs ids st st' stack'.
                map_of rs ''machine'' = Some (Some ''override'')
                \<and> st_registry st = reg \<and> global_stack_id_original ids = original
                \<and> load_global_stack cdc rs ids parser st = Inr (st', stack')
              \<longrightarrow> stack_id stack' = stack_id live
                  \<and> stack_metadata stack' = stack_metadata stack"
  proof (intro allI impI)
    fix cdc :: "registry \<Rightarrow> global_stack \<Rightarrow> string \<Rightarrow> registry \<times> container"
    fix rs ids st st' stack'
    assume h: "map_of rs ''machine'' = Some (Some ''override'')
                \<and> st_registry st = reg \<and> global_stack_id_original ids = original
                \<and> load_global_stack cdc rs ids parser st = Inr (st', stack')"
    then have "override_global_stack (st_registry st) (global_stack_id_original ids) parser
           = Inr (reg', stack)"
      using r by simp
    from load_global_stack_override [OF _ _ this, of rs cdc st' stack'] h rest(2)
    show "stack_id stack' = stack_id live \<and> stack_metadata stack' = stack_metadata stack"
      by simp
  qed
  with r rest show ?thesis by blast
qed

lemma networked_found: "findContainerStacks networked_registry ''um3'' = [networked_machine]"
  by (simp add: findContainerStacks_def networked_registry_def List.map_filter_simps
      networked_machine_def)

lemma legacy_metadata:
  "get_option legacy_stack_parser ''metadata'' ''network_authentication_id'' = None"
  "get_option legacy_stack_parser ''metadata'' ''network_authentication_key'' = None"
  by (simp_all add: get_option_def legacy_stack_parser_def)

lemma override_networked:
  "override_global_stack networked_registry ''um3'' legacy_stack_parser
     = Inr (store_global_stack networked_registry ''um3'' merged_machine, merged_machine)"
proof -
  have d: "deserialize_stack legacy_stack_parser networked_machine
     = \<lparr>stack_id = ''um3'', stack_name = ''Ultimaker 3'',
      stack_metadata = [(''type'', ''machine'')],
      stack_containers = [''um3_user'', ''empty_quality_changes'', ''um3_normal'',
                          ''empty_material'', ''empty_variant'', ''empty'', ''ultimaker3''],
      extruders = []\<rparr>"
    unfolding deserialize_stack_def legacy_ids
    by (simp add: networked_machine_def legacy_stack_parser_def get_option_def items_def)
  have m: "getMetaDataEntry (stack_metadata networked_machine) ''network_authentication_id''
             = Some ''printer-1''"
    "getMetaDataEntry (stack_metadata networked_machine) ''network_authentication_key'' = Some []"
    by (simp_all add: getMetaDataEntry_def networked_machine_def)
  have "override_global_stack networked_registry ''um3'' legacy_stack_parser
     = Inr (store_global_stack networked_registry ''um3''
              (keep_authentication ''network_authentication_key'' (Some [])
                 (keep_authentication ''network_authentication_id'' (Some ''printer-1'')
                    (deserialize_stack legacy_stack_parser networked_machine))),
            keep_authentication ''network_authentication_key'' (Some [])
              (keep_authentication ''network_authentication_id'' (Some ''printer-1'')
                 (deserialize_stack legacy_stack_parser networked_machine)))"
    by (simp add: override_global_stack_def networked_found Let_def m)
  then show ?thesis
    unfolding d
    by (simp add: keep_authentication_def addMetaDataEntry_def merged_machine_def)
qed

theorem override_keeps_identity_and_authentication_witness:
  "findContainerStacks networked_registry ''um3'' = networked_machine # []
   \<and> getMetaDataEntry (stack_metadata networked_machine) ''network_authentication_id''
       = Some ''printer-1''
   \<and> get_option legacy_stack_parser ''metadata'' ''network_authentication_id'' = None
   \<and> override_global_stack networked_registry ''um3'' legacy_stack_parser
       = Inr (store_global_stack networked_registry ''um3'' merged_machine, merged_machine)
   \<and> stack_id merged_machine = stack_id networked_machine
   \<and> getMetaDataEntry (stack_metadata merged_machine) ''network_authentication_id''
       = Some ''printer-1''"
proof -
  have f: "findContainerStacks networked_registry ''um3'' = networked_machine # []"
    by (simp add: networked_found)
  have v: "getMetaDataEntry (stack_metadata networked_machine) ''network_authentication_id''
             = Some ''printer-1''"
    by (simp add: getMetaDataEntry_def networked_machine_def)
  from override_keeps_identity_and_authentication [OF f, of legacy_stack_parser]
  obtain reg' stack where
    r: "override_global_stack networked_registry ''um3'' legacy_stack_parser = Inr (reg', stack)"
    and i: "stack_id stack = stack_id networked_machine"
    and a: "\<forall>k v. (k = ''network_authentication_id'' \<or> k = ''network_authentication_key'')
                \<and> getMetaDataEntry (stack_metadata networked_machine) k = Some v \<and> v \<noteq> []
                \<and> get_option legacy_stack_parser ''metadata'' k = None
              \<longrightarrow> getMetaDataEntry (stack_metadata stack) k = Some v"
    by blast
  from r have s: "stack = merged_machine" by (simp add: override_networked)
  from a v legacy_metadata(1)
  have "getMetaDataEntry (stack_metadata stack) ''network_authentication_id'' = Some ''printer-1''"
    by simp
  with f v legacy_metadata(1) override_networked i s show ?thesis by simp
qed

text \<open>
  An authentication entry whose value is the empty string does not pass the test
  \<^verbatim>\<open>if network_authentication_key:\<close> of line 673: it was present on the live stack, it is
  absent from the imported document, and it is absent after the merge.
\<close>

theorem empty_authentication_entry_counterexample:
  "findContainerStacks networked_registry ''um3'' = [networked_machine]
   \<and> getMetaDataEntry (stack_metadata networked_machine) ''network_authentication_key'' = Some []
   \<and> get_option legacy_stack_parser ''metadata'' ''network_authentication_key'' = None
   \<and> override_global_stack networked_registry ''um3'' legacy_stack_parser
       = Inr (store_global_stack networked_registry ''um3'' merged_machine, merged_machine)
   \<and> getMetaDataEntry (stack_metadata merged_machine) ''network_authentication_key'' = None"
  using networked_found legacy_metadata(2) override_networked
  by (simp add: getMetaDataEntry_def networked_machine_def merged_machine_def)

subsection \<open>Clean-up after a failed write pass\<close>

lemma identities_addContainer:
  "identities_of (addContainer reg e) = insert (entry_id e) (identities_of reg)"
proof (cases "findContainersMetadata reg (entry_id e) = []")
  case True
  then show ?thesis by (simp add: identities_of_def addContainer_def)
next
  case False
  then obtain x where "x \<in> set (entries reg)" "entry_id x = entry_id e"
    by (auto simp: findContainersMetadata_def filter_empty_conv)
  then have "entry_id e \<in> identities_of reg"
    unfolding identities_of_def by (metis imageI)
  with False show ?thesis by (auto simp: addContainer_def)
qed

lemma identities_removeContainer:
  "identities_of (removeContainer reg cid) = identities_of reg - {cid}"
  by (auto simp: identities_of_def removeContainer_def)

lemma identities_remove_added:
  "identities_of (remove_added reg cids) = identities_of reg - set cids"
  by (induction cids arbitrary: reg) (auto simp: identities_removeContainer)

lemma identities_replace_first:
  "(\<And>e. P e \<Longrightarrow> entry_id e = entry_id new)
   \<Longrightarrow> entry_id ` set (replace_first P new es) \<subseteq> entry_id ` set es"
  by (induction es) auto

lemma identities_store_instance:
  assumes "container_id c = cid"
  shows "identities_of (store_instance reg cid c) \<subseteq> identities_of reg"
proof -
  have "\<And>e. is_instance_with_id cid e \<Longrightarrow> entry_id e = entry_id (InstanceContainer c)"
    using assms by (case_tac e) (simp_all add: is_instance_with_id_def)
  from identities_replace_first [where P = "is_instance_with_id cid" and new = "InstanceContainer c", OF this]
  show ?thesis by (simp add: identities_of_def store_instance_def)
qed

lemma identities_store_global_stack:
  assumes "stack_id g = cid"
  shows "identities_of (store_global_stack reg cid g) \<subseteq> identities_of reg"
proof -
  have "\<And>e. is_global_stack_with_id cid e \<Longrightarrow> entry_id e = entry_id (GlobalStack g)"
    using assms by (case_tac e) (simp_all add: is_global_stack_with_id_def)
  from identities_replace_first [where P = "is_global_stack_with_id cid" and new = "GlobalStack g", OF this]
  show ?thesis by (simp add: identities_of_def store_global_stack_def)
qed

lemma identities_store_extruder_stack:
  assumes "stack_id s = cid"
  shows "identities_of (store_extruder_stack reg cid s) \<subseteq> identities_of reg"
proof -
  have "\<And>e. is_extruder_stack_with_id cid e \<Longrightarrow> entry_id e = entry_id (ExtruderStack s)"
    using assms by (case_tac e) (simp_all add: is_extruder_stack_with_id_def)
  from identities_replace_first [where P = "is_extruder_stack_with_id cid" and new = "ExtruderStack s", OF this]
  show ?thesis by (simp add: identities_of_def store_extruder_stack_def)
qed

lemma getNewId_frame:
  "getNewId uniqueName st old_id = (new_id, st')
   \<Longrightarrow> st_registry st' = st_registry st \<and> st_containers_added st' = st_containers_added st"
  by (auto simp: getNewId_def Let_def split: option.splits)

lemma extruder_id_loop_frame:
  "extruder_id_loop uniqueName files (id_map, st) = (id_map', st')
   \<Longrightarrow> st_registry st' = st_registry st \<and> st_containers_added st' = st_containers_added st"
proof (induction files arbitrary: id_map st)
  case Nil
  then show ?case by simp
next
  case (Cons f files)
  show ?case
  proof (cases "findContainerStacksMetadata (st_registry st) (file_id f) \<noteq> []")
    case True
    obtain new_id st1 where g: "getNewId uniqueName st (file_id f) = (new_id, st1)"
      by (cases "getNewId uniqueName st (file_id f)")
    with True Cons.prems have
      "extruder_id_loop uniqueName files (AList.update (file_id f) new_id id_map, st1) = (id_map', st')"
      by (simp add: Let_def)
    from Cons.IH [OF this] getNewId_frame [OF g] show ?thesis by simp
  next
    case False
    with Cons.prems have
      "extruder_id_loop uniqueName files (AList.update (file_id f) (file_id f) id_map, st) = (id_map', st')"
      by (simp add: Let_def)
    from Cons.IH [OF this] show ?thesis .
  qed
qed

lemma plan_identities_frame:
  assumes "plan_identities uniqueName resolve_strategies b st = Inr (ids, st')"
  shows "st_registry st' = st_registry st \<and> st_containers_added st' = st_containers_added st"
proof -
  from assms obtain strategy where s: "get_strategy resolve_strategies ''machine'' = Inr strategy"
    by (auto simp: plan_identities_def split: sum.splits)
  show ?thesis
  proof (cases "strategy = Some ''new''")
    case False
    with assms s show ?thesis
      by (auto simp: plan_identities_def Let_def split: sum.splits)
  next
    case True
    let ?original = "file_id (bundle_machine b)"
    obtain new_id need st1 where
      c: "(if findContainerStacksMetadata (st_registry st) ?original \<noteq> []
           then (case getNewId uniqueName st ?original of (new_id, st1) \<Rightarrow> (new_id, True, st1))
           else (?original, False, st)) = (new_id, need, st1)"
      by (metis prod_cases3)
    then have f1: "st_registry st1 = st_registry st \<and> st_containers_added st1 = st_containers_added st"
      by (auto split: if_splits prod.splits dest: getNewId_frame)
    obtain id_map st2 where
      l: "extruder_id_loop uniqueName (bundle_extruders b) ([], st1) = (id_map, st2)"
      by (cases "extruder_id_loop uniqueName (bundle_extruders b) ([], st1)")
    from assms s True c l have "st' = st2"
      by (auto simp: plan_identities_def Let_def split: sum.splits)
    with extruder_id_loop_frame [OF l] f1 show ?thesis by simp
  qed
qed

lemma deserialized_id: "container_id (deserialize_container parser c) = container_id c"
  by (simp add: deserialize_container_def)

lemma identities_load_definitions:
  "identities_of (load_definitions reg defs) \<subseteq> identities_of reg \<union> file_id ` set defs"
proof (induction defs arbitrary: reg)
  case Nil
  then show ?case by simp
next
  case (Cons d defs)
  show ?case
  proof (cases "findDefinitionContainersMetadata reg (file_id d) = []")
    case True
    let ?reg = "addContainer reg (DefinitionContainer
                  (deserialize_container (file_parser d) (new_container (file_id d))))"
    have "identities_of ?reg = insert (file_id d) (identities_of reg)"
      by (simp add: identities_addContainer deserialized_id new_container_def)
    with Cons.IH [of ?reg] True show ?thesis by auto
  next
    case False
    with Cons.IH [of reg] show ?thesis by auto
  qed
qed

lemma load_material_frame:
  assumes "load_material uniqueName resolve_strategies f st = Inr st'"
  shows "identities_of (st_registry st') \<subseteq> identities_of (st_registry st)
       \<and> st_containers_added st' = st_containers_added st"
proof (cases "findInstanceContainers (st_registry st) [(''id'', file_id f)]")
  case Nil
  with assms show ?thesis by (auto simp: load_material_def Let_def)
next
  case (Cons existing others)
  have i: "container_id (deserialize_container (file_parser f) existing) = file_id f"
    using found_instance_id [OF Cons] by (simp add: deserialized_id)
  show ?thesis
  proof (cases "isReadOnly (st_registry st) (file_id f)")
    case True
    with assms Cons show ?thesis by (auto simp: load_material_def Let_def)
  next
    case False
    from assms Cons False obtain strategy where
      s: "get_strategy resolve_strategies ''material'' = Inr strategy"
      by (auto simp: load_material_def Let_def split: sum.splits)
    consider "strategy = Some ''override''" | "strategy = Some ''new''"
      | "strategy \<noteq> Some ''override''" "strategy \<noteq> Some ''new''" by blast
    then show ?thesis
    proof cases
      case 1
      with assms Cons False s identities_store_instance [OF i, of "st_registry st"] show ?thesis
        by (auto simp: load_material_def Let_def)
    next
      case 2
      obtain new_id st1 where g: "getNewId uniqueName st (file_id f) = (new_id, st1)"
        by (cases "getNewId uniqueName st (file_id f)")
      with assms Cons False s 2 getNewId_frame [OF g] show ?thesis
        by (auto simp: load_material_def Let_def)
    next
      case 3
      with assms Cons False s show ?thesis by (auto simp: load_material_def Let_def)
    qed
  qed
qed

lemma load_materials_frame:
  "load_materials uniqueName resolve_strategies fs st = r
   \<Longrightarrow> (\<forall>e st'. r = Inl (e, st') \<or> r = Inr st' \<longrightarrow>
         identities_of (st_registry st') \<subseteq> identities_of (st_registry st)
         \<and> st_containers_added st' = st_containers_added st)"
proof (induction fs arbitrary: st)
  case Nil
  then show ?case by auto
next
  case (Cons f fs)
  show ?case
  proof (cases "load_material uniqueName resolve_strategies f st")
    case (Inl e)
    with Cons.prems show ?thesis by auto
  next
    case (Inr st1)
    with Cons.prems have "load_materials uniqueName resolve_strategies fs st1 = r" by simp
    from Cons.IH [OF this] load_material_frame [OF Inr] show ?thesis by (metis subset_trans)
  qed
qed

lemma relink_machine_id: "container_id (relink_machine ids c) = container_id c"
  by (simp add: relink_machine_def)

lemma load_user_container_live:
  assumes "load_user_container resolve_strategies id_map parser instance_container st
             = Inr (c, True, appended)"
  shows "container_id c = container_id instance_container"
proof (cases "findInstanceContainers (st_registry st) [(''id'', container_id instance_container)]")
  case Nil
  with assms show ?thesis by (simp add: load_user_container_def)
next
  case (Cons existing others)
  from assms Cons found_instance_id [OF Cons] show ?thesis
    by (auto simp: load_user_container_def Let_def deserialized_id
        split: sum.splits if_splits option.splits prod.splits)
qed

lemma load_changes_container_frame:
  assumes "load_changes_container uniqueName resolve_strategies id_map ctype parser
             instance_container st = Inr (c, is_live, appended, st')"
  shows "st_registry st' = st_registry st \<and> st_containers_added st' = st_containers_added st
       \<and> (is_live \<longrightarrow> container_id c = container_id instance_container)"
proof (cases "findInstanceContainers (st_registry st) [(''id'', container_id instance_container)]")
  case Nil
  with assms show ?thesis by (simp add: load_changes_container_def)
next
  case (Cons existing others)
  from assms Cons obtain strategy where
    s: "get_strategy resolve_strategies ctype = Inr strategy"
    by (auto simp: load_changes_container_def split: sum.splits)
  consider "strategy = Some ''override''" | "strategy = Some ''new''"
    | "strategy \<noteq> Some ''override''" "strategy \<noteq> Some ''new''" by blast
  then show ?thesis
  proof cases
    case 1
    with assms Cons s found_instance_id [OF Cons] show ?thesis
      by (auto simp: load_changes_container_def deserialized_id)
  next
    case 2
    let ?named = "instance_container\<lparr>container_name :=
                     uniqueName (st_registry st) (container_name instance_container)\<rparr>"
    obtain new_id st1 where g: "getNewId uniqueName st (container_id ?named) = (new_id, st1)"
      by (cases "getNewId uniqueName st (container_id ?named)")
    note f1 = getNewId_frame [OF g]
    from assms Cons s 2 g have "\<not> is_live"
      by (auto simp: load_changes_container_def Let_def split: sum.splits if_splits prod.splits)
    moreover have "st_registry st' = st_registry st \<and> st_containers_added st' = st_containers_added st"
      using assms Cons s 2 g f1
      by (auto simp: load_changes_container_def Let_def
          split: sum.splits if_splits prod.splits dest!: getNewId_frame)
    ultimately show ?thesis by simp
  next
    case 3
    with assms Cons s show ?thesis by (auto simp: load_changes_container_def)
  qed
qed

lemma finish_instance_frame:
  assumes "is_live \<longrightarrow> container_id c = cid"
  shows "identities_of (st_registry (finish_instance cid c is_live appended st))
           \<subseteq> identities_of (st_registry st)
       \<and> st_containers_added (finish_instance cid c is_live appended st) = st_containers_added st"
  using assms identities_store_instance [of c cid "st_registry st"]
  by (auto simp: finish_instance_def)

lemma load_other_container_frame:
  "identities_of (st_registry (load_other_container ids cid c st)) \<subseteq> identities_of (st_registry st)
   \<and> st_containers_added (load_other_container ids cid c st) = st_containers_added st"
  using finish_instance_frame [of False]
  by (simp add: load_other_container_def Let_def)

lemma finish_instance_frame_from:
  assumes "is_live \<longrightarrow> container_id c = cid"
    and "st_registry st1 = st_registry st" and "st_containers_added st1 = st_containers_added st"
  shows "identities_of (st_registry (finish_instance cid c is_live appended st1))
           \<subseteq> identities_of (st_registry st)
       \<and> st_containers_added (finish_instance cid c is_live appended st1) = st_containers_added st"
  using finish_instance_frame [OF assms(1), of appended st1] assms(2,3) by simp

lemma load_instance_frame:
  assumes "load_instance uniqueName resolve_strategies ids f st = Inr st'"
  shows "identities_of (st_registry st') \<subseteq> identities_of (st_registry st)
       \<and> st_containers_added st' = st_containers_added st"
proof (cases "has_option (file_parser f) ''metadata'' ''type''")
  case False
  with assms show ?thesis by (simp add: load_instance_def)
next
  case h: True
  let ?ic = "deserialize_container (file_parser f) (new_container (file_id f))"
  have i: "container_id ?ic = file_id f" by (simp add: deserialized_id new_container_def)
  from assms h obtain parsed_type where
    p: "parser_get (file_parser f) ''metadata'' ''type'' = Inr parsed_type"
    by (cases "parser_get (file_parser f) ''metadata'' ''type''")
      (simp_all add: load_instance_def Let_def)
  show ?thesis
  proof (cases "parsed_type \<in> set ignored_instance_container_types")
    case True
    with assms h p show ?thesis by (simp add: load_instance_def)
  next
    case n: False
    show ?thesis
    proof (cases "getMetaDataEntry (container_metadata ?ic) ''type''")
      case None
      with assms h p n have "st' = load_other_container ids (file_id f) ?ic st"
        by (simp add: load_instance_def Let_def)
      then show ?thesis using load_other_container_frame [of ids "file_id f" ?ic st] by simp
    next
      case (Some ctype)
      consider "ctype \<in> set ignored_instance_container_types"
        | "ctype \<notin> set ignored_instance_container_types" "ctype = ''user''"
        | "ctype \<notin> set ignored_instance_container_types" "ctype \<noteq> ''user''"
          "ctype = ''quality_changes'' \<or> ctype = ''definition_changes''"
        | "ctype \<notin> set ignored_instance_container_types" "ctype \<noteq> ''user''"
          "\<not> (ctype = ''quality_changes'' \<or> ctype = ''definition_changes'')"
        by blast
      then show ?thesis
      proof cases
        case 1
        with assms h p n Some show ?thesis by (simp add: load_instance_def Let_def)
      next
        case 2
        with assms h p n Some obtain c is_live appended where
          l: "load_user_container resolve_strategies (extruder_stack_id_map ids) (file_parser f)
                ?ic st = Inr (c, is_live, appended)"
          and r: "st' = finish_instance (file_id f) (relink_machine ids c) is_live appended
                (st\<lparr>st_user_instance_containers :=
                      st_user_instance_containers st @ [relink_machine ids c]\<rparr>)"
          by (auto simp: load_instance_def Let_def split: sum.splits)
        have "is_live \<longrightarrow> container_id (relink_machine ids c) = file_id f"
          using load_user_container_live [of resolve_strategies _ _ ?ic st c appended] l i
          by (auto simp: relink_machine_id)
        from finish_instance_frame_from [OF this, of _ st appended] r show ?thesis by simp
      next
        case 3
        obtain c is_live appended st1 where
          l: "load_changes_container uniqueName resolve_strategies (extruder_stack_id_map ids)
                ctype (file_parser f) ?ic st = Inr (c, is_live, appended, st1)"
          using assms h p n Some 3
          by (cases "load_changes_container uniqueName resolve_strategies
                (extruder_stack_id_map ids) ctype (file_parser f) ?ic st")
            (auto simp: load_instance_def Let_def)
        let ?st2 = "st1\<lparr>st_changes_instance_containers :=
                         st_changes_instance_containers st1 @ [relink_machine ids c],
                       st_machine_extruder_count :=
                         (case (if ctype = ''definition_changes''
                                then map_of (container_instances c) ''machine_extruder_count''
                                else None) of
                            None \<Rightarrow> st_machine_extruder_count st1
                          | Some v \<Rightarrow> Some v)\<rparr>"
        have r: "st' = finish_instance (file_id f) (relink_machine ids c) is_live appended ?st2"
          using assms h p n Some 3 l by (simp add: load_instance_def Let_def)
        note f1 = load_changes_container_frame [OF l]
        then have "is_live \<longrightarrow> container_id (relink_machine ids c) = file_id f"
          using i by (simp add: relink_machine_id)
        from finish_instance_frame_from [OF this, of ?st2 st appended] r f1
        show ?thesis by simp
      next
        case 4
        with assms h p n Some have "st' = load_other_container ids (file_id f) ?ic st"
          by (simp add: load_instance_def Let_def)
        then show ?thesis using load_other_container_frame [of ids "file_id f" ?ic st] by simp
      qed
    qed
  qed
qed

lemma load_instances_frame:
  "load_instances uniqueName resolve_strategies ids fs st = r
   \<Longrightarrow> (\<forall>e st'. r = Inl (e, st') \<or> r = Inr st' \<longrightarrow>
         identities_of (st_registry st') \<subseteq> identities_of (st_registry st)
         \<and> st_containers_added st' = st_containers_added st)"
proof (induction fs arbitrary: st)
  case Nil
  then show ?case by auto
next
  case (Cons f fs)
  show ?case
  proof (cases "load_instance uniqueName resolve_strategies ids f st")
    case (Inl e)
    with Cons.prems show ?thesis by auto
  next
    case (Inr st1)
    with Cons.prems have "load_instances uniqueName resolve_strategies ids fs st1 = r" by simp
    from Cons.IH [OF this] load_instance_frame [OF Inr] show ?thesis by (metis subset_trans)
  qed
qed

lemma prepare_containers_frame:
  "case prepare_containers uniqueName xml_material_profile resolve_strategies b reg of
     Inl (e, reg1) \<Rightarrow>
       identities_of reg1 \<subseteq> identities_of reg \<union> file_id ` set (bundle_definitions b)
   | Inr (ids, st3) \<Rightarrow>
       identities_of (st_registry st3)
         \<subseteq> identities_of reg \<union> file_id ` set (bundle_definitions b)
       \<and> st_containers_added st3 = []"
proof (cases "plan_identities uniqueName resolve_strategies b (initial_read_state reg)")
  case (Inl e0)
  then show ?thesis by (simp add: prepare_containers_def)
next
  case (Inr planned)
  obtain ids0 st0 where pl: "planned = (ids0, st0)" by (cases planned)
  note f0 = plan_identities_frame [OF Inr [unfolded pl]]
  let ?D = "identities_of reg \<union> file_id ` set (bundle_definitions b)"
  let ?st1 = "st0\<lparr>st_registry := load_definitions (st_registry st0) (bundle_definitions b)\<rparr>"
  have d: "identities_of (st_registry ?st1) \<subseteq> ?D" "st_containers_added ?st1 = []"
    using identities_load_definitions [of "st_registry st0" "bundle_definitions b"] f0
    by (simp_all add: initial_read_state_simps)
  let ?m = "if xml_material_profile
            then load_materials uniqueName resolve_strategies (bundle_materials b) ?st1
            else Inr ?st1"
  have m: "\<forall>e st'. ?m = Inl (e, st') \<or> ?m = Inr st' \<longrightarrow>
         identities_of (st_registry st') \<subseteq> identities_of (st_registry ?st1)
         \<and> st_containers_added st' = st_containers_added ?st1"
    using load_materials_frame [OF refl, of uniqueName resolve_strategies "bundle_materials b" ?st1]
    by (cases xml_material_profile) simp_all
  have unfold: "prepare_containers uniqueName xml_material_profile resolve_strategies b reg
     = (case ?m of
          Inl (e, st) \<Rightarrow> Inl (e, st_registry st)
        | Inr st2 \<Rightarrow>
            (case load_instances uniqueName resolve_strategies ids0 (bundle_instances b) st2 of
               Inl (e, st) \<Rightarrow> Inl (e, st_registry st)
             | Inr st3 \<Rightarrow> Inr (ids0, st3)))"
    using Inr pl by (simp add: prepare_containers_def Let_def)
  show ?thesis
  proof (cases ?m)
    case (Inl failure)
    obtain e1 st1' where fl: "failure = (e1, st1')" by (cases failure)
    from m Inl fl have "identities_of (st_registry st1') \<subseteq> identities_of (st_registry ?st1)"
      by blast
    with d(1) have "identities_of (st_registry st1') \<subseteq> ?D" by (meson order_trans)
    with unfold Inl fl show ?thesis by simp
  next
    case mr: (Inr st2)
    from m mr have "identities_of (st_registry st2) \<subseteq> identities_of (st_registry ?st1)"
      and a2: "st_containers_added st2 = st_containers_added ?st1"
      by blast+
    with d have d2: "identities_of (st_registry st2) \<subseteq> ?D" "st_containers_added st2 = []"
      by (meson order_trans, simp)
    let ?i = "load_instances uniqueName resolve_strategies ids0 (bundle_instances b) st2"
    note fi = load_instances_frame [OF refl, of uniqueName resolve_strategies ids0
        "bundle_instances b" st2]
    show ?thesis
    proof (cases ?i)
      case (Inl failure)
      obtain e1 st1' where fl: "failure = (e1, st1')" by (cases failure)
      from fi Inl fl have "identities_of (st_registry st1') \<subseteq> identities_of (st_registry st2)"
        by blast
      with d2(1) have "identities_of (st_registry st1') \<subseteq> ?D" by (meson order_trans)
      with unfold mr Inl fl show ?thesis by simp
    next
      case ir: (Inr st3')
      from fi ir have "identities_of (st_registry st3') \<subseteq> identities_of (st_registry st2)"
        and "st_containers_added st3' = st_containers_added st2"
        by blast+
      with d2 have "identities_of (st_registry st3') \<subseteq> ?D" "st_containers_added st3' = []"
        by (meson order_trans, simp)
      with unfold mr ir show ?thesis by simp
    qed
  qed
qed

lemma untracked_add_pending: "untracked (add_pending cs st) \<subseteq> untracked st"
proof (induction cs arbitrary: st)
  case Nil
  then show ?case by simp
next
  case (Cons c cs)
  let ?st = "st\<lparr>st_registry := addContainer (st_registry st)
                                  (InstanceContainer (c\<lparr>container_dirty := True\<rparr>)),
               st_containers_added := st_containers_added st @ [container_id c]\<rparr>"
  have "untracked ?st \<subseteq> untracked st"
    by (auto simp: untracked_def identities_addContainer)
  with Cons.IH [of ?st] show ?case by auto
qed

lemma untracked_frame:
  "identities_of (st_registry st') \<subseteq> identities_of (st_registry st) \<union> M
   \<Longrightarrow> st_containers_added st' = st_containers_added st
   \<Longrightarrow> untracked st' \<subseteq> untracked st \<union> M"
  by (auto simp: untracked_def)

lemma identities_builder:
  "identities_of (fst (build reg stack (stack_id stack @ ''_settings'')))
     \<subseteq> identities_of reg \<union> made_by_builder build"
  by (auto simp: made_by_builder_def)

lemma identities_registry_builder:
  "identities_of (fst (build reg machine ''fdmextruder''))
     \<subseteq> identities_of reg \<union> made_by_registry build"
  by (auto simp: made_by_registry_def)

lemma override_global_stack_frame:
  assumes "override_global_stack reg original parser = Inr (reg1, stack)"
  shows "identities_of reg1 \<subseteq> identities_of reg"
proof (cases "findContainerStacks reg original")
  case Nil
  with assms show ?thesis by (simp add: override_global_stack_def)
next
  case (Cons live others)
  have "stack_id (keep_authentication ''network_authentication_key''
                    (getMetaDataEntry (stack_metadata live) ''network_authentication_key'')
                    (keep_authentication ''network_authentication_id''
                       (getMetaDataEntry (stack_metadata live) ''network_authentication_id'')
                       (deserialize_stack parser live))) = original"
    using found_stack_id [OF Cons] by (simp add: keep_authentication_id deserialize_stack_def)
  from identities_store_global_stack [OF this, of reg] assms Cons show ?thesis
    by (auto simp: override_global_stack_def Let_def)
qed

lemma ensure_definition_changes_frame:
  assumes "ensure_definition_changes cdc stack st = Inr (st', g)"
  shows "identities_of (st_registry st') \<subseteq> identities_of (st_registry st) \<union> made_by_builder cdc
       \<and> st_containers_added st' = st_containers_added st"
proof -
  from assms obtain dc where d: "getContainer stack DefinitionChanges = Inr dc"
    by (cases "getContainer stack DefinitionChanges") (simp_all add: ensure_definition_changes_def)
  show ?thesis
  proof (cases "dc = ''empty''")
    case False
    with assms d show ?thesis by (simp add: ensure_definition_changes_def)
  next
    case True
    obtain reg1 created where
      b: "cdc (st_registry st) stack (stack_id stack @ ''_settings'') = (reg1, created)"
      by (cases "cdc (st_registry st) stack (stack_id stack @ ''_settings'')")
    let ?stack1 = "replaceContainer stack DefinitionChanges (container_id created)"
    from assms d True b have s: "st' = st\<lparr>st_registry := store_global_stack reg1 (stack_id stack) ?stack1\<rparr>"
      by (auto simp: ensure_definition_changes_def Let_def)
    have "stack_id ?stack1 = stack_id stack" by (simp add: replaceContainer_def)
    from identities_store_global_stack [OF this, of reg1]
      identities_builder [of cdc "st_registry st" stack] b s
    show ?thesis by auto
  qed
qed

lemma create_global_stack_frame:
  assumes "create_global_stack ids parser st = (st', stack)"
  shows "untracked st' \<subseteq> untracked st"
  using assms
  by (auto simp: create_global_stack_def Let_def untracked_def identities_addContainer)

lemma load_global_stack_frame:
  "case load_global_stack cdc resolve_strategies ids parser st of
     Inl (e, st') \<Rightarrow> untracked st' \<subseteq> untracked st \<union> made_by_builder cdc
   | Inr (st', g) \<Rightarrow> untracked st' \<subseteq> untracked st \<union> made_by_builder cdc"
proof (cases "get_strategy resolve_strategies ''machine''")
  case (Inl e)
  then show ?thesis by (simp add: load_global_stack_def)
next
  case (Inr strategy)
  consider "strategy = Some ''override''" | "strategy \<noteq> Some ''override''" "strategy = Some ''new''"
    | "strategy \<noteq> Some ''override''" "strategy \<noteq> Some ''new''" by blast
  then show ?thesis
  proof cases
    case 1
    show ?thesis
    proof (cases "override_global_stack (st_registry st) (global_stack_id_original ids) parser")
      case (Inl e)
      with Inr 1 show ?thesis by (simp add: load_global_stack_def)
    next
      case r: (Inr overridden)
      obtain reg1 stack where o: "overridden = (reg1, stack)" by (cases overridden)
      let ?st1 = "st\<lparr>st_registry := reg1\<rparr>"
      have u1: "untracked ?st1 \<subseteq> untracked st"
        using override_global_stack_frame [OF r [unfolded o]] by (auto simp: untracked_def)
      show ?thesis
      proof (cases "ensure_definition_changes cdc stack ?st1")
        case (Inl e)
        with Inr 1 r o u1 show ?thesis by (auto simp: load_global_stack_def Let_def)
      next
        case e: (Inr ensured)
        obtain st' g where en: "ensured = (st', g)" by (cases ensured)
        from ensure_definition_changes_frame [OF e [unfolded en]]
        have "untracked st' \<subseteq> untracked ?st1 \<union> made_by_builder cdc"
          by (intro untracked_frame) simp_all
        with u1 have "untracked st' \<subseteq> untracked st \<union> made_by_builder cdc" by auto
        with Inr 1 r o e en show ?thesis by (simp add: load_global_stack_def Let_def)
      qed
    qed
  next
    case 2
    obtain st1 stack where c: "create_global_stack ids parser st = (st1, stack)"
      by (cases "create_global_stack ids parser st")
    note u1 = create_global_stack_frame [OF c]
    show ?thesis
    proof (cases "ensure_definition_changes cdc stack st1")
      case (Inl e)
      with Inr 2 c u1 show ?thesis by (auto simp: load_global_stack_def)
    next
      case e: (Inr ensured)
      obtain st' g where en: "ensured = (st', g)" by (cases ensured)
      from ensure_definition_changes_frame [OF e [unfolded en]]
      have "untracked st' \<subseteq> untracked st1 \<union> made_by_builder cdc"
        by (intro untracked_frame) simp_all
      with u1 have "untracked st' \<subseteq> untracked st \<union> made_by_builder cdc" by auto
      with Inr 2 c e en show ?thesis by (simp add: load_global_stack_def)
    qed
  next
    case 3
    with Inr show ?thesis by (simp add: load_global_stack_def)
  qed
qed

lemma update_live_extruder_frame:
  assumes "update_live_extruder s st global_stack = (st', g)"
  shows "identities_of (st_registry st') \<subseteq> identities_of (st_registry st)
       \<and> st_containers_added st' = st_containers_added st"
proof -
  let ?g = "global_stack\<lparr>extruders :=
              map (\<lambda>(position, e). (position, if stack_id e = stack_id s then s else e))
                (extruders global_stack)\<rparr>"
  from assms have s: "st' = st\<lparr>st_registry :=
      store_global_stack (store_extruder_stack (st_registry st) (stack_id s) s) (stack_id ?g) ?g\<rparr>"
    by (auto simp: update_live_extruder_def Let_def)
  have "identities_of (store_global_stack (store_extruder_stack (st_registry st) (stack_id s) s)
          (stack_id ?g) ?g)
        \<subseteq> identities_of (store_extruder_stack (st_registry st) (stack_id s) s)"
    by (rule identities_store_global_stack) simp
  also have "\<dots> \<subseteq> identities_of (st_registry st)"
    by (rule identities_store_extruder_stack) simp
  finally show ?thesis using s by simp
qed

lemma addExtruder_id: "stack_id (addExtruder machine extruder) = stack_id machine"
  by (simp add: addExtruder_def split: option.splits)

lemma register_extruder_frame:
  assumes "register_extruder extruder st global_stack = (st', g)"
  shows "identities_of (st_registry st') \<subseteq> identities_of (st_registry st)
       \<and> st_containers_added st' = st_containers_added st"
proof (cases "getMetaDataEntry (stack_metadata extruder) ''machine''")
  case None
  with assms show ?thesis by (auto simp: register_extruder_def)
next
  case (Some machine_id)
  show ?thesis
  proof (cases "machine_id = stack_id global_stack")
    case True
    have "identities_of (store_global_stack (st_registry st) machine_id
                           (addExtruder global_stack extruder))
          \<subseteq> identities_of (st_registry st)"
      by (rule identities_store_global_stack) (simp add: addExtruder_id True)
    with assms Some True show ?thesis by (auto simp: register_extruder_def Let_def)
  next
    case False
    show ?thesis
    proof (cases "findContainerStacks (st_registry st) machine_id")
      case Nil
      with assms Some False show ?thesis by (auto simp: register_extruder_def)
    next
      case (Cons machine others)
      have "identities_of (store_global_stack (st_registry st) machine_id
                             (addExtruder machine extruder))
            \<subseteq> identities_of (st_registry st)"
        by (rule identities_store_global_stack)
          (simp add: addExtruder_id found_stack_id [OF Cons])
      with assms Some False Cons show ?thesis by (auto simp: register_extruder_def)
    qed
  qed
qed

lemma overrideExtruderStack_frame:
  assumes "overrideExtruderStack global_stack extruder_config st = Inr (Some (s, st', g))"
  shows "identities_of (st_registry st') \<subseteq> identities_of (st_registry st)
       \<and> st_containers_added st' = st_containers_added st"
proof -
  from assms obtain extruder_position extruder_stack where
    "parser_get extruder_config ''metadata'' ''position'' = Inr extruder_position"
    "map_of (extruders global_stack) extruder_position = Some extruder_stack"
    by (auto simp: overrideExtruderStack_def split: if_splits sum.splits option.splits)
  let ?d = "deserialize_stack extruder_config extruder_stack"
  obtain st1 g1 where u: "update_live_extruder ?d st global_stack = (st1, g1)"
    by (cases "update_live_extruder ?d st global_stack")
  obtain st2 g2 where r: "register_extruder ?d st1 g1 = (st2, g2)"
    by (cases "register_extruder ?d st1 g1")
  from assms \<open>parser_get extruder_config ''metadata'' ''position'' = Inr extruder_position\<close>
    \<open>map_of (extruders global_stack) extruder_position = Some extruder_stack\<close> u r
  have "st' = st2"
    by (auto simp: overrideExtruderStack_def Let_def split: if_splits)
  with update_live_extruder_frame [OF u] register_extruder_frame [OF r] show ?thesis
    by auto
qed

lemma create_extruder_stack_frame:
  "case create_extruder_stack ids f st global_stack of
     Inl (e, st') \<Rightarrow> st' = st
   | Inr (stack, st', g) \<Rightarrow> untracked st' \<subseteq> untracked st"
proof (cases "map_of (extruder_stack_id_map ids) (file_id f)")
  case None
  then show ?thesis by (simp add: create_extruder_stack_def)
next
  case (Some new_id)
  show ?thesis
  proof (cases "parser_set (file_parser f) ''metadata'' ''machine'' (global_stack_id_new ids)")
    case (Inl e)
    with Some show ?thesis by (simp add: create_extruder_stack_def)
  next
    case (Inr extruder_config)
    let ?d = "deserialize_stack extruder_config (new_extruder_stack new_id)"
    obtain st1 g1 where r: "register_extruder ?d st global_stack = (st1, g1)"
      by (cases "register_extruder ?d st global_stack")
    from register_extruder_frame [OF r]
    have "untracked (st1\<lparr>st_registry := addContainer (st_registry st1)
                             (ExtruderStack (?d\<lparr>stack_id := new_id\<rparr>)),
                          st_containers_added := st_containers_added st1 @ [new_id]\<rparr>)
          \<subseteq> untracked st"
      by (auto simp: untracked_def identities_addContainer)
    with Some Inr r show ?thesis by (simp add: create_extruder_stack_def Let_def)
  qed
qed

lemma ensure_extruder_definition_changes_frame:
  assumes "ensure_extruder_definition_changes cdce stack st global_stack = Inr (s, st', g)"
  shows "identities_of (st_registry st') \<subseteq> identities_of (st_registry st) \<union> made_by_builder cdce
       \<and> st_containers_added st' = st_containers_added st"
proof -
  from assms obtain dc where d: "getContainer stack DefinitionChanges = Inr dc"
    by (cases "getContainer stack DefinitionChanges")
      (simp_all add: ensure_extruder_definition_changes_def)
  show ?thesis
  proof (cases "dc = ''empty''")
    case False
    with assms d show ?thesis by (auto simp: ensure_extruder_definition_changes_def)
  next
    case True
    obtain reg1 created where
      b: "cdce (st_registry st) stack (stack_id stack @ ''_settings'') = (reg1, created)"
      by (cases "cdce (st_registry st) stack (stack_id stack @ ''_settings'')")
    let ?stack1 = "replaceContainer stack DefinitionChanges (container_id created)"
    obtain st1 g1 where
      u: "update_live_extruder ?stack1 (st\<lparr>st_registry := reg1\<rparr>) global_stack = (st1, g1)"
      by (cases "update_live_extruder ?stack1 (st\<lparr>st_registry := reg1\<rparr>) global_stack")
    from assms d True b u have "st' = st1"
      by (auto simp: ensure_extruder_definition_changes_def Let_def)
    with update_live_extruder_frame [OF u] identities_builder [of cdce "st_registry st" stack] b
    show ?thesis by auto
  qed
qed

lemma load_extruder_stack_frame:
  "case load_extruder_stack cdce resolve_strategies ids f st global_stack extruder_stacks of
     Inl (e, st') \<Rightarrow> untracked st' \<subseteq> untracked st \<union> made_by_builder cdce
   | Inr (st', g, es) \<Rightarrow> untracked st' \<subseteq> untracked st \<union> made_by_builder cdce"
proof (cases "get_strategy resolve_strategies ''machine''")
  case (Inl e)
  then show ?thesis by (simp add: load_extruder_stack_def)
next
  case (Inr strategy)
  let ?step = "if strategy = Some ''override'' then
                   (case overrideExtruderStack global_stack (file_parser f) st of
                      Inl e \<Rightarrow> Inl (e, st)
                    | Inr overridden \<Rightarrow> Inr overridden)
                 else if strategy = Some ''new'' then
                   (case create_extruder_stack ids f st global_stack of
                      Inl failure \<Rightarrow> Inl failure
                    | Inr created \<Rightarrow> Inr (Some created))
                 else Inr None"
  have unfold: "load_extruder_stack cdce resolve_strategies ids f st global_stack extruder_stacks
    = (case ?step of
         Inl failure \<Rightarrow> Inl failure
       | Inr None \<Rightarrow> Inr (st, global_stack, extruder_stacks)
       | Inr (Some (stack, st1, g1)) \<Rightarrow>
           (case ensure_extruder_definition_changes cdce stack st1 g1 of
              Inl e \<Rightarrow> Inl (e, st1)
            | Inr (stack1, st2, g2) \<Rightarrow>
                Inr (st2, g2,
                     if getMetaDataEntry (stack_metadata stack1) ''type'' = Some ''extruder_train''
                     then extruder_stacks @ [stack1] else extruder_stacks)))"
    using Inr by (simp add: load_extruder_stack_def)
  have step: "case ?step of
       Inl (e, st') \<Rightarrow> st' = st
     | Inr None \<Rightarrow> True
     | Inr (Some (stack, st1, g1)) \<Rightarrow> untracked st1 \<subseteq> untracked st"
  proof (cases "strategy = Some ''override''")
    case True
    show ?thesis
    proof (cases "overrideExtruderStack global_stack (file_parser f) st")
      case (Inl e)
      with True show ?thesis by simp
    next
      case r: (Inr overridden)
      show ?thesis
      proof (cases overridden)
        case None
        with True r show ?thesis by simp
      next
        case (Some triple)
        obtain stack st1 g1 where t: "triple = (stack, st1, g1)" by (cases triple)
        from overrideExtruderStack_frame [OF r [unfolded Some t]]
        have "untracked st1 \<subseteq> untracked st" by (auto simp: untracked_def)
        with True r Some t show ?thesis by simp
      qed
    qed
  next
    case False
    show ?thesis
    proof (cases "strategy = Some ''new''")
      case n: False
      with False show ?thesis by simp
    next
      case True
      with False create_extruder_stack_frame [where ids = ids and f = f and st = st and global_stack = global_stack] show ?thesis
        by (auto split: sum.splits)
    qed
  qed
  show ?thesis
  proof (cases ?step)
    case (Inl failure)
    obtain e st' where "failure = (e, st')" by (cases failure)
    with Inl step unfold show ?thesis by simp
  next
    case r: (Inr result)
    show ?thesis
    proof (cases result)
      case None
      with r unfold show ?thesis by simp
    next
      case (Some triple)
      obtain stack st1 g1 where t: "triple = (stack, st1, g1)" by (cases triple)
      from step r Some t have u1: "untracked st1 \<subseteq> untracked st" by simp
      show ?thesis
      proof (cases "ensure_extruder_definition_changes cdce stack st1 g1")
        case (Inl e)
        with r Some t unfold u1 show ?thesis by auto
      next
        case e: (Inr ensured)
        obtain stack1 st2 g2 where en: "ensured = (stack1, st2, g2)" by (cases ensured)
        from ensure_extruder_definition_changes_frame [OF e [unfolded en]]
        have "untracked st2 \<subseteq> untracked st1 \<union> made_by_builder cdce"
          by (intro untracked_frame) simp_all
        with u1 have "untracked st2 \<subseteq> untracked st \<union> made_by_builder cdce" by auto
        with r Some t unfold e en show ?thesis by simp
      qed
    qed
  qed
qed

lemma load_extruder_stack_files_frame:
  "case load_extruder_stack_files cdce resolve_strategies ids fs st global_stack extruder_stacks of
     Inl (e, st') \<Rightarrow> untracked st' \<subseteq> untracked st \<union> made_by_builder cdce
   | Inr (st', g, es) \<Rightarrow> untracked st' \<subseteq> untracked st \<union> made_by_builder cdce"
proof (induction fs arbitrary: st global_stack extruder_stacks)
  case Nil
  then show ?case by simp
next
  case (Cons f fs)
  note one = load_extruder_stack_frame [where cdce = cdce and resolve_strategies = resolve_strategies
    and ids = ids and f = f and st = st and global_stack = global_stack
    and extruder_stacks = extruder_stacks]
  show ?case
  proof (cases "load_extruder_stack cdce resolve_strategies ids f st global_stack extruder_stacks")
    case (Inl failure)
    with one show ?thesis by simp
  next
    case (Inr result)
    obtain st1 g1 es1 where r: "result = (st1, g1, es1)" by (cases result)
    from one Inr r have u1: "untracked st1 \<subseteq> untracked st \<union> made_by_builder cdce" by simp
    from Cons.IH [where st = st1 and global_stack = g1 and extruder_stacks = es1] u1 Inr r show ?thesis
      by (auto split: sum.splits)
  qed
qed

lemma add_single_extruder_stack_frame:
  "case add_single_extruder_stack single resolve_strategies st global_stack extruder_stacks of
     Inl (e, st') \<Rightarrow> untracked st' \<subseteq> untracked st \<union> made_by_registry single
   | Inr (st', g, es) \<Rightarrow> untracked st' \<subseteq> untracked st \<union> made_by_registry single"
proof (cases "extruder_stacks \<noteq> []")
  case True
  then show ?thesis by (simp add: add_single_extruder_stack_def)
next
  case False
  obtain reg1 g1 made where
    b: "single (st_registry st) global_stack ''fdmextruder'' = (reg1, g1, made)"
    by (cases "single (st_registry st) global_stack ''fdmextruder''") auto
  let ?st1 = "st\<lparr>st_registry := reg1\<rparr>"
  have u1: "untracked ?st1 \<subseteq> untracked st \<union> made_by_registry single"
    using identities_registry_builder [of single "st_registry st" global_stack] b
    by (intro untracked_frame) simp_all
  have live: "untracked (fst (update_live_extruder s ?st1 g1))
                \<subseteq> untracked st \<union> made_by_registry single" for s
  proof -
    obtain st2 g2 where u: "update_live_extruder s ?st1 g1 = (st2, g2)"
      by (cases "update_live_extruder s ?st1 g1")
    from update_live_extruder_frame [OF u] have "untracked st2 \<subseteq> untracked ?st1"
      by (auto simp: untracked_def)
    with u1 u show ?thesis by auto
  qed
  show ?thesis
  proof (cases made)
    case None
    with False b u1 show ?thesis by (simp add: add_single_extruder_stack_def)
  next
    case (Some stack)
    show ?thesis
    proof (cases "get_strategy resolve_strategies ''machine''")
      case (Inl e)
      with False b Some u1 show ?thesis by (simp add: add_single_extruder_stack_def)
    next
      case (Inr strategy)
      show ?thesis
      proof (cases "strategy = Some ''override''")
        case n: False
        with False b Some Inr u1 show ?thesis by (simp add: add_single_extruder_stack_def)
      next
        case True
        show ?thesis
        proof (cases "getMetaDataEntry (stack_metadata stack) ''position''")
          case None
          with False b Some Inr True u1 show ?thesis
            by (simp add: add_single_extruder_stack_def)
        next
          case p: (Some position)
          show ?thesis
          proof (cases "map_of (extruders g1) position")
            case None
            with False b Some Inr True p u1 show ?thesis
              by (simp add: add_single_extruder_stack_def)
          next
            case x: (Some existing)
            show ?thesis
            proof (cases "replace_containers [0..<7] existing stack")
              case (Inl failure)
              obtain e changed where "failure = (e, changed)" by (cases failure)
              with False b Some Inr True p x Inl live [of changed] show ?thesis
                by (simp add: add_single_extruder_stack_def)
            next
              case r: (Inr replaced)
              obtain st2 g2 where u: "update_live_extruder replaced ?st1 g1 = (st2, g2)"
                by (cases "update_live_extruder replaced ?st1 g1")
              with live [of replaced] have "untracked st2 \<subseteq> untracked st \<union> made_by_registry single"
                by simp
              with False b Some Inr True p x r u show ?thesis
                by (simp add: add_single_extruder_stack_def)
            qed
          qed
        qed
      qed
    qed
  qed
qed

lemma load_extruder_stacks_frame:
  "case load_extruder_stacks cdce single resolve_strategies ids fs st global_stack of
     Inl (e, st') \<Rightarrow>
       untracked st' \<subseteq> untracked st \<union> made_by_builder cdce \<union> made_by_registry single
   | Inr (st', g, es) \<Rightarrow>
       untracked st' \<subseteq> untracked st \<union> made_by_builder cdce \<union> made_by_registry single"
proof (cases "load_extruder_stack_files cdce resolve_strategies ids fs st global_stack []")
  case (Inl failure)
  obtain e st' where "failure = (e, st')" by (cases failure)
  with Inl load_extruder_stack_files_frame [where cdce = cdce and resolve_strategies = resolve_strategies
      and ids = ids and fs = fs and st = st and global_stack = global_stack and extruder_stacks = "[]"]
  show ?thesis by (auto simp: load_extruder_stacks_def)
next
  case (Inr result)
  obtain st1 g1 es1 where r: "result = (st1, g1, es1)" by (cases result)
  from Inr r load_extruder_stack_files_frame [where cdce = cdce
      and resolve_strategies = resolve_strategies
      and ids = ids and fs = fs and st = st and global_stack = global_stack and extruder_stacks = "[]"]
  have u1: "untracked st1 \<subseteq> untracked st \<union> made_by_builder cdce" by simp
  from add_single_extruder_stack_frame [where single = single
      and resolve_strategies = resolve_strategies and st = st1 and global_stack = g1
      and extruder_stacks = es1] u1 Inr r
  show ?thesis by (auto simp: load_extruder_stacks_def split: sum.splits)
qed

lemma load_global_stack_strategy:
  assumes "load_global_stack cdc resolve_strategies ids parser st = Inr loaded"
  shows "get_strategy resolve_strategies ''machine'' = Inr (Some ''override'')
       \<or> get_strategy resolve_strategies ''machine'' = Inr (Some ''new'')"
  using assms by (auto simp: load_global_stack_def split: sum.splits if_splits)

lemma untracked_after_handler:
  "identities_of (remove_added (st_registry st) (st_containers_added st)) = untracked st"
  by (simp add: identities_remove_added untracked_def)


lemma read_broken_project:
  "read_write_pass numbered_name settings_builder extruder_settings_builder no_single_extruder
     True new_machine_strategies broken_project networked_registry
   = Failure registry_after_extruder_failure [''new_profile'', ''um3 #2'']"
  by code_simp

lemma read_project_new_machine:
  "read_write_pass numbered_name settings_builder extruder_settings_builder no_single_extruder
     True new_machine_strategies project networked_registry
   = Exception AttributeError registry_with_definition"
  by code_simp


lemma read_project:
  "read_write_pass numbered_name settings_builder extruder_settings_builder no_single_extruder
     True unset_strategies project networked_registry
   = Failure registry_after_failure [''new_profile'']"
  by code_simp


end
